theory Spec2Isabelle
  imports Main "HOL-Library.Word" "HOL-Library.List_Lexorder" "HOL-Library.Char_ord"
begin

unbundle bit_operations_syntax

section \<open>Builds, errors and machine integers\<close>

type_synonym u8 = "8 word"
type_synonym u16 = "16 word"
type_synonym u32 = "32 word"

text \<open>
  The \<^verbatim>\<open>Version\<close> enumeration. Its declaration is outside the files at hand; the order
  of the first fourteen enumerators is fixed by the \<^verbatim>\<open>static_assert\<close>s on \<^verbatim>\<open>v_flag\<close> in
  QuestScript.cc (PC_PATCH is 0, BB_PATCH is 1, DC_NTE is 2, ..., BB_V4 is 13).
\<close>

datatype version =
    PC_PATCH | BB_PATCH | DC_NTE | DC_V1_11_2000_PROTOTYPE | DC_V1 | DC_V2
  | PC_NTE | PC_V2 | GC_NTE | GC_V3 | GC_EP3_NTE | GC_EP3 | XB_V3 | BB_V4 | UNKNOWN

text \<open>
  The \<^verbatim>\<open>Episode\<close> enumeration, with the enumerators QuestScript.cc names.
\<close>

datatype episode = NONE | EP1 | EP2 | EP4

text \<open>
  C++ exceptions as values. \<^verbatim>\<open>out_of_range\<close> is what a reader throws at the end of its
  buffer, what \<^verbatim>\<open>map::at\<close> throws and what the integer parsers throw on overflow;
  \<^verbatim>\<open>invalid_argument\<close> is what the integer parsers throw when there is no number to
  read; the two others carry the message of the \<^verbatim>\<open>throw\<close> statement (formatted values
  are left out of the message). The last two are no exceptions but undefined behaviour:
  \<open>array_read_past_end i\<close> marks a read of a \<^verbatim>\<open>std::array\<close> with \<^verbatim>\<open>operator[]\<close> at an
  index \<open>i\<close> past its last element, and \<open>division_by_zero\<close> an integer modulo by zero.
\<close>

datatype error = out_of_range | invalid_argument | runtime_error string | logic_error string
  | array_read_past_end nat | division_by_zero

fun version_number :: "version \<Rightarrow> nat" where
  "version_number PC_PATCH = 0"
| "version_number BB_PATCH = 1"
| "version_number DC_NTE = 2"
| "version_number DC_V1_11_2000_PROTOTYPE = 3"
| "version_number DC_V1 = 4"
| "version_number DC_V2 = 5"
| "version_number PC_NTE = 6"
| "version_number PC_V2 = 7"
| "version_number GC_NTE = 8"
| "version_number GC_V3 = 9"
| "version_number GC_EP3_NTE = 10"
| "version_number GC_EP3 = 11"
| "version_number XB_V3 = 12"
| "version_number BB_V4 = 13"
| "version_number UNKNOWN = 15"

definition v_flag :: "version \<Rightarrow> u16" where
  "v_flag v = push_bit (version_number v) 1"

section \<open>The opcode dictionary\<close>

datatype arg_type =
    LABEL16 | LABEL16_SET | LABEL32 | REG | REG_SET | REG_SET_FIXED | REG32
  | REG32_SET_FIXED | INT8 | INT16 | INT32 | FLOAT32 | CSTRING

datatype data_type =
    DT_NONE | DT_SCRIPT | DT_DATA | DT_CSTRING | DT_PLAYER_STATS | DT_PLAYER_VISUAL_CONFIG
  | DT_RESIST_DATA | DT_ATTACK_DATA | DT_MOVEMENT_DATA | DT_IMAGE_DATA | DT_UNKNOWN_F8F2_DATA

text \<open>
  \<^verbatim>\<open>QuestScriptOpcodeDefinition::Argument\<close>. The display name of an argument is never
  read by the code below and is left out.
\<close>

datatype argument = Argument (arg_type: arg_type) (arg_count: nat) (arg_data_type: data_type)

definition Arg :: "arg_type \<Rightarrow> argument" where
  "Arg t = Argument t 0 DT_NONE"

definition ArgN :: "arg_type \<Rightarrow> nat \<Rightarrow> argument" where
  "ArgN t n = Argument t n DT_NONE"

definition ArgD :: "arg_type \<Rightarrow> data_type \<Rightarrow> argument" where
  "ArgD t d = Argument t 0 d"

definition SCRIPT16 :: argument where "SCRIPT16 = ArgD LABEL16 DT_SCRIPT"
definition SCRIPT16_SET :: argument where "SCRIPT16_SET = ArgD LABEL16_SET DT_SCRIPT"
definition SCRIPT32 :: argument where "SCRIPT32 = ArgD LABEL32 DT_SCRIPT"
definition DATA16 :: argument where "DATA16 = ArgD LABEL16 DT_DATA"
definition CSTRING_LABEL16 :: argument where "CSTRING_LABEL16 = ArgD LABEL16 DT_CSTRING"
definition CLIENT_ID :: argument where "CLIENT_ID = ArgN INT32 0"
definition ITEM_ID :: argument where "ITEM_ID = ArgN INT32 0"
definition AREA :: argument where "AREA = ArgN INT32 0"

lemmas arg_defs = Arg_def ArgN_def ArgD_def SCRIPT16_def SCRIPT16_SET_def SCRIPT32_def
  DATA16_def CSTRING_LABEL16_def CLIENT_ID_def ITEM_ID_def AREA_def

datatype opcode_def = OpDef (op_opcode: u16) (op_name: string) (op_qedit_name: "string option")
  (op_args: "argument list") (op_flags: u16)

definition F_PASS :: u16 where "F_PASS = 0x0001"
definition F_ARGS :: u16 where "F_ARGS = 0x0002"
definition F_DC_NTE :: u16 where "F_DC_NTE = 0x0004"
definition F_DC_112000 :: u16 where "F_DC_112000 = 0x0008"
definition F_DC_V1 :: u16 where "F_DC_V1 = 0x0010"
definition F_DC_V2 :: u16 where "F_DC_V2 = 0x0020"
definition F_PC_NTE :: u16 where "F_PC_NTE = 0x0040"
definition F_PC_V2 :: u16 where "F_PC_V2 = 0x0080"
definition F_GC_NTE :: u16 where "F_GC_NTE = 0x0100"
definition F_GC_V3 :: u16 where "F_GC_V3 = 0x0200"
definition F_GC_EP3TE :: u16 where "F_GC_EP3TE = 0x0400"
definition F_GC_EP3 :: u16 where "F_GC_EP3 = 0x0800"
definition F_XB_V3 :: u16 where "F_XB_V3 = 0x1000"
definition F_BB_V4 :: u16 where "F_BB_V4 = 0x2000"
definition F_RET :: u16 where "F_RET = 0x4000"
definition F_SET_EPISODE :: u16 where "F_SET_EPISODE = 0x8000"

definition F_V0_V2 :: u16 where
  "F_V0_V2 = F_DC_NTE OR F_DC_112000 OR F_DC_V1 OR F_DC_V2 OR F_PC_NTE OR F_PC_V2 OR F_GC_NTE"
definition F_V0_V4 :: u16 where
  "F_V0_V4 = F_DC_NTE OR F_DC_112000 OR F_DC_V1 OR F_DC_V2 OR F_PC_NTE OR F_PC_V2 OR F_GC_NTE
     OR F_GC_V3 OR F_GC_EP3TE OR F_GC_EP3 OR F_XB_V3 OR F_BB_V4"
definition F_V05_V2 :: u16 where
  "F_V05_V2 = F_DC_112000 OR F_DC_V1 OR F_DC_V2 OR F_PC_NTE OR F_PC_V2 OR F_GC_NTE"
definition F_V05_V4 :: u16 where
  "F_V05_V4 = F_DC_112000 OR F_DC_V1 OR F_DC_V2 OR F_PC_NTE OR F_PC_V2 OR F_GC_NTE
     OR F_GC_V3 OR F_GC_EP3TE OR F_GC_EP3 OR F_XB_V3 OR F_BB_V4"
definition F_V1_V2 :: u16 where
  "F_V1_V2 = F_DC_V1 OR F_DC_V2 OR F_PC_NTE OR F_PC_V2 OR F_GC_NTE"
definition F_V1_V4 :: u16 where
  "F_V1_V4 = F_DC_V1 OR F_DC_V2 OR F_PC_NTE OR F_PC_V2 OR F_GC_NTE
     OR F_GC_V3 OR F_GC_EP3TE OR F_GC_EP3 OR F_XB_V3 OR F_BB_V4"
definition F_V2 :: u16 where
  "F_V2 = F_DC_V2 OR F_PC_NTE OR F_PC_V2 OR F_GC_NTE"
definition F_V2_V4 :: u16 where
  "F_V2_V4 = F_DC_V2 OR F_PC_NTE OR F_PC_V2 OR F_GC_NTE
     OR F_GC_V3 OR F_GC_EP3TE OR F_GC_EP3 OR F_XB_V3 OR F_BB_V4"
definition F_V3 :: u16 where
  "F_V3 = F_GC_V3 OR F_GC_EP3TE OR F_GC_EP3 OR F_XB_V3"
definition F_V3_V4 :: u16 where
  "F_V3_V4 = F_GC_V3 OR F_GC_EP3TE OR F_GC_EP3 OR F_XB_V3 OR F_BB_V4"
definition F_V4 :: u16 where
  "F_V4 = F_BB_V4"
definition F_HAS_ARGS :: u16 where
  "F_HAS_ARGS = F_V3_V4"

lemmas flag_defs = F_PASS_def F_ARGS_def F_DC_NTE_def F_DC_112000_def F_DC_V1_def F_DC_V2_def
  F_PC_NTE_def F_PC_V2_def F_GC_NTE_def F_GC_V3_def F_GC_EP3TE_def F_GC_EP3_def F_XB_V3_def
  F_BB_V4_def F_RET_def F_SET_EPISODE_def F_V0_V2_def F_V0_V4_def F_V05_V2_def F_V05_V4_def
  F_V1_V2_def F_V1_V4_def F_V2_def F_V2_V4_def F_V3_def F_V3_V4_def F_V4_def F_HAS_ARGS_def

text \<open>The table \<^verbatim>\<open>opcode_defs\<close>, row for row.\<close>

definition opcode_defs_0000 :: "opcode_def list" where
  "opcode_defs_0000 = [
   OpDef 0x0000 ''nop'' None [] (F_V0_V4),
   OpDef 0x0001 ''ret'' None [] (F_V0_V4 OR F_RET),
   OpDef 0x0002 ''sync'' None [] (F_V0_V4),
   OpDef 0x0003 ''exit'' None [(Arg INT32)] (F_V0_V4),
   OpDef 0x0004 ''thread'' None [SCRIPT16] (F_V0_V4),
   OpDef 0x0005 ''va_start'' None [] (F_V3_V4),
   OpDef 0x0006 ''va_end'' None [] (F_V3_V4),
   OpDef 0x0007 ''va_call'' None [SCRIPT16] (F_V3_V4),
   OpDef 0x0008 ''let'' None [(Arg REG), (Arg REG)] (F_V0_V4),
   OpDef 0x0009 ''leti'' None [(Arg REG), (Arg INT32)] (F_V0_V4),
   OpDef 0x000A ''leta'' None [(Arg REG), (Arg REG)] (F_V0_V2),
   OpDef 0x000A ''letb'' None [(Arg REG), (Arg INT8)] (F_V3_V4),
   OpDef 0x000B ''letw'' None [(Arg REG), (Arg INT16)] (F_V3_V4),
   OpDef 0x000C ''leta'' None [(Arg REG), (Arg REG)] (F_V3_V4),
   OpDef 0x000D ''leto'' None [(Arg REG), SCRIPT16] (F_V3_V4),
   OpDef 0x0010 ''set'' None [(Arg REG)] (F_V0_V4),
   OpDef 0x0011 ''clear'' None [(Arg REG)] (F_V0_V4),
   OpDef 0x0012 ''rev'' None [(Arg REG)] (F_V0_V4),
   OpDef 0x0013 ''gset'' None [(Arg INT16)] (F_V0_V4),
   OpDef 0x0014 ''gclear'' None [(Arg INT16)] (F_V0_V4),
   OpDef 0x0015 ''grev'' None [(Arg INT16)] (F_V0_V4),
   OpDef 0x0016 ''glet'' None [(Arg INT16), (Arg REG)] (F_V0_V4),
   OpDef 0x0017 ''gget'' None [(Arg INT16), (Arg REG)] (F_V0_V4),
   OpDef 0x0018 ''add'' None [(Arg REG), (Arg REG)] (F_V0_V4)
  ]"

definition opcode_defs_0019 :: "opcode_def list" where
  "opcode_defs_0019 = [
   OpDef 0x0019 ''addi'' None [(Arg REG), (Arg INT32)] (F_V0_V4),
   OpDef 0x001A ''sub'' None [(Arg REG), (Arg REG)] (F_V0_V4),
   OpDef 0x001B ''subi'' None [(Arg REG), (Arg INT32)] (F_V0_V4),
   OpDef 0x001C ''mul'' None [(Arg REG), (Arg REG)] (F_V0_V4),
   OpDef 0x001D ''muli'' None [(Arg REG), (Arg INT32)] (F_V0_V4),
   OpDef 0x001E ''div'' None [(Arg REG), (Arg REG)] (F_V0_V4),
   OpDef 0x001F ''divi'' None [(Arg REG), (Arg INT32)] (F_V0_V4),
   OpDef 0x0020 ''and'' None [(Arg REG), (Arg REG)] (F_V0_V4),
   OpDef 0x0021 ''andi'' None [(Arg REG), (Arg INT32)] (F_V0_V4),
   OpDef 0x0022 ''or'' None [(Arg REG), (Arg REG)] (F_V0_V4),
   OpDef 0x0023 ''ori'' None [(Arg REG), (Arg INT32)] (F_V0_V4),
   OpDef 0x0024 ''xor'' None [(Arg REG), (Arg REG)] (F_V0_V4),
   OpDef 0x0025 ''xori'' None [(Arg REG), (Arg INT32)] (F_V0_V4),
   OpDef 0x0026 ''mod'' None [(Arg REG), (Arg REG)] (F_V3_V4),
   OpDef 0x0027 ''modi'' None [(Arg REG), (Arg INT32)] (F_V3_V4),
   OpDef 0x0028 ''jmp'' None [SCRIPT16] (F_V0_V4),
   OpDef 0x0029 ''call'' None [SCRIPT16] (F_V0_V4),
   OpDef 0x002A ''jmp_on'' None [SCRIPT16, (Arg REG_SET)] (F_V0_V4),
   OpDef 0x002B ''jmp_off'' None [SCRIPT16, (Arg REG_SET)] (F_V0_V4),
   OpDef 0x002C ''jmp_eq'' (Some ''jmp_='') [(Arg REG), (Arg REG), SCRIPT16] (F_V0_V4),
   OpDef 0x002D ''jmpi_eq'' (Some ''jmpi_='') [(Arg REG), (Arg INT32), SCRIPT16] (F_V0_V4),
   OpDef 0x002E ''jmp_ne'' (Some ''jmp_!='') [(Arg REG), (Arg REG), SCRIPT16] (F_V0_V4),
   OpDef 0x002F ''jmpi_ne'' (Some ''jmpi_!='') [(Arg REG), (Arg INT32), SCRIPT16] (F_V0_V4),
   OpDef 0x0030 ''ujmp_gt'' (Some ''ujmp_>'') [(Arg REG), (Arg REG), SCRIPT16] (F_V0_V4)
  ]"

definition opcode_defs_0031 :: "opcode_def list" where
  "opcode_defs_0031 = [
   OpDef 0x0031 ''ujmpi_gt'' (Some ''ujmpi_>'') [(Arg REG), (Arg INT32), SCRIPT16] (F_V0_V4),
   OpDef 0x0032 ''jmp_gt'' (Some ''jmp_>'') [(Arg REG), (Arg REG), SCRIPT16] (F_V0_V4),
   OpDef 0x0033 ''jmpi_gt'' (Some ''jmpi_>'') [(Arg REG), (Arg INT32), SCRIPT16] (F_V0_V4),
   OpDef 0x0034 ''ujmp_lt'' (Some ''ujmp_<'') [(Arg REG), (Arg REG), SCRIPT16] (F_V0_V4),
   OpDef 0x0035 ''ujmpi_lt'' (Some ''ujmpi_<'') [(Arg REG), (Arg INT32), SCRIPT16] (F_V0_V4),
   OpDef 0x0036 ''jmp_lt'' (Some ''jmp_<'') [(Arg REG), (Arg REG), SCRIPT16] (F_V0_V4),
   OpDef 0x0037 ''jmpi_lt'' (Some ''jmpi_<'') [(Arg REG), (Arg INT32), SCRIPT16] (F_V0_V4),
   OpDef 0x0038 ''ujmp_ge'' (Some ''ujmp_>='') [(Arg REG), (Arg REG), SCRIPT16] (F_V0_V4),
   OpDef 0x0039 ''ujmpi_ge'' (Some ''ujmpi_>='') [(Arg REG), (Arg INT32), SCRIPT16] (F_V0_V4),
   OpDef 0x003A ''jmp_ge'' (Some ''jmp_>='') [(Arg REG), (Arg REG), SCRIPT16] (F_V0_V4),
   OpDef 0x003B ''jmpi_ge'' (Some ''jmpi_>='') [(Arg REG), (Arg INT32), SCRIPT16] (F_V0_V4),
   OpDef 0x003C ''ujmp_le'' (Some ''ujmp_<='') [(Arg REG), (Arg REG), SCRIPT16] (F_V0_V4),
   OpDef 0x003D ''ujmpi_le'' (Some ''ujmpi_<='') [(Arg REG), (Arg INT32), SCRIPT16] (F_V0_V4),
   OpDef 0x003E ''jmp_le'' (Some ''jmp_<='') [(Arg REG), (Arg REG), SCRIPT16] (F_V0_V4),
   OpDef 0x003F ''jmpi_le'' (Some ''jmpi_<='') [(Arg REG), (Arg INT32), SCRIPT16] (F_V0_V4),
   OpDef 0x0040 ''switch_jmp'' None [(Arg REG), SCRIPT16_SET] (F_V0_V4),
   OpDef 0x0041 ''switch_call'' None [(Arg REG), SCRIPT16_SET] (F_V0_V4),
   OpDef 0x0042 ''nop_42'' None [(Arg INT32)] (F_V0_V2),
   OpDef 0x0042 ''stack_push'' None [(Arg REG)] (F_V3_V4),
   OpDef 0x0043 ''stack_pop'' None [(Arg REG)] (F_V3_V4),
   OpDef 0x0044 ''stack_pushm'' None [(Arg REG), (Arg INT32)] (F_V3_V4),
   OpDef 0x0045 ''stack_popm'' None [(Arg REG), (Arg INT32)] (F_V3_V4),
   OpDef 0x0048 ''arg_pushr'' None [(Arg REG)] (F_V3_V4 OR F_PASS),
   OpDef 0x0049 ''arg_pushl'' None [(Arg INT32)] (F_V3_V4 OR F_PASS)
  ]"

definition opcode_defs_004A :: "opcode_def list" where
  "opcode_defs_004A = [
   OpDef 0x004A ''arg_pushb'' None [(Arg INT8)] (F_V3_V4 OR F_PASS),
   OpDef 0x004B ''arg_pushw'' None [(Arg INT16)] (F_V3_V4 OR F_PASS),
   OpDef 0x004C ''arg_pusha'' None [(Arg REG)] (F_V3_V4 OR F_PASS),
   OpDef 0x004D ''arg_pusho'' None [(Arg LABEL16)] (F_V3_V4 OR F_PASS),
   OpDef 0x004E ''arg_pushs'' None [(Arg CSTRING)] (F_V3_V4 OR F_PASS),
   OpDef 0x0050 ''message'' None [(Arg INT32), (Arg CSTRING)] (F_V0_V4 OR F_ARGS),
   OpDef 0x0051 ''list'' None [(Arg REG), (Arg CSTRING)] (F_V0_V4 OR F_ARGS),
   OpDef 0x0052 ''fadein'' None [] (F_V0_V4),
   OpDef 0x0053 ''fadeout'' None [] (F_V0_V4),
   OpDef 0x0054 ''se'' None [(Arg INT32)] (F_V0_V4 OR F_ARGS),
   OpDef 0x0055 ''bgm'' None [(Arg INT32)] (F_V0_V4 OR F_ARGS),
   OpDef 0x0056 ''nop_56'' None [] (F_V0_V2),
   OpDef 0x0057 ''nop_57'' None [] (F_V0_V2),
   OpDef 0x0058 ''nop_58'' (Some ''enable'') [(Arg INT32)] (F_V0_V2),
   OpDef 0x0059 ''nop_59'' (Some ''disable'') [(Arg INT32)] (F_V0_V2),
   OpDef 0x005A ''window_msg'' None [(Arg CSTRING)] (F_V0_V4 OR F_ARGS),
   OpDef 0x005B ''add_msg'' None [(Arg CSTRING)] (F_V0_V4 OR F_ARGS),
   OpDef 0x005C ''mesend'' None [] (F_V0_V4),
   OpDef 0x005D ''gettime'' None [(Arg REG)] (F_V0_V4),
   OpDef 0x005E ''winend'' None [] (F_V0_V4),
   OpDef 0x0060 ''npc_crt'' (Some ''npc_crt_V1'') [(Arg INT32), (Arg INT32)] (F_V0_V2 OR F_ARGS),
   OpDef 0x0060 ''npc_crt'' (Some ''npc_crt_V3'') [(Arg INT32), (Arg INT32)] (F_V3_V4 OR F_ARGS),
   OpDef 0x0061 ''npc_stop'' None [(Arg INT32)] (F_V0_V4 OR F_ARGS),
   OpDef 0x0062 ''npc_play'' None [(Arg INT32)] (F_V0_V4 OR F_ARGS)
  ]"

definition opcode_defs_0063 :: "opcode_def list" where
  "opcode_defs_0063 = [
   OpDef 0x0063 ''npc_kill'' None [(Arg INT32)] (F_V0_V4 OR F_ARGS),
   OpDef 0x0064 ''npc_nont'' None [] (F_V0_V4),
   OpDef 0x0065 ''npc_talk'' None [] (F_V0_V4),
   OpDef 0x0066 ''npc_crp'' (Some ''npc_crp_V1'') [(ArgN REG_SET_FIXED 6), (Arg INT32)] (F_V0_V2),
   OpDef 0x0066 ''npc_crp'' (Some ''npc_crp_V3'') [(ArgN REG_SET_FIXED 6)] (F_V3_V4),
   OpDef 0x0068 ''create_pipe'' None [(Arg INT32)] (F_V0_V4 OR F_ARGS),
   OpDef 0x0069 ''p_hpstat'' (Some ''p_hpstat_V1'') [(Arg REG), CLIENT_ID] (F_V0_V2 OR F_ARGS),
   OpDef 0x0069 ''p_hpstat'' (Some ''p_hpstat_V3'') [(Arg REG), CLIENT_ID] (F_V3_V4 OR F_ARGS),
   OpDef 0x006A ''p_dead'' (Some ''p_dead_V1'') [(Arg REG), CLIENT_ID] (F_V0_V2 OR F_ARGS),
   OpDef 0x006A ''p_dead'' (Some ''p_dead_V3'') [(Arg REG), CLIENT_ID] (F_V3_V4 OR F_ARGS),
   OpDef 0x006B ''p_disablewarp'' None [] (F_V0_V4),
   OpDef 0x006C ''p_enablewarp'' None [] (F_V0_V4),
   OpDef 0x006D ''p_move'' (Some ''p_move_v1'') [(ArgN REG_SET_FIXED 5), (Arg INT32)] (F_V0_V2),
   OpDef 0x006D ''p_move'' (Some ''p_move_V3'') [(ArgN REG_SET_FIXED 5)] (F_V3_V4),
   OpDef 0x006E ''p_look'' None [CLIENT_ID] (F_V0_V4 OR F_ARGS),
   OpDef 0x0070 ''p_action_disable'' None [] (F_V0_V4),
   OpDef 0x0071 ''p_action_enable'' None [] (F_V0_V4),
   OpDef 0x0072 ''disable_movement1'' None [CLIENT_ID] (F_V0_V4 OR F_ARGS),
   OpDef 0x0073 ''enable_movement1'' None [CLIENT_ID] (F_V0_V4 OR F_ARGS),
   OpDef 0x0074 ''p_noncol'' None [] (F_V0_V4),
   OpDef 0x0075 ''p_col'' None [] (F_V0_V4),
   OpDef 0x0076 ''p_setpos'' None [CLIENT_ID, (ArgN REG_SET_FIXED 4)] (F_V0_V4 OR F_ARGS),
   OpDef 0x0077 ''p_return_guild'' None [] (F_V0_V4),
   OpDef 0x0078 ''p_talk_guild'' None [CLIENT_ID] (F_V0_V4 OR F_ARGS)
  ]"

definition opcode_defs_0079 :: "opcode_def list" where
  "opcode_defs_0079 = [
   OpDef 0x0079 ''npc_talk_pl'' (Some ''npc_talk_pl_V1'') [(ArgN REG32_SET_FIXED 8)] (F_V0_V2),
   OpDef 0x0079 ''npc_talk_pl'' (Some ''npc_talk_pl_V3'') [(ArgN REG_SET_FIXED 8)] (F_V3_V4),
   OpDef 0x007A ''npc_talk_kill'' None [(Arg INT32)] (F_V0_V4 OR F_ARGS),
   OpDef 0x007B ''npc_crtpk'' (Some ''npc_crtpk_V1'') [(Arg INT32), (Arg INT32)] (F_V0_V2 OR F_ARGS),
   OpDef 0x007B ''npc_crtpk'' (Some ''npc_crtpk_V3'') [(Arg INT32), (Arg INT32)] (F_V3_V4 OR F_ARGS),
   OpDef 0x007C ''npc_crppk'' (Some ''npc_crppk_V1'') [(ArgN REG32_SET_FIXED 7), (Arg INT32)] (F_V0_V2),
   OpDef 0x007C ''npc_crppk'' (Some ''npc_crppk_V3'') [(ArgN REG_SET_FIXED 7)] (F_V3_V4),
   OpDef 0x007D ''npc_crptalk'' (Some ''npc_crptalk_v1'') [(ArgN REG32_SET_FIXED 6), (Arg INT32)] (F_V0_V2),
   OpDef 0x007D ''npc_crptalk'' (Some ''npc_crptalk_V3'') [(ArgN REG_SET_FIXED 6)] (F_V3_V4),
   OpDef 0x007E ''p_look_at'' None [CLIENT_ID, CLIENT_ID] (F_V0_V4 OR F_ARGS),
   OpDef 0x007F ''npc_crp_id'' (Some ''npc_crp_id_V1'') [(ArgN REG32_SET_FIXED 7), (Arg INT32)] (F_V0_V2),
   OpDef 0x007F ''npc_crp_id'' (Some ''npc_crp_id_v3'') [(ArgN REG_SET_FIXED 7)] (F_V3_V4),
   OpDef 0x0080 ''cam_quake'' None [] (F_V0_V4),
   OpDef 0x0081 ''cam_adj'' None [] (F_V0_V4),
   OpDef 0x0082 ''cam_zmin'' None [] (F_V0_V4),
   OpDef 0x0083 ''cam_zmout'' None [] (F_V0_V4),
   OpDef 0x0084 ''cam_pan'' (Some ''cam_pan_V1'') [(ArgN REG32_SET_FIXED 5), (Arg INT32)] (F_V0_V2),
   OpDef 0x0084 ''cam_pan'' (Some ''cam_pan_V3'') [(ArgN REG_SET_FIXED 5)] (F_V3_V4),
   OpDef 0x0085 ''game_lev_super'' None [] (F_V0_V2),
   OpDef 0x0085 ''nop_85'' None [] (F_V3_V4),
   OpDef 0x0086 ''game_lev_reset'' None [] (F_V0_V2),
   OpDef 0x0086 ''nop_86'' None [] (F_V3_V4),
   OpDef 0x0087 ''pos_pipe'' (Some ''pos_pipe_V1'') [(ArgN REG32_SET_FIXED 4), (Arg INT32)] (F_V0_V2),
   OpDef 0x0087 ''pos_pipe'' (Some ''pos_pipe_V3'') [(ArgN REG_SET_FIXED 4)] (F_V3_V4)
  ]"

definition opcode_defs_0088 :: "opcode_def list" where
  "opcode_defs_0088 = [
   OpDef 0x0088 ''if_zone_clear'' None [(Arg REG), (ArgN REG_SET_FIXED 2)] (F_V0_V4),
   OpDef 0x0089 ''chk_ene_num'' None [(Arg REG)] (F_V0_V4),
   OpDef 0x008A ''unhide_obj'' None [(ArgN REG_SET_FIXED 3)] (F_V0_V4),
   OpDef 0x008B ''unhide_ene'' None [(ArgN REG_SET_FIXED 3)] (F_V0_V4),
   OpDef 0x008C ''at_coords_call'' None [(ArgN REG_SET_FIXED 5)] (F_V0_V4),
   OpDef 0x008D ''at_coords_talk'' None [(ArgN REG_SET_FIXED 5)] (F_V0_V4),
   OpDef 0x008E ''npc_coords_call'' None [(ArgN REG_SET_FIXED 5)] (F_V0_V4),
   OpDef 0x008F ''party_coords_call'' None [(ArgN REG_SET_FIXED 6)] (F_V0_V4),
   OpDef 0x0090 ''switch_on'' None [(Arg INT32)] (F_V0_V4 OR F_ARGS),
   OpDef 0x0091 ''switch_off'' None [(Arg INT32)] (F_V0_V4 OR F_ARGS),
   OpDef 0x0092 ''playbgm_epi'' None [(Arg INT32)] (F_V0_V4 OR F_ARGS),
   OpDef 0x0093 ''set_mainwarp'' None [(Arg INT32)] (F_V0_V4 OR F_ARGS),
   OpDef 0x0094 ''set_obj_param'' None [(ArgN REG_SET_FIXED 6), (Arg REG)] (F_V0_V4),
   OpDef 0x0095 ''set_floor_handler'' None [AREA, SCRIPT32] (F_V0_V2),
   OpDef 0x0095 ''set_floor_handler'' None [AREA, SCRIPT16] (F_V3_V4 OR F_ARGS),
   OpDef 0x0096 ''clr_floor_handler'' None [AREA] (F_V0_V4 OR F_ARGS),
   OpDef 0x0097 ''npc_check_straggle'' None [(ArgN REG_SET_FIXED 9)] (F_V1_V4),
   OpDef 0x0098 ''hud_hide'' None [] (F_V0_V4),
   OpDef 0x0099 ''hud_show'' None [] (F_V0_V4),
   OpDef 0x009A ''cine_enable'' None [] (F_V0_V4),
   OpDef 0x009B ''cine_disable'' None [] (F_V0_V4),
   OpDef 0x00A0 ''nop_A0_debug'' None [(Arg INT32), (Arg CSTRING)] (F_V0_V4 OR F_ARGS),
   OpDef 0x00A1 ''set_qt_failure'' None [SCRIPT32] (F_V0_V2),
   OpDef 0x00A1 ''set_qt_failure'' None [SCRIPT16] (F_V3_V4)
  ]"

definition opcode_defs_00A2 :: "opcode_def list" where
  "opcode_defs_00A2 = [
   OpDef 0x00A2 ''set_qt_success'' None [SCRIPT32] (F_V0_V2),
   OpDef 0x00A2 ''set_qt_success'' None [SCRIPT16] (F_V3_V4),
   OpDef 0x00A3 ''clr_qt_failure'' None [] (F_V0_V4),
   OpDef 0x00A4 ''clr_qt_success'' None [] (F_V0_V4),
   OpDef 0x00A5 ''set_qt_cancel'' None [SCRIPT32] (F_V0_V2),
   OpDef 0x00A5 ''set_qt_cancel'' None [SCRIPT16] (F_V3_V4),
   OpDef 0x00A6 ''clr_qt_cancel'' None [] (F_V0_V4),
   OpDef 0x00A8 ''pl_walk'' (Some ''pl_walk_V1'') [(ArgN REG32_SET_FIXED 4), (Arg INT32)] (F_V0_V2),
   OpDef 0x00A8 ''pl_walk'' (Some ''pl_walk_V3'') [(ArgN REG_SET_FIXED 4)] (F_V3_V4),
   OpDef 0x00B0 ''pl_add_meseta'' None [CLIENT_ID, (Arg INT32)] (F_V0_V4 OR F_ARGS),
   OpDef 0x00B1 ''thread_stg'' None [SCRIPT16] (F_V0_V4),
   OpDef 0x00B2 ''del_obj_param'' None [(Arg REG)] (F_V0_V4),
   OpDef 0x00B3 ''item_create'' None [(ArgN REG_SET_FIXED 3), (Arg REG)] (F_V0_V4),
   OpDef 0x00B4 ''item_create2'' None [(ArgN REG_SET_FIXED 12), (Arg REG)] (F_V0_V4),
   OpDef 0x00B5 ''item_delete'' None [(Arg REG), (ArgN REG_SET_FIXED 12)] (F_V0_V4),
   OpDef 0x00B6 ''item_delete2'' None [(ArgN REG_SET_FIXED 3), (ArgN REG_SET_FIXED 12)] (F_V0_V4),
   OpDef 0x00B7 ''item_check'' None [(ArgN REG_SET_FIXED 3), (Arg REG)] (F_V0_V4),
   OpDef 0x00B8 ''setevt'' None [(Arg INT32)] (F_V05_V4 OR F_ARGS),
   OpDef 0x00B9 ''get_difficulty_level_v1'' (Some ''get_difflvl'') [(Arg REG)] (F_V05_V4),
   OpDef 0x00BA ''set_qt_exit'' None [SCRIPT32] (F_V05_V2),
   OpDef 0x00BA ''set_qt_exit'' None [SCRIPT16] (F_V3_V4),
   OpDef 0x00BB ''clr_qt_exit'' None [] (F_V05_V4),
   OpDef 0x00BC ''nop_BC'' None [(Arg CSTRING)] (F_V05_V4),
   OpDef 0x00C0 ''particle'' (Some ''particle_V1'') [(ArgN REG32_SET_FIXED 5), (Arg INT32)] (F_V05_V2),
   OpDef 0x00C0 ''particle'' (Some ''particle_V3'') [(ArgN REG_SET_FIXED 5)] (F_V3_V4)
  ]"

definition opcode_defs_00C1 :: "opcode_def list" where
  "opcode_defs_00C1 = [
   OpDef 0x00C1 ''npc_text'' None [(Arg INT32), (Arg CSTRING)] (F_V05_V4 OR F_ARGS),
   OpDef 0x00C2 ''npc_chkwarp'' None [] (F_V05_V4),
   OpDef 0x00C3 ''pl_pkoff'' None [] (F_V05_V4),
   OpDef 0x00C4 ''map_designate'' None [(ArgN REG_SET_FIXED 4)] (F_V05_V4),
   OpDef 0x00C5 ''masterkey_on'' None [] (F_V05_V4),
   OpDef 0x00C6 ''masterkey_off'' None [] (F_V05_V4),
   OpDef 0x00C7 ''window_time'' None [] (F_V05_V4),
   OpDef 0x00C8 ''winend_time'' None [] (F_V05_V4),
   OpDef 0x00C9 ''winset_time'' None [(Arg REG)] (F_V05_V4),
   OpDef 0x00CA ''getmtime'' None [(Arg REG)] (F_V05_V4),
   OpDef 0x00CB ''set_quest_board_handler'' None [(Arg INT32), SCRIPT32, (Arg CSTRING)] (F_V05_V2),
   OpDef 0x00CB ''set_quest_board_handler'' None [(Arg INT32), SCRIPT16, (Arg CSTRING)] (F_V3_V4 OR F_ARGS),
   OpDef 0x00CC ''clear_quest_board_handler'' None [(Arg INT32)] (F_V05_V4 OR F_ARGS),
   OpDef 0x00CD ''particle_id'' (Some ''particle_id_V1'') [(ArgN REG32_SET_FIXED 4), (Arg INT32)] (F_V05_V2),
   OpDef 0x00CD ''particle_id'' (Some ''particle_id_V3'') [(ArgN REG_SET_FIXED 4)] (F_V3_V4),
   OpDef 0x00CE ''npc_crptalk_id'' (Some ''npc_crptalk_id_V1'') [(ArgN REG32_SET_FIXED 7), (Arg INT32)] (F_V05_V2),
   OpDef 0x00CE ''npc_crptalk_id'' (Some ''npc_crptalk_id_V3'') [(ArgN REG_SET_FIXED 7)] (F_V3_V4),
   OpDef 0x00CF ''npc_lang_clean'' None [] (F_V05_V4),
   OpDef 0x00D0 ''pl_pkon'' None [] (F_V1_V4),
   OpDef 0x00D1 ''pl_chk_item2'' None [(ArgN REG_SET_FIXED 4), (Arg REG)] (F_V1_V4),
   OpDef 0x00D2 ''enable_mainmenu'' None [] (F_V1_V4),
   OpDef 0x00D3 ''disable_mainmenu'' None [] (F_V1_V4),
   OpDef 0x00D4 ''start_battlebgm'' None [] (F_V1_V4),
   OpDef 0x00D5 ''end_battlebgm'' None [] (F_V1_V4)
  ]"

definition opcode_defs_00D6 :: "opcode_def list" where
  "opcode_defs_00D6 = [
   OpDef 0x00D6 ''disp_msg_qb'' None [(Arg CSTRING)] (F_V1_V4 OR F_ARGS),
   OpDef 0x00D7 ''close_msg_qb'' None [] (F_V1_V4),
   OpDef 0x00D8 ''set_eventflag'' (Some ''set_eventflag_v1'') [(Arg INT32), (Arg INT32)] (F_V1_V2 OR F_ARGS),
   OpDef 0x00D8 ''set_eventflag'' (Some ''set_eventflag_v3'') [(Arg INT32), (Arg INT32)] (F_V3_V4 OR F_ARGS),
   OpDef 0x00D9 ''sync_register'' (Some ''sync_leti'') [(Arg INT32), (Arg INT32)] (F_V1_V4 OR F_ARGS),
   OpDef 0x00DA ''set_returnhunter'' None [] (F_V1_V4),
   OpDef 0x00DB ''set_returncity'' None [] (F_V1_V4),
   OpDef 0x00DC ''load_pvr'' None [] (F_V1_V4),
   OpDef 0x00DD ''load_midi'' None [] (F_V1_V4),
   OpDef 0x00DE ''item_detect_bank'' (Some ''unknownDE'') [(ArgN REG_SET_FIXED 6), (Arg REG)] (F_V1_V4),
   OpDef 0x00DF ''npc_param'' (Some ''npc_param_V1'') [(ArgN REG32_SET_FIXED 14), (Arg INT32)] (F_V1_V2),
   OpDef 0x00DF ''npc_param'' (Some ''npc_param_V3'') [(ArgN REG_SET_FIXED 14), (Arg INT32)] (F_V3_V4 OR F_ARGS),
   OpDef 0x00E0 ''pad_dragon'' None [] (F_V1_V4),
   OpDef 0x00E1 ''clear_mainwarp'' None [(Arg INT32)] (F_V1_V4 OR F_ARGS),
   OpDef 0x00E2 ''pcam_param'' (Some ''pcam_param_V1'') [(ArgN REG32_SET_FIXED 6)] (F_V1_V2),
   OpDef 0x00E2 ''pcam_param'' (Some ''pcam_param_V3'') [(ArgN REG_SET_FIXED 6)] (F_V3_V4),
   OpDef 0x00E3 ''start_setevt'' (Some ''start_setevt_v1'') [(Arg INT32), (Arg INT32)] (F_V1_V2 OR F_ARGS),
   OpDef 0x00E3 ''start_setevt'' (Some ''start_setevt_v3'') [(Arg INT32), (Arg INT32)] (F_V3_V4 OR F_ARGS),
   OpDef 0x00E4 ''warp_on'' None [] (F_V1_V4),
   OpDef 0x00E5 ''warp_off'' None [] (F_V1_V4),
   OpDef 0x00E6 ''get_client_id'' (Some ''get_slotnumber'') [(Arg REG)] (F_V1_V4),
   OpDef 0x00E7 ''get_leader_id'' (Some ''get_servernumber'') [(Arg REG)] (F_V1_V4),
   OpDef 0x00E8 ''set_eventflag2'' None [(Arg INT32), (Arg REG)] (F_V1_V4 OR F_ARGS),
   OpDef 0x00E9 ''mod2'' (Some ''res'') [(Arg REG), (Arg REG)] (F_V1_V4)
  ]"

definition opcode_defs_00EA :: "opcode_def list" where
  "opcode_defs_00EA = [
   OpDef 0x00EA ''modi2'' (Some ''unknownEA'') [(Arg REG), (Arg INT32)] (F_V1_V4),
   OpDef 0x00EB ''enable_bgmctrl'' None [(Arg INT32)] (F_V1_V4 OR F_ARGS),
   OpDef 0x00EC ''sw_send'' None [(ArgN REG_SET_FIXED 3)] (F_V1_V4),
   OpDef 0x00ED ''create_bgmctrl'' None [] (F_V1_V4),
   OpDef 0x00EE ''pl_add_meseta2'' None [(Arg INT32)] (F_V1_V4 OR F_ARGS),
   OpDef 0x00EF ''sync_register2'' (Some ''sync_let'') [(Arg INT32), (Arg REG32)] (F_V1_V2),
   OpDef 0x00EF ''sync_register2'' None [(Arg REG), (Arg INT32)] (F_V3_V4 OR F_ARGS),
   OpDef 0x00F0 ''send_regwork'' None [(Arg REG32), (Arg REG32)] (F_V1_V2),
   OpDef 0x00F1 ''leti_fixed_camera'' (Some ''leti_fixed_camera_V1'') [(ArgN REG32_SET_FIXED 6)] (F_V2),
   OpDef 0x00F1 ''leti_fixed_camera'' (Some ''leti_fixed_camera_V3'') [(ArgN REG_SET_FIXED 6)] (F_V3_V4),
   OpDef 0x00F2 ''default_camera_pos1'' None [] (F_V2_V4),
   OpDef 0xF800 ''debug_F800'' None [] (F_V2),
   OpDef 0xF801 ''set_chat_callback'' (Some ''set_chat_callback?'') [(ArgN REG32_SET_FIXED 5), (Arg CSTRING)] (F_V2_V4 OR F_ARGS),
   OpDef 0xF808 ''get_difficulty_level_v2'' (Some ''get_difflvl2'') [(Arg REG)] (F_V2_V4),
   OpDef 0xF809 ''get_number_of_players'' (Some ''get_number_of_player1'') [(Arg REG)] (F_V2_V4),
   OpDef 0xF80A ''get_coord_of_player'' None [(ArgN REG_SET_FIXED 3), (Arg REG)] (F_V2_V4),
   OpDef 0xF80B ''enable_map'' None [] (F_V2_V4),
   OpDef 0xF80C ''disable_map'' None [] (F_V2_V4),
   OpDef 0xF80D ''map_designate_ex'' None [(ArgN REG_SET_FIXED 5)] (F_V2_V4),
   OpDef 0xF80E ''disable_weapon_drop'' (Some ''unknownF80E'') [CLIENT_ID] (F_V2_V4 OR F_ARGS),
   OpDef 0xF80F ''enable_weapon_drop'' (Some ''unknownF80F'') [CLIENT_ID] (F_V2_V4 OR F_ARGS),
   OpDef 0xF810 ''ba_initial_floor'' None [AREA] (F_V2_V4 OR F_ARGS),
   OpDef 0xF811 ''set_ba_rules'' None [] (F_V2_V4),
   OpDef 0xF812 ''ba_set_tech_disk_mode'' (Some ''ba_set_tech'') [(Arg INT32)] (F_V2_V4 OR F_ARGS)
  ]"

definition opcode_defs_F813 :: "opcode_def list" where
  "opcode_defs_F813 = [
   OpDef 0xF813 ''ba_set_weapon_and_armor_mode'' (Some ''ba_set_equip'') [(Arg INT32)] (F_V2_V4 OR F_ARGS),
   OpDef 0xF814 ''ba_set_forbid_mags'' (Some ''ba_set_mag'') [(Arg INT32)] (F_V2_V4 OR F_ARGS),
   OpDef 0xF815 ''ba_set_tool_mode'' (Some ''ba_set_item'') [(Arg INT32)] (F_V2_V4 OR F_ARGS),
   OpDef 0xF816 ''ba_set_trap_mode'' (Some ''ba_set_trapmenu'') [(Arg INT32)] (F_V2_V4 OR F_ARGS),
   OpDef 0xF817 ''ba_set_unused_F817'' (Some ''unknownF817'') [(Arg INT32)] (F_V2_V4 OR F_ARGS),
   OpDef 0xF818 ''ba_set_respawn'' None [(Arg INT32)] (F_V2_V4 OR F_ARGS),
   OpDef 0xF819 ''ba_set_replace_char'' (Some ''ba_set_char'') [(Arg INT32)] (F_V2_V4 OR F_ARGS),
   OpDef 0xF81A ''ba_dropwep'' None [(Arg INT32)] (F_V2_V4 OR F_ARGS),
   OpDef 0xF81B ''ba_teams'' None [(Arg INT32)] (F_V2_V4 OR F_ARGS),
   OpDef 0xF81C ''ba_start'' (Some ''ba_disp_msg'') [(Arg CSTRING)] (F_V2_V4 OR F_ARGS),
   OpDef 0xF81D ''death_lvl_up'' None [(Arg INT32)] (F_V2_V4 OR F_ARGS),
   OpDef 0xF81E ''ba_set_meseta_drop_mode'' (Some ''ba_set_meseta'') [(Arg INT32)] (F_V2_V4 OR F_ARGS),
   OpDef 0xF820 ''cmode_stage'' None [(Arg INT32)] (F_V2_V4 OR F_ARGS),
   OpDef 0xF821 ''nop_F821'' None [(ArgN REG_SET_FIXED 9)] (F_V2_V4),
   OpDef 0xF822 ''nop_F822'' None [(Arg REG)] (F_V2_V4),
   OpDef 0xF823 ''set_cmode_char_template'' None [(Arg INT32)] (F_V2_V4 OR F_ARGS),
   OpDef 0xF824 ''set_cmode_difficulty'' (Some ''set_cmode_diff'') [(Arg INT32)] (F_V2_V4 OR F_ARGS),
   OpDef 0xF825 ''exp_multiplication'' None [(ArgN REG_SET_FIXED 3)] (F_V2_V4),
   OpDef 0xF826 ''if_player_alive_cm'' (Some ''exp_division?'') [(Arg REG)] (F_V2_V4),
   OpDef 0xF827 ''get_user_is_dead'' (Some ''get_user_is_dead?'') [(Arg REG)] (F_V2_V4),
   OpDef 0xF828 ''go_floor'' None [(Arg REG), (Arg REG)] (F_V2_V4),
   OpDef 0xF829 ''get_num_kills'' None [(Arg REG), (Arg REG)] (F_V2_V4),
   OpDef 0xF82A ''reset_kills'' None [(Arg REG)] (F_V2_V4),
   OpDef 0xF82B ''unlock_door2'' None [(Arg INT32), (Arg INT32)] (F_V2_V4 OR F_ARGS)
  ]"

definition opcode_defs_F82C :: "opcode_def list" where
  "opcode_defs_F82C = [
   OpDef 0xF82C ''lock_door2'' None [(Arg INT32), (Arg INT32)] (F_V2_V4 OR F_ARGS),
   OpDef 0xF82D ''if_switch_not_pressed'' None [(ArgN REG_SET_FIXED 2)] (F_V2_V4),
   OpDef 0xF82E ''if_switch_pressed'' None [(ArgN REG_SET_FIXED 3)] (F_V2_V4),
   OpDef 0xF830 ''control_dragon'' None [(Arg REG)] (F_V2_V4),
   OpDef 0xF831 ''release_dragon'' None [] (F_V2_V4),
   OpDef 0xF838 ''shrink'' None [(Arg REG)] (F_V2_V4),
   OpDef 0xF839 ''unshrink'' None [(Arg REG)] (F_V2_V4),
   OpDef 0xF83A ''set_shrink_cam1'' None [(ArgN REG_SET_FIXED 4)] (F_V2_V4),
   OpDef 0xF83B ''set_shrink_cam2'' None [(ArgN REG_SET_FIXED 4)] (F_V2_V4),
   OpDef 0xF83C ''display_clock2'' (Some ''display_clock2?'') [(Arg REG)] (F_V2_V4),
   OpDef 0xF83D ''set_area_total'' (Some ''unknownF83D'') [(Arg INT32)] (F_V2_V4 OR F_ARGS),
   OpDef 0xF83E ''delete_area_title'' (Some ''delete_area_title?'') [(Arg INT32)] (F_V2_V4 OR F_ARGS),
   OpDef 0xF840 ''load_npc_data'' None [] (F_V2_V4),
   OpDef 0xF841 ''get_npc_data'' None [(ArgD LABEL16 DT_PLAYER_VISUAL_CONFIG)] (F_V2_V4),
   OpDef 0xF848 ''give_damage_score'' None [(ArgN REG_SET_FIXED 3)] (F_V2_V4),
   OpDef 0xF849 ''take_damage_score'' None [(ArgN REG_SET_FIXED 3)] (F_V2_V4),
   OpDef 0xF84A ''enemy_give_score'' (Some ''unk_score_F84A'') [(ArgN REG_SET_FIXED 3)] (F_V2_V4),
   OpDef 0xF84B ''enemy_take_score'' (Some ''unk_score_F84B'') [(ArgN REG_SET_FIXED 3)] (F_V2_V4),
   OpDef 0xF84C ''kill_score'' None [(ArgN REG_SET_FIXED 3)] (F_V2_V4),
   OpDef 0xF84D ''death_score'' None [(ArgN REG_SET_FIXED 3)] (F_V2_V4),
   OpDef 0xF84E ''enemy_kill_score'' (Some ''unk_score_F84E'') [(ArgN REG_SET_FIXED 3)] (F_V2_V4),
   OpDef 0xF84F ''enemy_death_score'' None [(ArgN REG_SET_FIXED 3)] (F_V2_V4),
   OpDef 0xF850 ''meseta_score'' None [(ArgN REG_SET_FIXED 3)] (F_V2_V4),
   OpDef 0xF851 ''ba_set_trap_count'' (Some ''unknownF851'') [(ArgN REG_SET_FIXED 2)] (F_V2_V4)
  ]"

definition opcode_defs_F852 :: "opcode_def list" where
  "opcode_defs_F852 = [
   OpDef 0xF852 ''ba_set_target'' (Some ''unknownF852'') [(Arg INT32)] (F_V2_V4 OR F_ARGS),
   OpDef 0xF853 ''reverse_warps'' None [] (F_V2_V4),
   OpDef 0xF854 ''unreverse_warps'' None [] (F_V2_V4),
   OpDef 0xF855 ''set_ult_map'' None [] (F_V2_V4),
   OpDef 0xF856 ''unset_ult_map'' None [] (F_V2_V4),
   OpDef 0xF857 ''set_area_title'' None [(Arg CSTRING)] (F_V2_V4 OR F_ARGS),
   OpDef 0xF858 ''ba_show_self_traps'' (Some ''BA_Show_Self_Traps'') [] (F_V2_V4),
   OpDef 0xF859 ''ba_hide_self_traps'' (Some ''BA_Hide_Self_Traps'') [] (F_V2_V4),
   OpDef 0xF85A ''equip_item'' (Some ''equip_item_v2'') [(ArgN REG32_SET_FIXED 4)] (F_V2),
   OpDef 0xF85A ''equip_item'' (Some ''equip_item_v3'') [(ArgN REG_SET_FIXED 4)] (F_V3_V4),
   OpDef 0xF85B ''unequip_item'' (Some ''unequip_item_V2'') [CLIENT_ID, (Arg INT32)] (F_V2 OR F_ARGS),
   OpDef 0xF85B ''unequip_item'' (Some ''unequip_item_V3'') [CLIENT_ID, (Arg INT32)] (F_V3_V4 OR F_ARGS),
   OpDef 0xF85C ''qexit2'' (Some ''QEXIT2'') [(Arg INT32)] (F_V2_V4),
   OpDef 0xF85D ''set_allow_item_flags'' (Some ''unknownF85D'') [(Arg INT32)] (F_V2_V4 OR F_ARGS),
   OpDef 0xF85E ''ba_enable_sonar'' (Some ''unknownF85E'') [(Arg INT32)] (F_V2_V4 OR F_ARGS),
   OpDef 0xF85F ''ba_use_sonar'' (Some ''unknownF85F'') [(Arg INT32)] (F_V2_V4 OR F_ARGS),
   OpDef 0xF860 ''clear_score_announce'' (Some ''unknownF860'') [] (F_V2_V4),
   OpDef 0xF861 ''set_score_announce'' (Some ''unknownF861'') [(Arg INT32)] (F_V2_V4 OR F_ARGS),
   OpDef 0xF862 ''give_s_rank_weapon'' None [(Arg REG32), (Arg REG32), (Arg CSTRING)] (F_V2),
   OpDef 0xF862 ''give_s_rank_weapon'' None [(Arg INT32), (Arg REG), (Arg CSTRING)] (F_V3_V4 OR F_ARGS),
   OpDef 0xF863 ''get_mag_levels'' None [(ArgN REG32_SET_FIXED 4)] (F_V2),
   OpDef 0xF863 ''get_mag_levels'' None [(ArgN REG_SET_FIXED 4)] (F_V3_V4),
   OpDef 0xF864 ''set_cmode_rank_result'' (Some ''cmode_rank'') [(Arg INT32), (Arg CSTRING)] (F_V2_V4 OR F_ARGS),
   OpDef 0xF865 ''award_item_name'' (Some ''award_item_name?'') [] (F_V2_V4)
  ]"

definition opcode_defs_F866 :: "opcode_def list" where
  "opcode_defs_F866 = [
   OpDef 0xF866 ''award_item_select'' (Some ''award_item_select?'') [] (F_V2_V4),
   OpDef 0xF867 ''award_item_give_to'' (Some ''award_item_give_to?'') [(Arg REG)] (F_V2_V4),
   OpDef 0xF868 ''set_cmode_rank_threshold'' (Some ''set_cmode_rank'') [(Arg REG), (Arg REG)] (F_V2_V4),
   OpDef 0xF869 ''check_rank_time'' None [(Arg REG), (Arg REG)] (F_V2_V4),
   OpDef 0xF86A ''item_create_cmode'' None [(ArgN REG_SET_FIXED 6), (Arg REG)] (F_V2_V4),
   OpDef 0xF86B ''ba_set_box_drop_area'' (Some ''ba_box_drops'') [(Arg REG)] (F_V2_V4),
   OpDef 0xF86C ''award_item_ok'' (Some ''award_item_ok?'') [(Arg REG)] (F_V2_V4),
   OpDef 0xF86D ''ba_set_trapself'' None [] (F_V2_V4),
   OpDef 0xF86E ''ba_clear_trapself'' (Some ''unknownF86E'') [] (F_V2_V4),
   OpDef 0xF86F ''ba_set_lives'' None [(Arg INT32)] (F_V2_V4 OR F_ARGS),
   OpDef 0xF870 ''ba_set_max_tech_level'' (Some ''ba_set_tech_lvl'') [(Arg INT32)] (F_V2_V4 OR F_ARGS),
   OpDef 0xF871 ''ba_set_char_level'' (Some ''ba_set_lvl'') [(Arg INT32)] (F_V2_V4 OR F_ARGS),
   OpDef 0xF872 ''ba_set_time_limit'' None [(Arg INT32)] (F_V2_V4 OR F_ARGS),
   OpDef 0xF873 ''dark_falz_is_dead'' (Some ''boss_is_dead?'') [(Arg REG)] (F_V2_V4),
   OpDef 0xF874 ''set_cmode_rank_override'' None [(Arg INT32), (Arg CSTRING)] (F_V2_V4 OR F_ARGS),
   OpDef 0xF875 ''enable_stealth_suit_effect'' None [(Arg REG)] (F_V2_V4),
   OpDef 0xF876 ''disable_stealth_suit_effect'' None [(Arg REG)] (F_V2_V4),
   OpDef 0xF877 ''enable_techs'' None [(Arg REG)] (F_V2_V4),
   OpDef 0xF878 ''disable_techs'' None [(Arg REG)] (F_V2_V4),
   OpDef 0xF879 ''get_gender'' None [(Arg REG), (Arg REG)] (F_V2_V4),
   OpDef 0xF87A ''get_chara_class'' None [(Arg REG), (ArgN REG_SET_FIXED 2)] (F_V2_V4),
   OpDef 0xF87B ''take_slot_meseta'' None [(ArgN REG_SET_FIXED 2), (Arg REG)] (F_V2_V4),
   OpDef 0xF87C ''get_guild_card_file_creation_time'' None [(Arg REG)] (F_V2_V4),
   OpDef 0xF87D ''kill_player'' None [(Arg REG)] (F_V2_V4)
  ]"

definition opcode_defs_F87E :: "opcode_def list" where
  "opcode_defs_F87E = [
   OpDef 0xF87E ''get_serial_number'' None [(Arg REG)] (F_V2_V4),
   OpDef 0xF87F ''get_eventflag'' (Some ''read_guildcard_flag'') [(Arg REG), (Arg REG)] (F_V2_V4),
   OpDef 0xF880 ''set_trap_damage'' (Some ''unknownF880'') [(ArgN REG_SET_FIXED 3)] (F_V2_V4),
   OpDef 0xF881 ''get_pl_name'' (Some ''get_pl_name?'') [(Arg REG)] (F_V2_V4),
   OpDef 0xF882 ''get_pl_job'' None [(Arg REG)] (F_V2_V4),
   OpDef 0xF883 ''get_player_proximity'' (Some ''unknownF883'') [(ArgN REG_SET_FIXED 2), (Arg REG)] (F_V2_V4),
   OpDef 0xF884 ''set_eventflag16'' None [(Arg INT32), (Arg REG)] (F_V2),
   OpDef 0xF884 ''set_eventflag16'' None [(Arg INT32), (Arg INT32)] (F_V3_V4 OR F_ARGS),
   OpDef 0xF885 ''set_eventflag32'' None [(Arg INT32), (Arg REG)] (F_V2),
   OpDef 0xF885 ''set_eventflag32'' None [(Arg INT32), (Arg INT32)] (F_V3_V4 OR F_ARGS),
   OpDef 0xF886 ''ba_get_place'' None [(Arg REG), (Arg REG)] (F_V2_V4),
   OpDef 0xF887 ''ba_get_score'' None [(Arg REG), (Arg REG)] (F_V2_V4),
   OpDef 0xF888 ''enable_win_pfx'' (Some ''ba_close_msg'') [] (F_V2_V4),
   OpDef 0xF889 ''disable_win_pfx'' None [] (F_V2_V4),
   OpDef 0xF88A ''get_player_status'' None [(Arg REG), (Arg REG)] (F_V2_V4),
   OpDef 0xF88B ''send_mail'' None [(Arg REG), (Arg CSTRING)] (F_V2_V4 OR F_ARGS),
   OpDef 0xF88C ''get_game_version'' None [(Arg REG)] (F_V2_V4),
   OpDef 0xF88D ''chl_set_timerecord'' (Some ''chl_set_timerecord?'') [(Arg REG)] (F_V2 OR F_V3),
   OpDef 0xF88D ''chl_set_timerecord'' (Some ''chl_set_timerecord?'') [(Arg REG), (Arg REG)] (F_V4),
   OpDef 0xF88E ''chl_get_timerecord'' (Some ''chl_get_timerecord?'') [(Arg REG)] (F_V2_V4),
   OpDef 0xF88F ''set_cmode_grave_rates'' None [(ArgN REG_SET_FIXED 20)] (F_V2_V4),
   OpDef 0xF890 ''clear_mainwarp_all'' (Some ''unknownF890'') [] (F_V2_V4),
   OpDef 0xF891 ''load_enemy_data'' None [(Arg INT32)] (F_V2_V4 OR F_ARGS),
   OpDef 0xF892 ''get_physical_data'' None [(ArgD LABEL16 DT_PLAYER_STATS)] (F_V2_V4)
  ]"

definition opcode_defs_F893 :: "opcode_def list" where
  "opcode_defs_F893 = [
   OpDef 0xF893 ''get_attack_data'' None [(ArgD LABEL16 DT_ATTACK_DATA)] (F_V2_V4),
   OpDef 0xF894 ''get_resist_data'' None [(ArgD LABEL16 DT_RESIST_DATA)] (F_V2_V4),
   OpDef 0xF895 ''get_movement_data'' None [(ArgD LABEL16 DT_MOVEMENT_DATA)] (F_V2_V4),
   OpDef 0xF896 ''get_eventflag16'' None [(Arg REG), (Arg REG)] (F_V2_V4),
   OpDef 0xF897 ''get_eventflag32'' None [(Arg REG), (Arg REG)] (F_V2_V4),
   OpDef 0xF898 ''shift_left'' None [(Arg REG), (Arg REG)] (F_V2_V4),
   OpDef 0xF899 ''shift_right'' None [(Arg REG), (Arg REG)] (F_V2_V4),
   OpDef 0xF89A ''get_random'' None [(ArgN REG_SET_FIXED 2), (Arg REG)] (F_V2_V4),
   OpDef 0xF89B ''reset_map'' None [] (F_V2_V4),
   OpDef 0xF89C ''disp_chl_retry_menu'' None [(Arg REG)] (F_V2_V4),
   OpDef 0xF89D ''chl_reverser'' (Some ''chl_reverser?'') [] (F_V2_V4),
   OpDef 0xF89E ''ba_forbid_scape_dolls'' (Some ''unknownF89E'') [(Arg INT32)] (F_V2_V4 OR F_ARGS),
   OpDef 0xF89F ''player_recovery'' (Some ''unknownF89F'') [(Arg REG)] (F_V2_V4),
   OpDef 0xF8A0 ''disable_bosswarp_option'' (Some ''unknownF8A0'') [] (F_V2_V4),
   OpDef 0xF8A1 ''enable_bosswarp_option'' (Some ''unknownF8A1'') [] (F_V2_V4),
   OpDef 0xF8A2 ''is_bosswarp_opt_disabled'' None [(Arg REG)] (F_V2_V4),
   OpDef 0xF8A3 ''load_serial_number_to_flag_buf'' (Some ''init_online_key?'') [] (F_V2_V4),
   OpDef 0xF8A4 ''write_flag_buf_to_event_flags'' (Some ''encrypt_gc_entry_auto'') [(Arg REG)] (F_V2_V4),
   OpDef 0xF8A5 ''set_chat_callback_no_filter'' None [(ArgN REG_SET_FIXED 5)] (F_V2_V4),
   OpDef 0xF8A6 ''set_symbol_chat_collision'' None [(ArgN REG_SET_FIXED 10)] (F_V2_V4),
   OpDef 0xF8A7 ''set_shrink_size'' None [(Arg REG), (ArgN REG_SET_FIXED 3)] (F_V2_V4),
   OpDef 0xF8A8 ''death_tech_lvl_up2'' None [(Arg INT32)] (F_V2_V4 OR F_ARGS),
   OpDef 0xF8A9 ''vol_opt_is_dead'' (Some ''unknownF8A9'') [(Arg REG)] (F_V2_V4),
   OpDef 0xF8AA ''is_there_grave_message'' None [(Arg REG)] (F_V2_V4)
  ]"

definition opcode_defs_F8AB :: "opcode_def list" where
  "opcode_defs_F8AB = [
   OpDef 0xF8AB ''get_ba_record'' None [(ArgN REG_SET_FIXED 7)] (F_V2_V4),
   OpDef 0xF8AC ''get_cmode_prize_rank'' None [(Arg REG)] (F_V2_V4),
   OpDef 0xF8AD ''get_number_of_players2'' None [(Arg REG)] (F_V2_V4),
   OpDef 0xF8AE ''party_has_name'' None [(Arg REG)] (F_V2_V4),
   OpDef 0xF8AF ''someone_has_spoken'' None [(Arg REG)] (F_V2_V4),
   OpDef 0xF8B0 ''read1'' None [(Arg REG), (Arg REG)] (F_V2),
   OpDef 0xF8B0 ''read1'' None [(Arg REG), (Arg INT32)] (F_V3_V4 OR F_ARGS),
   OpDef 0xF8B1 ''read2'' None [(Arg REG), (Arg REG)] (F_V2),
   OpDef 0xF8B1 ''read2'' None [(Arg REG), (Arg INT32)] (F_V3_V4 OR F_ARGS),
   OpDef 0xF8B2 ''read4'' None [(Arg REG), (Arg REG)] (F_V2),
   OpDef 0xF8B2 ''read4'' None [(Arg REG), (Arg INT32)] (F_V3_V4 OR F_ARGS),
   OpDef 0xF8B3 ''write1'' None [(Arg REG), (Arg REG)] (F_V2),
   OpDef 0xF8B3 ''write1'' None [(Arg INT32), (Arg INT32)] (F_V3_V4 OR F_ARGS),
   OpDef 0xF8B4 ''write2'' None [(Arg REG), (Arg REG)] (F_V2),
   OpDef 0xF8B4 ''write2'' None [(Arg INT32), (Arg INT32)] (F_V3_V4 OR F_ARGS),
   OpDef 0xF8B5 ''write4'' None [(Arg REG), (Arg REG)] (F_V2),
   OpDef 0xF8B5 ''write4'' None [(Arg INT32), (Arg INT32)] (F_V3_V4 OR F_ARGS),
   OpDef 0xF8B6 ''check_for_hacking'' None [(Arg REG)] (F_V2_V4),
   OpDef 0xF8B7 ''unknown_F8B7'' None [(Arg REG)] (F_V2_V4),
   OpDef 0xF8B8 ''disable_retry_menu'' (Some ''unknownF8B8'') [] (F_V2_V4),
   OpDef 0xF8B9 ''chl_recovery'' (Some ''chl_recovery?'') [] (F_V2_V4),
   OpDef 0xF8BA ''load_guild_card_file_creation_time_to_flag_buf'' None [] (F_V2_V4),
   OpDef 0xF8BB ''write_flag_buf_to_event_flags2'' None [(Arg REG)] (F_V2_V4),
   OpDef 0xF8BC ''set_episode'' None [(Arg INT32)] (F_V3_V4 OR F_SET_EPISODE)
  ]"

definition opcode_defs_F8C0 :: "opcode_def list" where
  "opcode_defs_F8C0 = [
   OpDef 0xF8C0 ''file_dl_req'' None [(Arg INT32), (Arg CSTRING)] (F_V3 OR F_ARGS),
   OpDef 0xF8C0 ''nop_F8C0'' None [(Arg INT32), (Arg CSTRING)] (F_V4 OR F_ARGS),
   OpDef 0xF8C1 ''get_dl_status'' None [(Arg REG)] (F_V3),
   OpDef 0xF8C1 ''nop_F8C1'' None [(Arg REG)] (F_V4),
   OpDef 0xF8C2 ''prepare_gba_rom_from_download'' (Some ''gba_unknown4?'') [] (F_GC_V3 OR F_GC_EP3TE OR F_GC_EP3),
   OpDef 0xF8C2 ''nop_F8C2'' None [] (F_XB_V3 OR F_V4),
   OpDef 0xF8C3 ''start_or_update_gba_joyboot'' (Some ''get_gba_state?'') [(Arg REG)] (F_GC_V3 OR F_GC_EP3TE OR F_GC_EP3),
   OpDef 0xF8C3 ''return_0_F8C3'' None [(Arg REG)] (F_XB_V3),
   OpDef 0xF8C3 ''nop_F8C3'' None [(Arg REG)] (F_V4),
   OpDef 0xF8C4 ''congrats_msg_multi_cm'' (Some ''unknownF8C4'') [(Arg REG)] (F_V3),
   OpDef 0xF8C4 ''nop_F8C4'' None [(Arg REG)] (F_V4),
   OpDef 0xF8C5 ''stage_end_multi_cm'' (Some ''unknownF8C5'') [(Arg REG)] (F_V3),
   OpDef 0xF8C5 ''nop_F8C5'' None [(Arg REG)] (F_V4),
   OpDef 0xF8C6 ''qexit'' (Some ''QEXIT'') [] (F_V3_V4),
   OpDef 0xF8C7 ''use_animation'' None [(Arg REG), (Arg REG)] (F_V3_V4),
   OpDef 0xF8C8 ''stop_animation'' None [(Arg REG)] (F_V3_V4),
   OpDef 0xF8C9 ''run_to_coord'' None [(ArgN REG_SET_FIXED 4), (Arg REG)] (F_V3_V4),
   OpDef 0xF8CA ''set_slot_invincible'' None [(Arg REG), (Arg REG)] (F_V3_V4),
   OpDef 0xF8CB ''clear_slot_invincible'' (Some ''unknownF8CB'') [(Arg REG)] (F_V3_V4),
   OpDef 0xF8CC ''set_slot_poison'' None [(Arg REG)] (F_V3_V4),
   OpDef 0xF8CD ''set_slot_paralyze'' None [(Arg REG)] (F_V3_V4),
   OpDef 0xF8CE ''set_slot_shock'' None [(Arg REG)] (F_V3_V4),
   OpDef 0xF8CF ''set_slot_freeze'' None [(Arg REG)] (F_V3_V4),
   OpDef 0xF8D0 ''set_slot_slow'' None [(Arg REG)] (F_V3_V4)
  ]"

definition opcode_defs_F8D1 :: "opcode_def list" where
  "opcode_defs_F8D1 = [
   OpDef 0xF8D1 ''set_slot_confuse'' None [(Arg REG)] (F_V3_V4),
   OpDef 0xF8D2 ''set_slot_shifta'' None [(Arg REG)] (F_V3_V4),
   OpDef 0xF8D3 ''set_slot_deband'' None [(Arg REG)] (F_V3_V4),
   OpDef 0xF8D4 ''set_slot_jellen'' None [(Arg REG)] (F_V3_V4),
   OpDef 0xF8D5 ''set_slot_zalure'' None [(Arg REG)] (F_V3_V4),
   OpDef 0xF8D6 ''fleti_fixed_camera'' None [(ArgN REG_SET_FIXED 6)] (F_V3_V4 OR F_ARGS),
   OpDef 0xF8D7 ''fleti_locked_camera'' None [(Arg INT32), (ArgN REG_SET_FIXED 3)] (F_V3_V4 OR F_ARGS),
   OpDef 0xF8D8 ''default_camera_pos2'' None [] (F_V3_V4),
   OpDef 0xF8D9 ''set_motion_blur'' None [] (F_V3_V4),
   OpDef 0xF8DA ''set_screen_bw'' (Some ''set_screen_b&w'') [] (F_V3_V4),
   OpDef 0xF8DB ''get_vector_from_path'' (Some ''unknownF8DB'') [(Arg INT32), (Arg FLOAT32), (Arg FLOAT32), (Arg INT32), (ArgN REG_SET_FIXED 4), SCRIPT16] (F_V3_V4 OR F_ARGS),
   OpDef 0xF8DC ''npc_action_string'' (Some ''NPC_action_string'') [(Arg REG), (Arg REG), CSTRING_LABEL16] (F_V3_V4),
   OpDef 0xF8DD ''get_pad_cond'' None [(Arg REG), (Arg REG)] (F_V3_V4),
   OpDef 0xF8DE ''get_button_cond'' None [(Arg REG), (Arg REG)] (F_V3_V4),
   OpDef 0xF8DF ''freeze_enemies'' None [] (F_V3_V4),
   OpDef 0xF8E0 ''unfreeze_enemies'' None [] (F_V3_V4),
   OpDef 0xF8E1 ''freeze_everything'' None [] (F_V3_V4),
   OpDef 0xF8E2 ''unfreeze_everything'' None [] (F_V3_V4),
   OpDef 0xF8E3 ''restore_hp'' None [(Arg REG)] (F_V3_V4),
   OpDef 0xF8E4 ''restore_tp'' None [(Arg REG)] (F_V3_V4),
   OpDef 0xF8E5 ''close_chat_bubble'' None [(Arg REG)] (F_V3_V4),
   OpDef 0xF8E6 ''move_coords_object'' (Some ''unknownF8E6'') [(Arg REG), (ArgN REG_SET_FIXED 3)] (F_V3_V4),
   OpDef 0xF8E7 ''at_coords_call_ex'' (Some ''unknownF8E7'') [(ArgN REG_SET_FIXED 5), (Arg REG)] (F_V3_V4),
   OpDef 0xF8E8 ''at_coords_talk_ex'' (Some ''unknownF8E8'') [(ArgN REG_SET_FIXED 5), (Arg REG)] (F_V3_V4)
  ]"

definition opcode_defs_F8E9 :: "opcode_def list" where
  "opcode_defs_F8E9 = [
   OpDef 0xF8E9 ''walk_to_coord_call_ex'' (Some ''unknownF8E9'') [(ArgN REG_SET_FIXED 5), (Arg REG)] (F_V3_V4),
   OpDef 0xF8EA ''col_npcinr_ex'' (Some ''unknownF8EA'') [(ArgN REG_SET_FIXED 6), (Arg REG)] (F_V3_V4),
   OpDef 0xF8EB ''set_obj_param_ex'' (Some ''unknownF8EB'') [(ArgN REG_SET_FIXED 6), (Arg REG)] (F_V3_V4),
   OpDef 0xF8EC ''col_plinaw_ex'' (Some ''unknownF8EC'') [(ArgN REG_SET_FIXED 9), (Arg REG)] (F_V3_V4),
   OpDef 0xF8ED ''animation_check'' None [(Arg REG), (Arg REG)] (F_V3_V4),
   OpDef 0xF8EE ''call_image_data'' None [(Arg INT32), (ArgD LABEL16 DT_IMAGE_DATA)] (F_V3_V4 OR F_ARGS),
   OpDef 0xF8EF ''nop_F8EF'' (Some ''unknownF8EF'') [] (F_V3_V4),
   OpDef 0xF8F0 ''turn_off_bgm_p2'' None [] (F_V3_V4),
   OpDef 0xF8F1 ''turn_on_bgm_p2'' None [] (F_V3_V4),
   OpDef 0xF8F2 ''unknown_F8F2'' (Some ''load_unk_data'') [(Arg INT32), (Arg FLOAT32), (Arg FLOAT32), (Arg INT32), (ArgN REG_SET_FIXED 4), (ArgD LABEL16 DT_UNKNOWN_F8F2_DATA)] (F_V3_V4 OR F_ARGS),
   OpDef 0xF8F3 ''particle2'' None [(ArgN REG_SET_FIXED 3), (Arg INT32), (Arg FLOAT32)] (F_V3_V4 OR F_ARGS),
   OpDef 0xF901 ''dec2float'' None [(Arg REG), (Arg REG)] (F_V3_V4),
   OpDef 0xF902 ''float2dec'' None [(Arg REG), (Arg REG)] (F_V3_V4),
   OpDef 0xF903 ''flet'' None [(Arg REG), (Arg REG)] (F_V3_V4),
   OpDef 0xF904 ''fleti'' None [(Arg REG), (Arg FLOAT32)] (F_V3_V4),
   OpDef 0xF908 ''fadd'' None [(Arg REG), (Arg REG)] (F_V3_V4),
   OpDef 0xF909 ''faddi'' None [(Arg REG), (Arg FLOAT32)] (F_V3_V4),
   OpDef 0xF90A ''fsub'' None [(Arg REG), (Arg REG)] (F_V3_V4),
   OpDef 0xF90B ''fsubi'' None [(Arg REG), (Arg FLOAT32)] (F_V3_V4),
   OpDef 0xF90C ''fmul'' None [(Arg REG), (Arg REG)] (F_V3_V4),
   OpDef 0xF90D ''fmuli'' None [(Arg REG), (Arg FLOAT32)] (F_V3_V4),
   OpDef 0xF90E ''fdiv'' None [(Arg REG), (Arg REG)] (F_V3_V4),
   OpDef 0xF90F ''fdivi'' None [(Arg REG), (Arg FLOAT32)] (F_V3_V4),
   OpDef 0xF910 ''get_total_deaths'' (Some ''get_unknown_count?'') [CLIENT_ID, (Arg REG)] (F_V3_V4 OR F_ARGS)
  ]"

definition opcode_defs_F911 :: "opcode_def list" where
  "opcode_defs_F911 = [
   OpDef 0xF911 ''get_stackable_item_count'' None [(ArgN REG_SET_FIXED 4), (Arg REG)] (F_V3_V4),
   OpDef 0xF912 ''freeze_and_hide_equip'' None [] (F_V3_V4),
   OpDef 0xF913 ''thaw_and_show_equip'' None [] (F_V3_V4),
   OpDef 0xF914 ''set_palettex_callback'' (Some ''set_paletteX_callback'') [CLIENT_ID, SCRIPT16] (F_V3_V4 OR F_ARGS),
   OpDef 0xF915 ''activate_palettex'' (Some ''activate_paletteX'') [CLIENT_ID] (F_V3_V4 OR F_ARGS),
   OpDef 0xF916 ''enable_palettex'' (Some ''enable_paletteX'') [CLIENT_ID] (F_V3_V4 OR F_ARGS),
   OpDef 0xF917 ''restore_palettex'' (Some ''restore_paletteX'') [CLIENT_ID] (F_V3_V4 OR F_ARGS),
   OpDef 0xF918 ''disable_palettex'' (Some ''disable_paletteX'') [CLIENT_ID] (F_V3_V4 OR F_ARGS),
   OpDef 0xF919 ''get_palettex_activated'' (Some ''get_paletteX_activated'') [CLIENT_ID, (Arg REG)] (F_V3_V4 OR F_ARGS),
   OpDef 0xF91A ''get_unknown_palettex_status'' (Some ''get_unknown_paletteX_status?'') [CLIENT_ID, (Arg INT32), (Arg REG)] (F_V3_V4 OR F_ARGS),
   OpDef 0xF91B ''disable_movement2'' None [CLIENT_ID] (F_V3_V4 OR F_ARGS),
   OpDef 0xF91C ''enable_movement2'' None [CLIENT_ID] (F_V3_V4 OR F_ARGS),
   OpDef 0xF91D ''get_time_played'' None [(Arg REG)] (F_V3_V4),
   OpDef 0xF91E ''get_guildcard_total'' None [(Arg REG)] (F_V3_V4),
   OpDef 0xF91F ''get_slot_meseta'' None [(Arg REG)] (F_V3_V4),
   OpDef 0xF920 ''get_player_level'' None [CLIENT_ID, (Arg REG)] (F_V3_V4 OR F_ARGS),
   OpDef 0xF921 ''get_section_id'' (Some ''get_Section_ID'') [CLIENT_ID, (Arg REG)] (F_V3_V4 OR F_ARGS),
   OpDef 0xF922 ''get_player_hp'' None [CLIENT_ID, (ArgN REG_SET_FIXED 4)] (F_V3_V4 OR F_ARGS),
   OpDef 0xF923 ''get_floor_number'' None [CLIENT_ID, (ArgN REG_SET_FIXED 2)] (F_V3_V4 OR F_ARGS),
   OpDef 0xF924 ''get_coord_player_detect'' None [(ArgN REG_SET_FIXED 3), (ArgN REG_SET_FIXED 4)] (F_V3_V4),
   OpDef 0xF925 ''read_counter'' (Some ''read_global_flag'') [(Arg INT32), (Arg REG)] (F_V3_V4 OR F_ARGS),
   OpDef 0xF926 ''write_counter'' (Some ''write_global_flag'') [(Arg INT32), (Arg INT32)] (F_V3_V4 OR F_ARGS),
   OpDef 0xF927 ''item_detect_bank2'' (Some ''unknownF927'') [(ArgN REG_SET_FIXED 4), (Arg REG)] (F_V3_V4),
   OpDef 0xF928 ''floor_player_detect'' None [(ArgN REG_SET_FIXED 4)] (F_V3_V4)
  ]"

definition opcode_defs_F929 :: "opcode_def list" where
  "opcode_defs_F929 = [
   OpDef 0xF929 ''prepare_gba_rom_from_disk'' (Some ''read_disk_file?'') [(Arg CSTRING)] (F_V3 OR F_ARGS),
   OpDef 0xF929 ''nop_F929'' None [(Arg CSTRING)] (F_V4 OR F_ARGS),
   OpDef 0xF92A ''open_pack_select'' None [] (F_V3_V4),
   OpDef 0xF92B ''item_select'' None [(Arg REG)] (F_V3_V4),
   OpDef 0xF92C ''get_item_id'' None [(Arg REG)] (F_V3_V4),
   OpDef 0xF92D ''color_change'' None [(Arg INT32), (Arg INT32), (Arg INT32), (Arg INT32), (Arg INT32)] (F_V3_V4 OR F_ARGS),
   OpDef 0xF92E ''send_statistic'' (Some ''send_statistic?'') [(Arg INT32), (Arg INT32), (Arg INT32), (Arg INT32), (Arg INT32), (Arg INT32), (Arg INT32), (Arg INT32)] (F_V3_V4 OR F_ARGS),
   OpDef 0xF92F ''gba_write_identifiers'' (Some ''unknownF92F'') [(Arg INT32), (Arg INT32)] (F_V3 OR F_ARGS),
   OpDef 0xF92F ''nop_F92F'' None [(Arg INT32), (Arg INT32)] (F_V4 OR F_ARGS),
   OpDef 0xF930 ''chat_box'' None [(Arg INT32), (Arg INT32), (Arg INT32), (Arg INT32), (Arg INT32), (Arg CSTRING)] (F_V3_V4 OR F_ARGS),
   OpDef 0xF931 ''chat_bubble'' None [(Arg INT32), (Arg CSTRING)] (F_V3_V4 OR F_ARGS),
   OpDef 0xF932 ''set_episode2'' None [(Arg REG)] (F_V3_V4),
   OpDef 0xF933 ''item_create_multi_cm'' (Some ''unknownF933'') [(ArgN REG_SET_FIXED 7)] (F_V3),
   OpDef 0xF933 ''nop_F933'' None [(ArgN REG_SET_FIXED 7)] (F_V4),
   OpDef 0xF934 ''scroll_text'' None [(Arg INT32), (Arg INT32), (Arg INT32), (Arg INT32), (Arg INT32), (Arg FLOAT32), (Arg REG), (Arg CSTRING)] (F_V3_V4 OR F_ARGS),
   OpDef 0xF935 ''gba_create_dl_graph'' (Some ''gba_unknown1'') [] (F_GC_V3 OR F_GC_EP3TE OR F_GC_EP3),
   OpDef 0xF935 ''nop_F935'' None [] (F_XB_V3 OR F_V4),
   OpDef 0xF936 ''gba_destroy_dl_graph'' (Some ''gba_unknown2'') [] (F_GC_V3 OR F_GC_EP3TE OR F_GC_EP3),
   OpDef 0xF936 ''nop_F936'' None [] (F_XB_V3 OR F_V4),
   OpDef 0xF937 ''gba_update_dl_graph'' (Some ''gba_unknown3'') [] (F_GC_V3 OR F_GC_EP3TE OR F_GC_EP3),
   OpDef 0xF937 ''nop_F937'' None [] (F_XB_V3 OR F_V4),
   OpDef 0xF938 ''add_damage_to'' (Some ''add_damage_to?'') [(Arg INT32), (Arg INT32)] (F_V3_V4 OR F_ARGS),
   OpDef 0xF939 ''item_delete3'' None [(Arg INT32)] (F_V3_V4 OR F_ARGS),
   OpDef 0xF93A ''get_item_info'' None [ITEM_ID, (ArgN REG_SET_FIXED 12)] (F_V3_V4 OR F_ARGS)
  ]"

definition opcode_defs_F93B :: "opcode_def list" where
  "opcode_defs_F93B = [
   OpDef 0xF93B ''item_packing1'' None [ITEM_ID] (F_V3_V4 OR F_ARGS),
   OpDef 0xF93C ''item_packing2'' None [ITEM_ID, (Arg INT32)] (F_V3_V4 OR F_ARGS),
   OpDef 0xF93D ''get_lang_setting'' (Some ''get_lang_setting?'') [(Arg REG)] (F_V3_V4 OR F_ARGS),
   OpDef 0xF93E ''prepare_statistic'' (Some ''prepare_statistic?'') [(Arg INT32), (Arg INT32), (Arg INT32)] (F_V3_V4 OR F_ARGS),
   OpDef 0xF93F ''keyword_detect'' None [] (F_V3_V4),
   OpDef 0xF940 ''keyword'' None [(Arg REG), (Arg INT32), (Arg CSTRING)] (F_V3_V4 OR F_ARGS),
   OpDef 0xF941 ''get_guildcard_num'' None [CLIENT_ID, (Arg REG)] (F_V3_V4 OR F_ARGS),
   OpDef 0xF942 ''get_recent_symbol_chat'' None [(Arg INT32), (ArgN REG_SET_FIXED 15)] (F_V3_V4 OR F_ARGS),
   OpDef 0xF943 ''create_symbol_chat_capture_buffer'' None [] (F_V3_V4),
   OpDef 0xF944 ''get_item_stackability'' (Some ''get_wrap_status'') [ITEM_ID, (Arg REG)] (F_V3_V4 OR F_ARGS),
   OpDef 0xF945 ''initial_floor'' None [(Arg INT32)] (F_V3_V4 OR F_ARGS),
   OpDef 0xF946 ''sin'' None [(Arg REG), (Arg INT32)] (F_V3_V4 OR F_ARGS),
   OpDef 0xF947 ''cos'' None [(Arg REG), (Arg INT32)] (F_V3_V4 OR F_ARGS),
   OpDef 0xF948 ''tan'' None [(Arg REG), (Arg INT32)] (F_V3_V4 OR F_ARGS),
   OpDef 0xF949 ''atan2_int'' None [(Arg REG), (Arg FLOAT32), (Arg FLOAT32)] (F_V3_V4 OR F_ARGS),
   OpDef 0xF94A ''olga_flow_is_dead'' (Some ''boss_is_dead2?'') [(Arg REG)] (F_V3_V4),
   OpDef 0xF94B ''particle_effect_nc'' (Some ''particle3'') [(ArgN REG_SET_FIXED 4)] (F_V3_V4),
   OpDef 0xF94C ''player_effect_nc'' (Some ''unknownF94C'') [(ArgN REG_SET_FIXED 4)] (F_V3_V4),
   OpDef 0xF94D ''has_ep3_save_file'' None [(Arg REG)] (F_GC_V3 OR F_ARGS),
   OpDef 0xF94D ''give_card'' (Some ''is_there_cardbattle?'') [(Arg REG)] (F_GC_EP3TE),
   OpDef 0xF94D ''give_or_take_card'' (Some ''is_there_cardbattle?'') [(ArgN REG_SET_FIXED 2)] (F_GC_EP3),
   OpDef 0xF94D ''unknown_F94D'' None [(Arg INT32), (Arg REG)] (F_XB_V3 OR F_ARGS),
   OpDef 0xF94D ''nop_F94D'' None [] (F_V4),
   OpDef 0xF94E ''nop_F94E'' None [] (F_V4)
  ]"

definition opcode_defs_F94F :: "opcode_def list" where
  "opcode_defs_F94F = [
   OpDef 0xF94F ''nop_F94F'' None [] (F_V4),
   OpDef 0xF950 ''bb_p2_menu'' (Some ''BB_p2_menu'') [(Arg INT32)] (F_V4 OR F_ARGS),
   OpDef 0xF951 ''bb_map_designate'' (Some ''BB_Map_Designate'') [(Arg INT8), (Arg INT8), (Arg INT8), (Arg INT8), (Arg INT8)] (F_V4),
   OpDef 0xF952 ''bb_get_number_in_pack'' (Some ''BB_get_number_in_pack'') [(Arg REG)] (F_V4),
   OpDef 0xF953 ''bb_swap_item'' (Some ''BB_swap_item'') [(Arg INT32), (Arg INT32), (Arg INT32), (Arg INT32), (Arg INT32), (Arg INT32), SCRIPT16, SCRIPT16] (F_V4 OR F_ARGS),
   OpDef 0xF954 ''bb_check_wrap'' (Some ''BB_check_wrap'') [(Arg INT32), (Arg REG)] (F_V4 OR F_ARGS),
   OpDef 0xF955 ''bb_exchange_pd_item'' (Some ''BB_exchange_PD_item'') [(Arg INT32), (Arg INT32), (Arg INT32), (Arg LABEL16), (Arg LABEL16)] (F_V4 OR F_ARGS),
   OpDef 0xF956 ''bb_exchange_pd_srank'' (Some ''BB_exchange_PD_srank'') [(Arg INT32), (Arg INT32), (Arg INT32), (Arg INT32), (Arg INT32), (Arg LABEL16), (Arg LABEL16)] (F_V4 OR F_ARGS),
   OpDef 0xF957 ''bb_exchange_pd_percent'' (Some ''BB_exchange_PD_special'') [(Arg INT32), (Arg INT32), (Arg INT32), (Arg INT32), (Arg INT32), (Arg INT32), (Arg LABEL16), (Arg LABEL16)] (F_V4 OR F_ARGS),
   OpDef 0xF958 ''bb_exchange_ps_percent'' (Some ''BB_exchange_PD_percent'') [(Arg INT32), (Arg INT32), (Arg INT32), (Arg INT32), (Arg INT32), (Arg INT32), (Arg LABEL16), (Arg LABEL16)] (F_V4 OR F_ARGS),
   OpDef 0xF959 ''bb_set_ep4_boss_can_escape'' (Some ''unknownF959'') [(Arg INT32)] (F_V4 OR F_ARGS),
   OpDef 0xF95A ''bb_is_ep4_boss_dying'' None [(Arg REG)] (F_V4),
   OpDef 0xF95B ''bb_send_6xD9'' None [(Arg INT32), (Arg INT32), (Arg INT32), (Arg INT32), (Arg LABEL16), (Arg LABEL16)] (F_V4 OR F_ARGS),
   OpDef 0xF95C ''bb_exchange_slt'' (Some ''BB_exchange_SLT'') [(Arg INT32), (Arg INT32), (Arg INT32), (Arg INT32)] (F_V4 OR F_ARGS),
   OpDef 0xF95D ''bb_exchange_pc'' (Some ''BB_exchange_PC'') [] (F_V4),
   OpDef 0xF95E ''bb_box_create_bp'' (Some ''BB_box_create_BP'') [(Arg INT32), (Arg FLOAT32), (Arg FLOAT32)] (F_V4 OR F_ARGS),
   OpDef 0xF95F ''bb_exchange_pt'' (Some ''BB_exchage_PT'') [(Arg INT32), (Arg INT32), (Arg INT32), (Arg INT32), (Arg INT32)] (F_V4 OR F_ARGS),
   OpDef 0xF960 ''bb_send_6xE2'' (Some ''unknownF960'') [(Arg INT32)] (F_V4 OR F_ARGS),
   OpDef 0xF961 ''bb_get_6xE3_status'' (Some ''unknownF961'') [(Arg REG)] (F_V4)
  ]"

definition opcode_defs :: "opcode_def list" where
  "opcode_defs =
     opcode_defs_0000 @
     opcode_defs_0019 @
     opcode_defs_0031 @
     opcode_defs_004A @
     opcode_defs_0063 @
     opcode_defs_0079 @
     opcode_defs_0088 @
     opcode_defs_00A2 @
     opcode_defs_00C1 @
     opcode_defs_00D6 @
     opcode_defs_00EA @
     opcode_defs_F813 @
     opcode_defs_F82C @
     opcode_defs_F852 @
     opcode_defs_F866 @
     opcode_defs_F87E @
     opcode_defs_F893 @
     opcode_defs_F8AB @
     opcode_defs_F8C0 @
     opcode_defs_F8D1 @
     opcode_defs_F8E9 @
     opcode_defs_F911 @
     opcode_defs_F929 @
     opcode_defs_F93B @
     opcode_defs_F94F"

text \<open>
  \<^verbatim>\<open>opcodes_for_version\<close>: the rows whose flags hold the build's bit, indexed by opcode.
  \<^verbatim>\<open>emplace\<close> refuses a second row with the same opcode, and the function then throws
  \<^verbatim>\<open>logic_error\<close>. (The source caches the index per build; the value is the same.)
\<close>

definition row_active :: "u16 \<Rightarrow> opcode_def \<Rightarrow> bool" where
  "row_active vf d \<longleftrightarrow> op_flags d AND vf \<noteq> 0"

fun build_opcode_index ::
  "u16 \<Rightarrow> opcode_def list \<Rightarrow> (u16 \<rightharpoonup> opcode_def) \<Rightarrow> error + (u16 \<rightharpoonup> opcode_def)" where
  "build_opcode_index vf [] index = Inr index"
| "build_opcode_index vf (d # ds) index =
     (if \<not> row_active vf d then build_opcode_index vf ds index
      else if index (op_opcode d) \<noteq> None then Inl (logic_error ''duplicate definition for opcode'')
      else build_opcode_index vf ds (index(op_opcode d \<mapsto> d)))"

definition opcodes_for_version :: "version \<Rightarrow> error + (u16 \<rightharpoonup> opcode_def)" where
  "opcodes_for_version v = build_opcode_index (v_flag v) opcode_defs Map.empty"

subsection \<open>The index of a build is total: no build has two rows for one opcode\<close>

text \<open>
  The table is sorted by opcode, and rows that share an opcode are for disjoint sets of
  builds. This is checked block by block, and gives the index in closed form: the first
  active row with the opcode.
\<close>

definition row_key :: "opcode_def \<Rightarrow> u16 \<times> u16" where
  "row_key d = (op_opcode d, op_flags d)"

definition key_compat :: "u16 \<times> u16 \<Rightarrow> u16 \<times> u16 \<Rightarrow> bool" where
  "key_compat a b \<longleftrightarrow> fst a < fst b \<or> (fst a = fst b \<and> snd a AND snd b AND F_V0_V4 = 0)"

definition keys_ok :: "u16 \<Rightarrow> u16 \<Rightarrow> (u16 \<times> u16) list \<Rightarrow> bool" where
  "keys_ok lo hi ks \<longleftrightarrow>
     lo \<le> hi \<and> sorted_wrt key_compat ks \<and> list_all (\<lambda>k. lo \<le> fst k \<and> fst k \<le> hi) ks"

definition block_ok :: "u16 \<Rightarrow> u16 \<Rightarrow> opcode_def list \<Rightarrow> bool" where
  "block_ok lo hi ds \<longleftrightarrow> keys_ok lo hi (map row_key ds)"

definition lookup_opcode :: "u16 \<Rightarrow> u16 \<Rightarrow> opcode_def list \<Rightarrow> opcode_def option" where
  "lookup_opcode vf k ds = find (\<lambda>d. row_active vf d \<and> op_opcode d = k) ds"

lemma block_ok_append:
  assumes "block_ok lo1 hi1 xs" and "block_ok lo2 hi2 ys" and "hi1 < lo2"
  shows "block_ok lo1 hi2 (xs @ ys)"
proof -
  have cross: "key_compat (row_key x) (row_key y)" if "x \<in> set xs" "y \<in> set ys" for x y
  proof -
    have "op_opcode x \<le> hi1" and "lo2 \<le> op_opcode y"
      using assms(1,2) that by (auto simp: block_ok_def keys_ok_def list_all_iff row_key_def)
    with assms(3) have "op_opcode x < op_opcode y" by simp
    then show ?thesis by (simp add: key_compat_def row_key_def)
  qed
  have bounds_x: "lo1 \<le> op_opcode x \<and> op_opcode x \<le> hi2" if "x \<in> set xs" for x
  proof -
    have "lo1 \<le> op_opcode x" "op_opcode x \<le> hi1" "lo2 \<le> hi2"
      using assms(1,2) that by (auto simp: block_ok_def keys_ok_def list_all_iff row_key_def)
    with assms(3) show ?thesis by simp
  qed
  have bounds_y: "lo1 \<le> op_opcode y \<and> op_opcode y \<le> hi2" if "y \<in> set ys" for y
  proof -
    have "lo2 \<le> op_opcode y" "op_opcode y \<le> hi2" "lo1 \<le> hi1"
      using assms(1,2) that by (auto simp: block_ok_def keys_ok_def list_all_iff row_key_def)
    with assms(3) show ?thesis by simp
  qed
  have "lo1 \<le> hi2"
    using assms by (auto simp: block_ok_def keys_ok_def)
  moreover have "sorted_wrt key_compat (map row_key (xs @ ys))"
    using assms(1,2) cross by (auto simp: block_ok_def keys_ok_def sorted_wrt_append)
  moreover have "list_all (\<lambda>k. lo1 \<le> fst k \<and> fst k \<le> hi2) (map row_key (xs @ ys))"
    using bounds_x bounds_y by (auto simp: list_all_iff row_key_def)
  ultimately show ?thesis
    by (simp add: block_ok_def keys_ok_def)
qed

lemma row_active_bit:
  "n < 16 \<Longrightarrow> row_active (push_bit n 1) d \<longleftrightarrow> bit (op_flags d) n"
  by (simp add: row_active_def bit_iff_and_push_bit_not_eq_0)

lemma key_compat_active:
  assumes "key_compat (row_key a) (row_key b)" and "n < 16" and "bit F_V0_V4 n"
    and "row_active (push_bit n 1) a" and "row_active (push_bit n 1) b"
  shows "op_opcode a < op_opcode b"
proof (rule ccontr)
  assume "\<not> op_opcode a < op_opcode b"
  with assms(1) have z: "op_flags a AND op_flags b AND F_V0_V4 = 0"
    by (simp add: key_compat_def row_key_def)
  have "bit (op_flags a) n" and "bit (op_flags b) n"
    using assms(2,4,5) by (simp_all only: row_active_bit)
  then have "bit (op_flags a AND op_flags b AND F_V0_V4) n"
    using assms(3) by (simp add: bit_and_iff)
  with z show False by simp
qed

lemma block_ok_active_sorted:
  assumes "block_ok lo hi ds" and "n < 16" and "bit F_V0_V4 n"
  shows "sorted_wrt (\<lambda>a b. op_opcode a < op_opcode b) (filter (row_active (push_bit n 1)) ds)"
proof -
  have "sorted_wrt (\<lambda>a b. key_compat (row_key a) (row_key b)) ds"
    using assms(1) by (simp add: block_ok_def keys_ok_def sorted_wrt_map)
  then have "sorted_wrt (\<lambda>a b. key_compat (row_key a) (row_key b))
      (filter (row_active (push_bit n 1)) ds)"
    by (rule sorted_wrt_filter)
  then show ?thesis
    by (rule sorted_wrt_mono_rel [rotated]) (auto intro: key_compat_active [OF _ assms(2,3)])
qed

lemma build_opcode_index_find:
  assumes "sorted_wrt (\<lambda>a b. op_opcode a < op_opcode b) (filter (row_active vf) ds)"
    and "\<And>k d. k \<in> dom index \<Longrightarrow> d \<in> set ds \<Longrightarrow> row_active vf d \<Longrightarrow> k < op_opcode d"
  shows "build_opcode_index vf ds index =
    Inr (\<lambda>k. case lookup_opcode vf k ds of Some d \<Rightarrow> Some d | None \<Rightarrow> index k)"
  using assms
proof (induction ds arbitrary: index)
  case Nil
  then show ?case by (simp add: lookup_opcode_def)
next
  case (Cons d ds)
  show ?case
  proof (cases "row_active vf d")
    case False
    with Cons show ?thesis by (simp add: lookup_opcode_def)
  next
    case True
    have fresh: "index (op_opcode d) = None"
    proof (rule ccontr)
      assume "index (op_opcode d) \<noteq> None"
      then have "op_opcode d \<in> dom index" by auto
      from Cons.prems(2) [OF this, of d] True show False by simp
    qed
    have later: "op_opcode d < op_opcode d'" if "d' \<in> set ds" "row_active vf d'" for d'
      using Cons.prems(1) True that by auto
    have srt: "sorted_wrt (\<lambda>a b. op_opcode a < op_opcode b) (filter (row_active vf) ds)"
      using Cons.prems(1) True by simp
    have dom': "k < op_opcode d'"
      if "k \<in> dom (index(op_opcode d \<mapsto> d))" "d' \<in> set ds" "row_active vf d'" for k d'
      using that later Cons.prems(2) [of k d'] by (auto split: if_splits)
    have none: "lookup_opcode vf (op_opcode d) ds = None"
      using later by (fastforce simp: lookup_opcode_def find_None_iff)
    have "build_opcode_index vf (d # ds) index =
        build_opcode_index vf ds (index(op_opcode d \<mapsto> d))"
      using True fresh by simp
    also have "\<dots> = Inr (\<lambda>k. case lookup_opcode vf k ds of Some d' \<Rightarrow> Some d'
        | None \<Rightarrow> (index(op_opcode d \<mapsto> d)) k)"
      by (rule Cons.IH [OF srt dom'])
    also have "(\<lambda>k. case lookup_opcode vf k ds of Some d' \<Rightarrow> Some d'
        | None \<Rightarrow> (index(op_opcode d \<mapsto> d)) k) =
      (\<lambda>k. case lookup_opcode vf k (d # ds) of Some d' \<Rightarrow> Some d' | None \<Rightarrow> index k)"
    proof
      fix k
      show "(case lookup_opcode vf k ds of Some d' \<Rightarrow> Some d'
          | None \<Rightarrow> (index(op_opcode d \<mapsto> d)) k) =
        (case lookup_opcode vf k (d # ds) of Some d' \<Rightarrow> Some d' | None \<Rightarrow> index k)"
      proof (cases "k = op_opcode d")
        case True
        with none \<open>row_active vf d\<close> show ?thesis by (simp add: lookup_opcode_def)
      next
        case False
        then show ?thesis by (auto simp: lookup_opcode_def split: option.splits)
      qed
    qed
    finally show ?thesis .
  qed
qed

definition or_else :: "'a option \<Rightarrow> 'a option \<Rightarrow> 'a option" where
  "or_else a b = (case a of Some d \<Rightarrow> Some d | None \<Rightarrow> b)"

lemma or_else_simps [simp]:
  "or_else None b = b" "or_else a None = a" "or_else (Some d) b = Some d"
  by (simp_all add: or_else_def split: option.splits)

lemma lookup_opcode_append:
  "lookup_opcode vf k (xs @ ys) = or_else (lookup_opcode vf k xs) (lookup_opcode vf k ys)"
  by (induction xs) (simp_all add: lookup_opcode_def or_else_def)

lemma lookup_opcode_above:
  "block_ok lo hi ds \<Longrightarrow> hi < k \<Longrightarrow> lookup_opcode vf k ds = None"
  by (auto simp: lookup_opcode_def find_None_iff block_ok_def keys_ok_def list_all_iff row_key_def)

lemma lookup_opcode_below:
  "block_ok lo hi ds \<Longrightarrow> k < lo \<Longrightarrow> lookup_opcode vf k ds = None"
  by (auto simp: lookup_opcode_def find_None_iff block_ok_def keys_ok_def list_all_iff row_key_def)

lemma opcode_defs_0000_ok: "block_ok 0x0000 0x0018 opcode_defs_0000"
  by (simp add: block_ok_def keys_ok_def opcode_defs_0000_def row_key_def key_compat_def flag_defs)

lemma opcode_defs_0019_ok: "block_ok 0x0019 0x0030 opcode_defs_0019"
  by (simp add: block_ok_def keys_ok_def opcode_defs_0019_def row_key_def key_compat_def flag_defs)

lemma opcode_defs_0031_ok: "block_ok 0x0031 0x0049 opcode_defs_0031"
  by (simp add: block_ok_def keys_ok_def opcode_defs_0031_def row_key_def key_compat_def flag_defs)

lemma opcode_defs_004A_ok: "block_ok 0x004A 0x0062 opcode_defs_004A"
  by (simp add: block_ok_def keys_ok_def opcode_defs_004A_def row_key_def key_compat_def flag_defs)

lemma opcode_defs_0063_ok: "block_ok 0x0063 0x0078 opcode_defs_0063"
  by (simp add: block_ok_def keys_ok_def opcode_defs_0063_def row_key_def key_compat_def flag_defs)

lemma opcode_defs_0079_ok: "block_ok 0x0079 0x0087 opcode_defs_0079"
  by (simp add: block_ok_def keys_ok_def opcode_defs_0079_def row_key_def key_compat_def flag_defs)

lemma opcode_defs_0088_ok: "block_ok 0x0088 0x00A1 opcode_defs_0088"
  by (simp add: block_ok_def keys_ok_def opcode_defs_0088_def row_key_def key_compat_def flag_defs)

lemma opcode_defs_00A2_ok: "block_ok 0x00A2 0x00C0 opcode_defs_00A2"
  by (simp add: block_ok_def keys_ok_def opcode_defs_00A2_def row_key_def key_compat_def flag_defs)

lemma opcode_defs_00C1_ok: "block_ok 0x00C1 0x00D5 opcode_defs_00C1"
  by (simp add: block_ok_def keys_ok_def opcode_defs_00C1_def row_key_def key_compat_def flag_defs)

lemma opcode_defs_00D6_ok: "block_ok 0x00D6 0x00E9 opcode_defs_00D6"
  by (simp add: block_ok_def keys_ok_def opcode_defs_00D6_def row_key_def key_compat_def flag_defs)

lemma opcode_defs_00EA_ok: "block_ok 0x00EA 0xF812 opcode_defs_00EA"
  by (simp add: block_ok_def keys_ok_def opcode_defs_00EA_def row_key_def key_compat_def flag_defs)

lemma opcode_defs_F813_ok: "block_ok 0xF813 0xF82B opcode_defs_F813"
  by (simp add: block_ok_def keys_ok_def opcode_defs_F813_def row_key_def key_compat_def flag_defs)

lemma opcode_defs_F82C_ok: "block_ok 0xF82C 0xF851 opcode_defs_F82C"
  by (simp add: block_ok_def keys_ok_def opcode_defs_F82C_def row_key_def key_compat_def flag_defs)

lemma opcode_defs_F852_ok: "block_ok 0xF852 0xF865 opcode_defs_F852"
  by (simp add: block_ok_def keys_ok_def opcode_defs_F852_def row_key_def key_compat_def flag_defs)

lemma opcode_defs_F866_ok: "block_ok 0xF866 0xF87D opcode_defs_F866"
  by (simp add: block_ok_def keys_ok_def opcode_defs_F866_def row_key_def key_compat_def flag_defs)

lemma opcode_defs_F87E_ok: "block_ok 0xF87E 0xF892 opcode_defs_F87E"
  by (simp add: block_ok_def keys_ok_def opcode_defs_F87E_def row_key_def key_compat_def flag_defs)

lemma opcode_defs_F893_ok: "block_ok 0xF893 0xF8AA opcode_defs_F893"
  by (simp add: block_ok_def keys_ok_def opcode_defs_F893_def row_key_def key_compat_def flag_defs)

lemma opcode_defs_F8AB_ok: "block_ok 0xF8AB 0xF8BC opcode_defs_F8AB"
  by (simp add: block_ok_def keys_ok_def opcode_defs_F8AB_def row_key_def key_compat_def flag_defs)

lemma opcode_defs_F8C0_ok: "block_ok 0xF8C0 0xF8D0 opcode_defs_F8C0"
  by (simp add: block_ok_def keys_ok_def opcode_defs_F8C0_def row_key_def key_compat_def flag_defs)

lemma opcode_defs_F8D1_ok: "block_ok 0xF8D1 0xF8E8 opcode_defs_F8D1"
  by (simp add: block_ok_def keys_ok_def opcode_defs_F8D1_def row_key_def key_compat_def flag_defs)

lemma opcode_defs_F8E9_ok: "block_ok 0xF8E9 0xF910 opcode_defs_F8E9"
  by (simp add: block_ok_def keys_ok_def opcode_defs_F8E9_def row_key_def key_compat_def flag_defs)

lemma opcode_defs_F911_ok: "block_ok 0xF911 0xF928 opcode_defs_F911"
  by (simp add: block_ok_def keys_ok_def opcode_defs_F911_def row_key_def key_compat_def flag_defs)

lemma opcode_defs_F929_ok: "block_ok 0xF929 0xF93A opcode_defs_F929"
  by (simp add: block_ok_def keys_ok_def opcode_defs_F929_def row_key_def key_compat_def flag_defs)

lemma opcode_defs_F93B_ok: "block_ok 0xF93B 0xF94E opcode_defs_F93B"
  by (simp add: block_ok_def keys_ok_def opcode_defs_F93B_def row_key_def key_compat_def flag_defs)

lemma opcode_defs_F94F_ok: "block_ok 0xF94F 0xF961 opcode_defs_F94F"
  by (simp add: block_ok_def keys_ok_def opcode_defs_F94F_def row_key_def key_compat_def flag_defs)


lemmas blocks_step =
  block_ok_append [OF opcode_defs_0000_ok] block_ok_append [OF opcode_defs_0019_ok]
  block_ok_append [OF opcode_defs_0031_ok] block_ok_append [OF opcode_defs_004A_ok]
  block_ok_append [OF opcode_defs_0063_ok] block_ok_append [OF opcode_defs_0079_ok]
  block_ok_append [OF opcode_defs_0088_ok] block_ok_append [OF opcode_defs_00A2_ok]
  block_ok_append [OF opcode_defs_00C1_ok] block_ok_append [OF opcode_defs_00D6_ok]
  block_ok_append [OF opcode_defs_00EA_ok] block_ok_append [OF opcode_defs_F813_ok]
  block_ok_append [OF opcode_defs_F82C_ok] block_ok_append [OF opcode_defs_F852_ok]
  block_ok_append [OF opcode_defs_F866_ok] block_ok_append [OF opcode_defs_F87E_ok]
  block_ok_append [OF opcode_defs_F893_ok] block_ok_append [OF opcode_defs_F8AB_ok]
  block_ok_append [OF opcode_defs_F8C0_ok] block_ok_append [OF opcode_defs_F8D1_ok]
  block_ok_append [OF opcode_defs_F8E9_ok] block_ok_append [OF opcode_defs_F911_ok]
  block_ok_append [OF opcode_defs_F929_ok] block_ok_append [OF opcode_defs_F93B_ok]
  opcode_defs_F94F_ok

lemmas lookup_skips =
  lookup_opcode_above [OF opcode_defs_0000_ok] lookup_opcode_above [OF opcode_defs_0019_ok]
  lookup_opcode_above [OF opcode_defs_0031_ok] lookup_opcode_above [OF opcode_defs_004A_ok]
  lookup_opcode_above [OF opcode_defs_0063_ok] lookup_opcode_above [OF opcode_defs_0079_ok]
  lookup_opcode_above [OF opcode_defs_0088_ok] lookup_opcode_above [OF opcode_defs_00A2_ok]
  lookup_opcode_above [OF opcode_defs_00C1_ok] lookup_opcode_above [OF opcode_defs_00D6_ok]
  lookup_opcode_above [OF opcode_defs_00EA_ok] lookup_opcode_above [OF opcode_defs_F813_ok]
  lookup_opcode_above [OF opcode_defs_F82C_ok] lookup_opcode_above [OF opcode_defs_F852_ok]
  lookup_opcode_above [OF opcode_defs_F866_ok] lookup_opcode_above [OF opcode_defs_F87E_ok]
  lookup_opcode_above [OF opcode_defs_F893_ok] lookup_opcode_above [OF opcode_defs_F8AB_ok]
  lookup_opcode_above [OF opcode_defs_F8C0_ok] lookup_opcode_above [OF opcode_defs_F8D1_ok]
  lookup_opcode_above [OF opcode_defs_F8E9_ok] lookup_opcode_above [OF opcode_defs_F911_ok]
  lookup_opcode_above [OF opcode_defs_F929_ok] lookup_opcode_above [OF opcode_defs_F93B_ok]
  lookup_opcode_above [OF opcode_defs_F94F_ok] lookup_opcode_below [OF opcode_defs_0000_ok]
  lookup_opcode_below [OF opcode_defs_0019_ok] lookup_opcode_below [OF opcode_defs_0031_ok]
  lookup_opcode_below [OF opcode_defs_004A_ok] lookup_opcode_below [OF opcode_defs_0063_ok]
  lookup_opcode_below [OF opcode_defs_0079_ok] lookup_opcode_below [OF opcode_defs_0088_ok]
  lookup_opcode_below [OF opcode_defs_00A2_ok] lookup_opcode_below [OF opcode_defs_00C1_ok]
  lookup_opcode_below [OF opcode_defs_00D6_ok] lookup_opcode_below [OF opcode_defs_00EA_ok]
  lookup_opcode_below [OF opcode_defs_F813_ok] lookup_opcode_below [OF opcode_defs_F82C_ok]
  lookup_opcode_below [OF opcode_defs_F852_ok] lookup_opcode_below [OF opcode_defs_F866_ok]
  lookup_opcode_below [OF opcode_defs_F87E_ok] lookup_opcode_below [OF opcode_defs_F893_ok]
  lookup_opcode_below [OF opcode_defs_F8AB_ok] lookup_opcode_below [OF opcode_defs_F8C0_ok]
  lookup_opcode_below [OF opcode_defs_F8D1_ok] lookup_opcode_below [OF opcode_defs_F8E9_ok]
  lookup_opcode_below [OF opcode_defs_F911_ok] lookup_opcode_below [OF opcode_defs_F929_ok]
  lookup_opcode_below [OF opcode_defs_F93B_ok] lookup_opcode_below [OF opcode_defs_F94F_ok]

lemma opcode_defs_ok: "block_ok 0x0000 0xF961 opcode_defs"
  unfolding opcode_defs_def by (rule blocks_step)+ simp_all


lemma opcodes_for_version_eq:
  assumes "v \<noteq> PC_PATCH" and "v \<noteq> BB_PATCH" and "v \<noteq> UNKNOWN"
  shows "opcodes_for_version v = Inr (\<lambda>k. lookup_opcode (v_flag v) k opcode_defs)"
proof -
  have n: "version_number v < 16" and b: "bit F_V0_V4 (version_number v)"
    using assms by (cases v; simp add: flag_defs)+
  have "build_opcode_index (push_bit (version_number v) 1) opcode_defs Map.empty =
      Inr (\<lambda>k. case lookup_opcode (push_bit (version_number v) 1) k opcode_defs of
        Some d \<Rightarrow> Some d | None \<Rightarrow> Map.empty k)"
    by (rule build_opcode_index_find [OF block_ok_active_sorted [OF opcode_defs_ok n b]]) simp
  also have "(\<lambda>k. case lookup_opcode (push_bit (version_number v) 1) k opcode_defs of
        Some d \<Rightarrow> Some d | None \<Rightarrow> Map.empty k) =
      (\<lambda>k. lookup_opcode (push_bit (version_number v) 1) k opcode_defs)"
    by (auto split: option.splits)
  finally show ?thesis
    by (simp only: opcodes_for_version_def v_flag_def)
qed

subsection \<open>Rows of the table that the statements below name\<close>

definition def_ret :: opcode_def where
  "def_ret = OpDef 0x0001 ''ret'' None [] (F_V0_V4 OR F_RET)"

definition def_set_episode :: opcode_def where
  "def_set_episode = OpDef 0xF8BC ''set_episode'' None [Arg INT32] (F_V3_V4 OR F_SET_EPISODE)"

definition def_nop :: opcode_def where
  "def_nop = OpDef 0x0000 ''nop'' None [] (F_V0_V4)"

lemma lookup_nop:
  "lookup_opcode vf 0x0000 opcode_defs = (if row_active vf def_nop then Some def_nop else None)"
proof -
  have "lookup_opcode vf 0x0000 opcode_defs = lookup_opcode vf 0x0000 opcode_defs_0000"
    by (simp add: opcode_defs_def lookup_opcode_append lookup_skips)
  also have "\<dots> = (if row_active vf def_nop then Some def_nop else None)"
    by (simp add: opcode_defs_0000_def lookup_opcode_def def_nop_def)
  finally show ?thesis .
qed

lemma lookup_ret:
  "lookup_opcode vf 0x0001 opcode_defs = (if row_active vf def_ret then Some def_ret else None)"
proof -
  have "lookup_opcode vf 0x0001 opcode_defs = lookup_opcode vf 0x0001 opcode_defs_0000"
    by (simp add: opcode_defs_def lookup_opcode_append lookup_skips)
  also have "\<dots> = (if row_active vf def_ret then Some def_ret else None)"
    by (simp add: opcode_defs_0000_def lookup_opcode_def def_ret_def)
  finally show ?thesis .
qed

lemma lookup_000E: "lookup_opcode vf 0x000E opcode_defs = None"
proof -
  have "lookup_opcode vf 0x000E opcode_defs = lookup_opcode vf 0x000E opcode_defs_0000"
    by (simp add: opcode_defs_def lookup_opcode_append lookup_skips)
  also have "\<dots> = None"
    by (simp add: opcode_defs_0000_def lookup_opcode_def)
  finally show ?thesis .
qed

lemma lookup_set_episode:
  "lookup_opcode vf 0xF8BC opcode_defs =
     (if row_active vf def_set_episode then Some def_set_episode else None)"
proof -
  have "lookup_opcode vf 0xF8BC opcode_defs = lookup_opcode vf 0xF8BC opcode_defs_F8AB"
    by (simp add: opcode_defs_def lookup_opcode_append lookup_skips)
  also have "\<dots> = (if row_active vf def_set_episode then Some def_set_episode else None)"
    by (simp add: opcode_defs_F8AB_def lookup_opcode_def def_set_episode_def)
  finally show ?thesis .
qed

text \<open>The builds whose rows carry \<^verbatim>\<open>F_V3_V4\<close>.\<close>

definition v3_v4_builds :: "version set" where
  "v3_v4_builds = {GC_V3, GC_EP3_NTE, GC_EP3, XB_V3, BB_V4}"

lemma v3_v4_rows:
  assumes "v \<in> v3_v4_builds"
  shows "row_active (v_flag v) def_ret" and "row_active (v_flag v) def_set_episode"
  using assms
  by (auto simp: v3_v4_builds_def row_active_def v_flag_def def_ret_def def_set_episode_def
      flag_defs)

lemma v3_v4_opcodes:
  assumes "v \<in> v3_v4_builds"
  obtains opcodes where "opcodes_for_version v = Inr opcodes"
    and "opcodes 0x0001 = Some def_ret" and "opcodes 0xF8BC = Some def_set_episode"
    and "opcodes 0x000E = None"
proof -
  from assms have "v \<noteq> PC_PATCH" "v \<noteq> BB_PATCH" "v \<noteq> UNKNOWN"
    by (auto simp: v3_v4_builds_def)
  from opcodes_for_version_eq [OF this] v3_v4_rows [OF assms] that show thesis
    by (simp add: lookup_ret lookup_set_episode lookup_000E)
qed


section \<open>Byte readers\<close>

text \<open>
  \<^verbatim>\<open>phosg::StringReader\<close>: a buffer and a cursor. The class belongs to a library outside
  the repository; its contract is taken as follows. A read of \<open>n\<close> bytes throws
  \<^verbatim>\<open>out_of_range\<close> and leaves the cursor where it is when fewer than \<open>n\<close> bytes remain, and
  otherwise returns them and moves the cursor by \<open>n\<close>; \<^verbatim>\<open>skip\<close> does the same without
  returning anything; \<^verbatim>\<open>sub\<close> is a reader over a slice of the buffer, cut to the buffer's
  end; \<^verbatim>\<open>pget_*\<close> reads at a given position without moving the cursor.
\<close>

record StringReader =
  rd_data :: "u8 list"
  rd_offset :: nat

definition reader :: "u8 list \<Rightarrow> StringReader" where
  "reader bs = \<lparr>rd_data = bs, rd_offset = 0\<rparr>"

definition rd_size :: "StringReader \<Rightarrow> nat" where
  "rd_size r = length (rd_data r)"

definition rd_where :: "StringReader \<Rightarrow> nat" where
  "rd_where r = rd_offset r"

definition eof :: "StringReader \<Rightarrow> bool" where
  "eof r \<longleftrightarrow> rd_size r \<le> rd_offset r"

definition remaining :: "StringReader \<Rightarrow> nat" where
  "remaining r = rd_size r - rd_offset r"

definition go :: "nat \<Rightarrow> StringReader \<Rightarrow> StringReader" where
  "go n r = r\<lparr>rd_offset := n\<rparr>"

definition skip :: "nat \<Rightarrow> StringReader \<Rightarrow> error + StringReader" where
  "skip n r = (if rd_offset r + n \<le> rd_size r then Inr (r\<lparr>rd_offset := rd_offset r + n\<rparr>)
     else Inl out_of_range)"

definition u16_le :: "u8 \<Rightarrow> u8 \<Rightarrow> u16" where
  "u16_le b0 b1 = ucast b0 OR push_bit 8 (ucast b1)"

definition u32_le :: "u8 \<Rightarrow> u8 \<Rightarrow> u8 \<Rightarrow> u8 \<Rightarrow> u32" where
  "u32_le b0 b1 b2 b3 =
     ucast b0 OR push_bit 8 (ucast b1) OR push_bit 16 (ucast b2) OR push_bit 24 (ucast b3)"

definition pget_u8 :: "StringReader \<Rightarrow> nat \<Rightarrow> error + u8" where
  "pget_u8 r at = (if at + 1 \<le> rd_size r then Inr (rd_data r ! at) else Inl out_of_range)"

definition pget_u16l :: "StringReader \<Rightarrow> nat \<Rightarrow> error + u16" where
  "pget_u16l r at = (if at + 2 \<le> rd_size r
     then Inr (u16_le (rd_data r ! at) (rd_data r ! (at + 1))) else Inl out_of_range)"

definition pget_u32l :: "StringReader \<Rightarrow> nat \<Rightarrow> error + u32" where
  "pget_u32l r at = (if at + 4 \<le> rd_size r
     then Inr (u32_le (rd_data r ! at) (rd_data r ! (at + 1)) (rd_data r ! (at + 2))
       (rd_data r ! (at + 3)))
     else Inl out_of_range)"

definition get_u8 :: "StringReader \<Rightarrow> error + (u8 \<times> StringReader)" where
  "get_u8 r = (case pget_u8 r (rd_offset r) of Inl e \<Rightarrow> Inl e
     | Inr v \<Rightarrow> Inr (v, r\<lparr>rd_offset := rd_offset r + 1\<rparr>))"

definition get_u16l :: "StringReader \<Rightarrow> error + (u16 \<times> StringReader)" where
  "get_u16l r = (case pget_u16l r (rd_offset r) of Inl e \<Rightarrow> Inl e
     | Inr v \<Rightarrow> Inr (v, r\<lparr>rd_offset := rd_offset r + 2\<rparr>))"

definition get_u32l :: "StringReader \<Rightarrow> error + (u32 \<times> StringReader)" where
  "get_u32l r = (case pget_u32l r (rd_offset r) of Inl e \<Rightarrow> Inl e
     | Inr v \<Rightarrow> Inr (v, r\<lparr>rd_offset := rd_offset r + 4\<rparr>))"

text \<open>\<^verbatim>\<open>r.sub(offset)\<close> and \<^verbatim>\<open>r.sub(offset, size)\<close>.\<close>

definition sub_from :: "nat \<Rightarrow> StringReader \<Rightarrow> StringReader" where
  "sub_from at r = reader (drop at (rd_data r))"

definition sub_range :: "nat \<Rightarrow> nat \<Rightarrow> StringReader \<Rightarrow> StringReader" where
  "sub_range at n r = reader (take n (drop at (rd_data r)))"

text \<open>The bytes \<^verbatim>\<open>StringWriter::put_u16l\<close> and \<^verbatim>\<open>put_u32l\<close> append.\<close>

definition u16l_bytes :: "u16 \<Rightarrow> u8 list" where
  "u16l_bytes v = [ucast v, ucast (drop_bit 8 v)]"

definition u32l_bytes :: "u32 \<Rightarrow> u8 list" where
  "u32l_bytes v = [ucast v, ucast (drop_bit 8 v), ucast (drop_bit 16 v), ucast (drop_bit 24 v)]"

lemma reader_simps [simp]: "rd_data (reader bs) = bs" "rd_offset (reader bs) = 0"
  by (simp_all add: reader_def)

lemma ucast_u32_le: "(ucast (u32_le b0 b1 b2 b3) :: u8) = b0"
  by (simp add: u32_le_def bit_eq_iff bit_simps)


lemma skip_Inr:
  "skip n r = Inr r' \<Longrightarrow> rd_data r' = rd_data r \<and> rd_offset r' = rd_offset r + n
     \<and> rd_offset r + n \<le> length (rd_data r)"
  by (auto simp: skip_def rd_size_def split: if_splits)

lemma get_u8_Inr:
  "get_u8 r = Inr (v, r') \<Longrightarrow> rd_data r' = rd_data r \<and> rd_offset r' = rd_offset r + 1
     \<and> rd_offset r < length (rd_data r)"
  by (auto simp: get_u8_def pget_u8_def rd_size_def split: if_splits)

lemma get_u16l_Inr:
  "get_u16l r = Inr (v, r') \<Longrightarrow> rd_data r' = rd_data r \<and> rd_offset r' = rd_offset r + 2
     \<and> rd_offset r + 2 \<le> length (rd_data r)"
  by (auto simp: get_u16l_def pget_u16l_def rd_size_def split: if_splits)

lemma get_u32l_Inr:
  "get_u32l r = Inr (v, r') \<Longrightarrow> rd_data r' = rd_data r \<and> rd_offset r' = rd_offset r + 4
     \<and> rd_offset r + 4 \<le> length (rd_data r)"
  by (auto simp: get_u32l_def pget_u32l_def rd_size_def split: if_splits)

text \<open>
  The first bytes of an instruction, as both the disassembler and the episode detector
  read them: one byte, and a second one when the first is 0xF8 or 0xF9.
\<close>

definition get_opcode :: "StringReader \<Rightarrow> error + (u16 \<times> StringReader)" where
  "get_opcode r = (case get_u8 r of Inl e \<Rightarrow> Inl e
     | Inr (b, r1) \<Rightarrow>
         if (ucast b :: u16) AND 0xFE = 0xF8
         then (case get_u8 r1 of Inl e \<Rightarrow> Inl e
           | Inr (b2, r2) \<Rightarrow> Inr (push_bit 8 (ucast b) OR ucast b2, r2))
         else Inr (ucast b, r1))"

lemma get_opcode_Inr:
  "get_opcode r = Inr (opc, r') \<Longrightarrow> rd_data r' = rd_data r \<and> rd_offset r < rd_offset r'
     \<and> rd_offset r' \<le> length (rd_data r)"
  by (auto simp: get_opcode_def split: sum.splits prod.splits if_splits dest!: get_u8_Inr)

text \<open>
  The loops that step over a C string: bytes up to and including the first zero byte, or
  16-bit units up to and including the first zero unit.
\<close>

function skip_cstr :: "StringReader \<Rightarrow> error + StringReader" where
  "skip_cstr r = (case get_u8 r of Inl e \<Rightarrow> Inl e
     | Inr (ch, r') \<Rightarrow> if ch = 0 then Inr r' else skip_cstr r')"
  by pat_completeness auto
termination
  by (relation "measure remaining") (auto simp: remaining_def rd_size_def dest!: get_u8_Inr)

function skip_wstr :: "StringReader \<Rightarrow> error + StringReader" where
  "skip_wstr r = (case get_u16l r of Inl e \<Rightarrow> Inl e
     | Inr (ch, r') \<Rightarrow> if ch = 0 then Inr r' else skip_wstr r')"
  by pat_completeness auto
termination
  by (relation "measure remaining") (auto simp: remaining_def rd_size_def dest!: get_u16l_Inr)

declare skip_cstr.simps [simp del] skip_wstr.simps [simp del]

lemma skip_cstr_Inr:
  "skip_cstr r = Inr r' \<Longrightarrow> rd_data r' = rd_data r \<and> rd_offset r \<le> rd_offset r'"
proof (induction r rule: skip_cstr.induct)
  case (1 r)
  show ?case
  proof (cases "get_u8 r")
    case (Inl e)
    with "1.prems" show ?thesis by (simp add: skip_cstr.simps [of r])
  next
    case (Inr p)
    obtain ch r1 where p: "p = (ch, r1)" by (cases p)
    from Inr p have g: "get_u8 r = Inr (ch, r1)" by simp
    show ?thesis
    proof (cases "ch = 0")
      case True
      with g "1.prems" have "r' = r1" by (simp add: skip_cstr.simps [of r])
      with get_u8_Inr [OF g] show ?thesis by simp
    next
      case False
      with g "1.prems" have "skip_cstr r1 = Inr r'" by (simp add: skip_cstr.simps [of r])
      from "1.IH" [OF Inr p [symmetric] False this] get_u8_Inr [OF g] show ?thesis by simp
    qed
  qed
qed

lemma skip_wstr_Inr:
  "skip_wstr r = Inr r' \<Longrightarrow> rd_data r' = rd_data r \<and> rd_offset r \<le> rd_offset r'"
proof (induction r rule: skip_wstr.induct)
  case (1 r)
  show ?case
  proof (cases "get_u16l r")
    case (Inl e)
    with "1.prems" show ?thesis by (simp add: skip_wstr.simps [of r])
  next
    case (Inr p)
    obtain ch r1 where p: "p = (ch, r1)" by (cases p)
    from Inr p have g: "get_u16l r = Inr (ch, r1)" by simp
    show ?thesis
    proof (cases "ch = 0")
      case True
      with g "1.prems" have "r' = r1" by (simp add: skip_wstr.simps [of r])
      with get_u16l_Inr [OF g] show ?thesis by simp
    next
      case False
      with g "1.prems" have "skip_wstr r1 = Inr r'" by (simp add: skip_wstr.simps [of r])
      from "1.IH" [OF Inr p [symmetric] False this] get_u16l_Inr [OF g] show ?thesis by simp
    qed
  qed
qed

section \<open>The episode detector\<close>

definition episode_for_quest_episode_number :: "u8 \<Rightarrow> error + episode" where
  "episode_for_quest_episode_number episode_number =
     (if episode_number = 0x00 \<or> episode_number = 0xFF then Inr EP1
      else if episode_number = 0x01 then Inr EP2
      else if episode_number = 0x02 then Inr EP4
      else Inl (runtime_error ''invalid episode number''))"

text \<open>
  The fields of a quest header that the code below reads. The packed structs
  (\<^verbatim>\<open>PSOQuestHeaderGC\<close>, \<^verbatim>\<open>PSOQuestHeaderBB\<close>, ...) are declared outside the files at
  hand, so a function that starts with \<^verbatim>\<open>r.get<PSOQuestHeader...>()\<close> takes the outcome
  of that read as an argument: \<open>None\<close> when the buffer is shorter than the struct (the read
  throws \<^verbatim>\<open>out_of_range\<close>), and the fields otherwise. A variant without a field (the BB
  header has no language byte, the DC and PC headers no episode byte) leaves it unread.
\<close>

record quest_header =
  code_offset :: u32
  function_table_offset :: u32
  language :: u8
  episode :: u8

text \<open>
  One argument of an instruction, as the detector steps over it. The set of found
  episodes is returned also when the step throws: what was found before stays found.
\<close>

definition skip_argument ::
  "bool \<Rightarrow> u16 \<Rightarrow> arg_type \<Rightarrow> StringReader \<Rightarrow> episode list
     \<Rightarrow> episode list \<times> (error + StringReader)" where
  "skip_argument use_wstrs flags t r found = (case t of
      LABEL16 \<Rightarrow> (found, skip 2 r)
    | LABEL32 \<Rightarrow> (found, skip 4 r)
    | LABEL16_SET \<Rightarrow> (found,
        if flags AND F_PASS \<noteq> 0 then Inl (logic_error ''LABEL16_SET cannot be pushed to arg stack'')
        else (case get_u8 r of Inl e \<Rightarrow> Inl e | Inr (n, r') \<Rightarrow> skip (unat n * 2) r'))
    | REG \<Rightarrow> (found, skip 1 r)
    | REG_SET \<Rightarrow> (found,
        if flags AND F_PASS \<noteq> 0 then Inl (logic_error ''REG_SET cannot be pushed to arg stack'')
        else (case get_u8 r of Inl e \<Rightarrow> Inl e | Inr (n, r') \<Rightarrow> skip (unat n) r'))
    | REG_SET_FIXED \<Rightarrow> (found,
        if flags AND F_PASS \<noteq> 0 then Inl (logic_error ''REG_SET_FIXED cannot be pushed to arg stack'')
        else skip 1 r)
    | REG32_SET_FIXED \<Rightarrow> (found,
        if flags AND F_PASS \<noteq> 0
        then Inl (logic_error ''REG32_SET_FIXED cannot be pushed to arg stack'')
        else skip 4 r)
    | INT8 \<Rightarrow> (found, skip 1 r)
    | INT16 \<Rightarrow> (found, skip 2 r)
    | INT32 \<Rightarrow>
        if flags AND F_SET_EPISODE \<noteq> 0
        then (case get_u32l r of Inl e \<Rightarrow> (found, Inl e)
          | Inr (v, r') \<Rightarrow>
              (case episode_for_quest_episode_number (ucast v) of Inl e \<Rightarrow> (found, Inl e)
               | Inr ep \<Rightarrow> (List.insert ep found, Inr r')))
        else (found, skip 4 r)
    | FLOAT32 \<Rightarrow> (found, skip 4 r)
    | CSTRING \<Rightarrow> (found, if use_wstrs then skip_wstr r else skip_cstr r)
    | REG32 \<Rightarrow> (found, Inl (logic_error ''invalid argument type'')))"

fun skip_arguments ::
  "bool \<Rightarrow> u16 \<Rightarrow> argument list \<Rightarrow> StringReader \<Rightarrow> episode list
     \<Rightarrow> episode list \<times> (error + StringReader)" where
  "skip_arguments use_wstrs flags [] r found = (found, Inr r)"
| "skip_arguments use_wstrs flags (a # as) r found =
     (case skip_argument use_wstrs flags (arg_type a) r found of
        (found', Inl e) \<Rightarrow> (found', Inl e)
      | (found', Inr r') \<Rightarrow> skip_arguments use_wstrs flags as r' found')"

lemma skip_argument_Inr:
  "skip_argument use_wstrs flags t r found = (found', Inr r') \<Longrightarrow>
     rd_data r' = rd_data r \<and> rd_offset r \<le> rd_offset r'"
  by (cases t)
    (auto simp: skip_argument_def split: if_splits sum.splits prod.splits
      dest!: skip_Inr get_u8_Inr get_u32l_Inr skip_cstr_Inr skip_wstr_Inr)

lemma skip_arguments_Inr:
  "skip_arguments use_wstrs flags as r found = (found', Inr r') \<Longrightarrow>
     rd_data r' = rd_data r \<and> rd_offset r \<le> rd_offset r'"
proof (induction as arbitrary: r found)
  case Nil
  then show ?case by simp
next
  case (Cons a as)
  then show ?case
    by (fastforce split: prod.splits sum.splits dest: skip_argument_Inr)
qed

text \<open>
  The loop of the \<^verbatim>\<open>try\<close> block: it ends at the end of the buffer, at an opcode with
  \<^verbatim>\<open>F_RET\<close>, or at the first exception, which is returned beside the episodes found.
\<close>

function walk_function0 ::
  "(u16 \<rightharpoonup> opcode_def) \<Rightarrow> bool \<Rightarrow> StringReader \<Rightarrow> episode list
     \<Rightarrow> episode list \<times> error option" where
  "walk_function0 opcodes use_wstrs cmd_r found =
     (if eof cmd_r then (found, None)
      else (case get_opcode cmd_r of Inl e \<Rightarrow> (found, Some e)
        | Inr (opcode, r1) \<Rightarrow>
            (case opcodes opcode of
               None \<Rightarrow> (found, Some (runtime_error ''unknown quest opcode''))
             | Some d \<Rightarrow>
                 if op_flags d AND F_RET \<noteq> 0 then (found, None)
                 else if op_flags d AND F_ARGS \<noteq> 0
                 then walk_function0 opcodes use_wstrs r1 found
                 else (case skip_arguments use_wstrs (op_flags d) (op_args d) r1 found of
                    (found', Inl e) \<Rightarrow> (found', Some e)
                  | (found', Inr r2) \<Rightarrow> walk_function0 opcodes use_wstrs r2 found'))))"
  by pat_completeness auto
termination
  by (relation "measure (\<lambda>(opcodes, use_wstrs, cmd_r, found). remaining cmd_r)")
    (auto simp: remaining_def rd_size_def dest!: get_opcode_Inr skip_arguments_Inr [OF sym])

declare walk_function0.simps [simp del]

text \<open>
  The \<^verbatim>\<open>try\<close> block as a whole: the opcode index of the build, the entry of function 0
  read from the function table, and the loop over \<^verbatim>\<open>r.sub(code_offset + entry)\<close>.
\<close>

definition scan_function0 ::
  "quest_header \<Rightarrow> u8 list \<Rightarrow> version \<Rightarrow> bool \<Rightarrow> episode list \<times> error option" where
  "scan_function0 header data version use_wstrs =
     (case opcodes_for_version version of Inl e \<Rightarrow> ([], Some e)
      | Inr opcodes \<Rightarrow>
          (case pget_u32l (reader data) (unat (function_table_offset header)) of
             Inl e \<Rightarrow> ([], Some e)
           | Inr entry \<Rightarrow>
               walk_function0 opcodes use_wstrs
                 (sub_from (unat (code_offset header) + unat entry) (reader data)) []))"

definition episode_from_header_and_script ::
  "quest_header option \<Rightarrow> u8 list \<Rightarrow> version \<Rightarrow> bool \<Rightarrow> error + episode" where
  "episode_from_header_and_script header data version use_wstrs =
     (case header of None \<Rightarrow> Inl out_of_range
      | Some h \<Rightarrow>
          (case episode_for_quest_episode_number (episode h) of Inl e \<Rightarrow> Inl e
           | Inr header_episode \<Rightarrow>
               (let found_episodes = fst (scan_function0 h data version use_wstrs) in
                if length found_episodes > 1 then Inl (runtime_error ''multiple episodes found'')
                else if length found_episodes = 1 then Inr (hd found_episodes)
                else Inr header_episode)))"

definition find_quest_episode_from_script ::
  "quest_header option \<Rightarrow> u8 list \<Rightarrow> version \<Rightarrow> error + episode" where
  "find_quest_episode_from_script header data version = (case version of
      DC_NTE \<Rightarrow> Inr EP1
    | DC_V1_11_2000_PROTOTYPE \<Rightarrow> Inr EP1
    | DC_V1 \<Rightarrow> Inr EP1
    | DC_V2 \<Rightarrow> Inr EP1
    | PC_NTE \<Rightarrow> Inr EP1
    | PC_V2 \<Rightarrow> Inr EP1
    | GC_NTE \<Rightarrow> episode_from_header_and_script header data version False
    | GC_V3 \<Rightarrow> episode_from_header_and_script header data version False
    | GC_EP3_NTE \<Rightarrow> episode_from_header_and_script header data version False
    | GC_EP3 \<Rightarrow> episode_from_header_and_script header data version False
    | XB_V3 \<Rightarrow> episode_from_header_and_script header data version False
    | BB_V4 \<Rightarrow> episode_from_header_and_script header data version True
    | _ \<Rightarrow> Inl (logic_error ''invalid quest version''))"

section \<open>Properties of the episode detector\<close>

text \<open>
  Claim C10. For the DC and PC builds the function returns Episode 1 whatever the header
  and the buffer are: neither is read, and nothing can fail.
\<close>

theorem find_episode_dc_pc:
  "find_quest_episode_from_script header data DC_NTE = Inr EP1
   \<and> find_quest_episode_from_script header data DC_V1_11_2000_PROTOTYPE = Inr EP1
   \<and> find_quest_episode_from_script header data DC_V1 = Inr EP1
   \<and> find_quest_episode_from_script header data DC_V2 = Inr EP1
   \<and> find_quest_episode_from_script header data PC_NTE = Inr EP1
   \<and> find_quest_episode_from_script header data PC_V2 = Inr EP1"
  by (simp add: find_quest_episode_from_script_def)

lemma get_opcode_two_byte:
  "get_opcode \<lparr>rd_data = 0xF8 # 0xBC # bs, rd_offset = 0\<rparr>
     = Inr (0xF8BC, \<lparr>rd_data = 0xF8 # 0xBC # bs, rd_offset = 2\<rparr>)"
  by (simp add: get_opcode_def get_u8_def pget_u8_def rd_size_def)

lemma walk_set_episode_ret:
  assumes o1: "opcodes 0x0001 = Some def_ret" and o2: "opcodes 0xF8BC = Some def_set_episode"
  shows "walk_function0 opcodes use_wstrs
      (reader ([0xF8, 0xBC, b0, b1, b2, b3, 0x01] @ rest)) [] =
    (case episode_for_quest_episode_number b0 of
       Inl e \<Rightarrow> ([], Some e) | Inr ep \<Rightarrow> ([ep], None))"
proof -
  let ?bs = "[0xF8, 0xBC, b0, b1, b2, b3, 0x01] @ rest"
  have a: "walk_function0 opcodes use_wstrs \<lparr>rd_data = ?bs, rd_offset = 6\<rparr> found = (found, None)"
    for found
    by (subst walk_function0.simps)
      (simp add: eof_def rd_size_def get_opcode_def get_u8_def pget_u8_def o1 def_ret_def
        flag_defs)
  have f: "op_flags def_set_episode AND F_RET = 0" "op_flags def_set_episode AND F_ARGS = 0"
    "op_flags def_set_episode AND F_SET_EPISODE \<noteq> 0"
    "op_args def_set_episode = [Arg INT32]"
    by (simp_all add: def_set_episode_def flag_defs)
  show ?thesis
    by (subst walk_function0.simps)
      (simp add: reader_def eof_def rd_size_def get_opcode_two_byte [simplified] o2 f
        Arg_def skip_argument_def get_u32l_def pget_u32l_def ucast_u32_le a [simplified]
        split: sum.splits)
qed

lemma episode_from_header_and_script_v3_v4:
  assumes v: "v \<in> v3_v4_builds"
  shows "find_quest_episode_from_script header data v =
    episode_from_header_and_script header data v (v = BB_V4)"
  using v by (auto simp: v3_v4_builds_def find_quest_episode_from_script_def)

lemma scan_set_episode_ret:
  assumes v: "v \<in> v3_v4_builds"
    and entry: "pget_u32l (reader data) (unat (function_table_offset h)) = Inr entry"
    and code: "drop (unat (code_offset h) + unat entry) data =
      [0xF8, 0xBC] @ u32l_bytes literal @ [0x01] @ rest"
  shows "scan_function0 h data v use_wstrs =
    (case episode_for_quest_episode_number (ucast literal) of
       Inl e \<Rightarrow> ([], Some e) | Inr ep \<Rightarrow> ([ep], None))"
proof -
  from v obtain opcodes where o: "opcodes_for_version v = Inr opcodes"
    "opcodes 0x0001 = Some def_ret" "opcodes 0xF8BC = Some def_set_episode"
    by (rule v3_v4_opcodes)
  have "scan_function0 h data v use_wstrs =
      walk_function0 opcodes use_wstrs
        (reader ([0xF8, 0xBC, ucast literal, ucast (drop_bit 8 literal),
          ucast (drop_bit 16 literal), ucast (drop_bit 24 literal), 0x01] @ rest)) []"
    using code by (simp add: scan_function0_def o(1) entry sub_from_def u32l_bytes_def)
  then show ?thesis
    by (simp only: walk_set_episode_ret [OF o(2,3)])
qed

lemma find_episode_set_episode_ret:
  assumes v: "v \<in> v3_v4_builds"
    and hdr: "episode_for_quest_episode_number (episode h) = Inr header_episode"
    and entry: "pget_u32l (reader data) (unat (function_table_offset h)) = Inr entry"
    and code: "drop (unat (code_offset h) + unat entry) data =
      [0xF8, 0xBC] @ u32l_bytes literal @ [0x01] @ rest"
  shows "find_quest_episode_from_script (Some h) data v =
    (case episode_for_quest_episode_number (ucast literal) of
       Inl e \<Rightarrow> Inr header_episode | Inr ep \<Rightarrow> Inr ep)"
  by (simp add: episode_from_header_and_script_v3_v4 [OF v] episode_from_header_and_script_def
      hdr scan_set_episode_ret [OF v entry code] split: sum.splits)

subsection \<open>The instructions of function 0\<close>

text \<open>
  The stream of instructions that the walk of function 0 goes through, read from the
  bytes with the opcode index: \<open>walks opcodes use_wstrs r literals outcome\<close> says that
  from the cursor \<open>r\<close> on the instructions with \<^verbatim>\<open>F_SET_EPISODE\<close> that are reached
  carry the INT32 arguments \<open>literals\<close>, in this order, and that the stream ends as
  \<open>outcome\<close> says: at an instruction with \<^verbatim>\<open>F_RET\<close> or at the end of the buffer
  (\<open>None\<close>), or at what cannot be decoded (the exception). An instruction with \<^verbatim>\<open>F_ARGS\<close>
  has no bytes after its opcode; an episode setter has one INT32 argument; a literal that
  is no episode number ends the stream.
\<close>

inductive walks ::
  "(u16 \<rightharpoonup> opcode_def) \<Rightarrow> bool \<Rightarrow> StringReader \<Rightarrow> u32 list \<Rightarrow> error option \<Rightarrow> bool"
  for opcodes :: "u16 \<rightharpoonup> opcode_def" and use_wstrs :: bool where
  at_end: "eof r \<Longrightarrow> walks opcodes use_wstrs r [] None"
| cut_opcode: "\<not> eof r \<Longrightarrow> get_opcode r = Inl e \<Longrightarrow> walks opcodes use_wstrs r [] (Some e)"
| unknown_opcode:
    "\<not> eof r \<Longrightarrow> get_opcode r = Inr (opcode, r1) \<Longrightarrow> opcodes opcode = None \<Longrightarrow>
     walks opcodes use_wstrs r [] (Some (runtime_error ''unknown quest opcode''))"
| at_ret:
    "\<not> eof r \<Longrightarrow> get_opcode r = Inr (opcode, r1) \<Longrightarrow> opcodes opcode = Some d \<Longrightarrow>
     op_flags d AND F_RET \<noteq> 0 \<Longrightarrow> walks opcodes use_wstrs r [] None"
| stack_instruction:
    "\<not> eof r \<Longrightarrow> get_opcode r = Inr (opcode, r1) \<Longrightarrow> opcodes opcode = Some d \<Longrightarrow>
     op_flags d AND F_RET = 0 \<Longrightarrow> op_flags d AND F_ARGS \<noteq> 0 \<Longrightarrow>
     walks opcodes use_wstrs r1 literals outcome \<Longrightarrow>
     walks opcodes use_wstrs r literals outcome"
| episode_setter:
    "\<not> eof r \<Longrightarrow> get_opcode r = Inr (opcode, r1) \<Longrightarrow> opcodes opcode = Some d \<Longrightarrow>
     op_flags d AND F_RET = 0 \<Longrightarrow> op_flags d AND F_ARGS = 0 \<Longrightarrow>
     op_flags d AND F_SET_EPISODE \<noteq> 0 \<Longrightarrow> map arg_type (op_args d) = [INT32] \<Longrightarrow>
     get_u32l r1 = Inr (literal, r2) \<Longrightarrow>
     episode_for_quest_episode_number (ucast literal) = Inr ep \<Longrightarrow>
     walks opcodes use_wstrs r2 literals outcome \<Longrightarrow>
     walks opcodes use_wstrs r (literal # literals) outcome"
| bad_episode:
    "\<not> eof r \<Longrightarrow> get_opcode r = Inr (opcode, r1) \<Longrightarrow> opcodes opcode = Some d \<Longrightarrow>
     op_flags d AND F_RET = 0 \<Longrightarrow> op_flags d AND F_ARGS = 0 \<Longrightarrow>
     op_flags d AND F_SET_EPISODE \<noteq> 0 \<Longrightarrow> map arg_type (op_args d) = [INT32] \<Longrightarrow>
     get_u32l r1 = Inr (literal, r2) \<Longrightarrow>
     episode_for_quest_episode_number (ucast literal) = Inl e \<Longrightarrow>
     walks opcodes use_wstrs r [literal] (Some e)"
| cut_episode:
    "\<not> eof r \<Longrightarrow> get_opcode r = Inr (opcode, r1) \<Longrightarrow> opcodes opcode = Some d \<Longrightarrow>
     op_flags d AND F_RET = 0 \<Longrightarrow> op_flags d AND F_ARGS = 0 \<Longrightarrow>
     op_flags d AND F_SET_EPISODE \<noteq> 0 \<Longrightarrow> map arg_type (op_args d) = [INT32] \<Longrightarrow>
     get_u32l r1 = Inl e \<Longrightarrow>
     walks opcodes use_wstrs r [] (Some e)"
| other_instruction:
    "\<not> eof r \<Longrightarrow> get_opcode r = Inr (opcode, r1) \<Longrightarrow> opcodes opcode = Some d \<Longrightarrow>
     op_flags d AND F_RET = 0 \<Longrightarrow> op_flags d AND F_ARGS = 0 \<Longrightarrow>
     op_flags d AND F_SET_EPISODE = 0 \<Longrightarrow>
     snd (skip_arguments use_wstrs (op_flags d) (op_args d) r1 []) = Inr r2 \<Longrightarrow>
     walks opcodes use_wstrs r2 literals outcome \<Longrightarrow>
     walks opcodes use_wstrs r literals outcome"
| cut_instruction:
    "\<not> eof r \<Longrightarrow> get_opcode r = Inr (opcode, r1) \<Longrightarrow> opcodes opcode = Some d \<Longrightarrow>
     op_flags d AND F_RET = 0 \<Longrightarrow> op_flags d AND F_ARGS = 0 \<Longrightarrow>
     op_flags d AND F_SET_EPISODE = 0 \<Longrightarrow>
     snd (skip_arguments use_wstrs (op_flags d) (op_args d) r1 []) = Inl e \<Longrightarrow>
     walks opcodes use_wstrs r [] (Some e)"

text \<open>The episodes that the literals of the episode setters stand for.\<close>

fun literal_episodes :: "u32 list \<Rightarrow> episode list" where
  "literal_episodes [] = []"
| "literal_episodes (literal # literals) =
     (case episode_for_quest_episode_number (ucast literal) of
        Inl e \<Rightarrow> literal_episodes literals
      | Inr ep \<Rightarrow> ep # literal_episodes literals)"

lemma skip_argument_other:
  "flags AND F_SET_EPISODE = 0 \<Longrightarrow>
   skip_argument use_wstrs flags t r found
     = (found, snd (skip_argument use_wstrs flags t r []))"
  by (cases t) (simp_all add: skip_argument_def)

lemma skip_arguments_other:
  "flags AND F_SET_EPISODE = 0 \<Longrightarrow>
   skip_arguments use_wstrs flags as r found
     = (found, snd (skip_arguments use_wstrs flags as r []))"
proof (induction as arbitrary: r)
  case Nil
  then show ?case by simp
next
  case (Cons a as)
  show ?case
  proof (cases "snd (skip_argument use_wstrs flags (arg_type a) r [])")
    case (Inl e)
    then show ?thesis
      using skip_argument_other [OF Cons.prems, of use_wstrs "arg_type a" r found]
        skip_argument_other [OF Cons.prems, of use_wstrs "arg_type a" r "[]"]
      by simp
  next
    case (Inr r')
    then show ?thesis
      using skip_argument_other [OF Cons.prems, of use_wstrs "arg_type a" r found]
        skip_argument_other [OF Cons.prems, of use_wstrs "arg_type a" r "[]"]
        Cons.IH [OF Cons.prems, of r']
      by simp
  qed
qed

lemma skip_arguments_setter:
  assumes "flags AND F_SET_EPISODE \<noteq> 0" and "map arg_type as = [INT32]"
  shows "skip_arguments use_wstrs flags as r found =
    (case get_u32l r of Inl e \<Rightarrow> (found, Inl e)
     | Inr (v, r') \<Rightarrow>
         (case episode_for_quest_episode_number (ucast v) of Inl e \<Rightarrow> (found, Inl e)
          | Inr ep \<Rightarrow> (List.insert ep found, Inr r')))"
proof -
  from assms(2) obtain a where as: "as = [a]" and a: "arg_type a = INT32"
    by (cases as) auto
  show ?thesis
    using assms(1) by (simp add: as a skip_argument_def split: sum.splits)
qed

lemma walk_function0_walks:
  "walks opcodes use_wstrs r literals outcome \<Longrightarrow>
   walk_function0 opcodes use_wstrs r found
     = (fold List.insert (literal_episodes literals) found, outcome)"
proof (induction arbitrary: found rule: walks.induct)
  case (at_end r)
  then show ?case by (simp add: walk_function0.simps [of _ _ r])
next
  case (cut_opcode r e)
  then show ?case by (simp add: walk_function0.simps [of _ _ r])
next
  case (unknown_opcode r opcode r1)
  then show ?case by (simp add: walk_function0.simps [of _ _ r])
next
  case (at_ret r opcode r1 d)
  then show ?case by (simp add: walk_function0.simps [of _ _ r])
next
  case (stack_instruction r opcode r1 d literals outcome)
  then show ?case by (simp add: walk_function0.simps [of _ _ r])
next
  case (episode_setter r opcode r1 d literal r2 ep literals outcome)
  then show ?case
    by (simp add: walk_function0.simps [of _ _ r] skip_arguments_setter)
next
  case (bad_episode r opcode r1 d literal r2 e)
  then show ?case
    by (simp add: walk_function0.simps [of _ _ r] skip_arguments_setter)
next
  case (cut_episode r opcode r1 d e)
  then show ?case
    by (simp add: walk_function0.simps [of _ _ r] skip_arguments_setter)
next
  case (other_instruction r opcode r1 d r2 literals outcome)
  then show ?case
    by (simp add: walk_function0.simps [of _ _ r]
        skip_arguments_other [of "op_flags d" use_wstrs "op_args d" r1 found])
next
  case (cut_instruction r opcode r1 d e)
  then show ?case
    by (simp add: walk_function0.simps [of _ _ r]
        skip_arguments_other [of "op_flags d" use_wstrs "op_args d" r1 found])
qed

lemma set_fold_insert: "set (fold List.insert xs ys) = set xs \<union> set ys"
  by (induction xs arbitrary: ys) auto

lemma distinct_fold_insert: "distinct ys \<Longrightarrow> distinct (fold List.insert xs ys)"
  by (induction xs arbitrary: ys) auto

lemma distinct_singleton: "distinct xs \<Longrightarrow> set xs = {x} \<Longrightarrow> xs = [x]"
  by (cases xs) (auto simp: insert_eq_iff dest: subset_singletonD)

lemma select_found:
  "(let found = fold List.insert eps [] in
    if length found > 1 then Inl (runtime_error ''multiple episodes found'')
    else if length found = 1 then Inr (hd found) else Inr header_episode)
   = (case remdups eps of
        [] \<Rightarrow> Inr header_episode
      | [ep] \<Rightarrow> Inr ep
      | ep # ep' # others \<Rightarrow> Inl (runtime_error ''multiple episodes found''))"
proof -
  let ?f = "fold List.insert eps []"
  have s: "set ?f = set eps" by (simp add: set_fold_insert)
  have d: "distinct ?f" by (simp add: distinct_fold_insert)
  have l: "length ?f = length (remdups eps)"
    using s d by (metis distinct_card length_remdups_card_conv)
  show ?thesis
  proof (cases "remdups eps")
    case Nil
    then show ?thesis using l by simp
  next
    case (Cons ep rest)
    show ?thesis
    proof (cases rest)
      case Nil
      with Cons have "set eps = {ep}" by (metis set_remdups list.simps(15) empty_set)
      with s d have "?f = [ep]" by (intro distinct_singleton) simp_all
      then show ?thesis using Cons Nil by simp
    next
      case (Cons ep' others)
      with \<open>remdups eps = ep # rest\<close> l show ?thesis by simp
    qed
  qed
qed

lemma scan_function0_walks:
  assumes "opcodes_for_version v = Inr opcodes"
    and "pget_u32l (reader data) (unat (function_table_offset h)) = Inr entry"
    and "walks opcodes use_wstrs
      (sub_from (unat (code_offset h) + unat entry) (reader data)) literals outcome"
  shows "scan_function0 h data v use_wstrs
    = (fold List.insert (literal_episodes literals) [], outcome)"
  by (simp add: scan_function0_def assms(1,2) walk_function0_walks [OF assms(3)])

text \<open>
  Claim C4, as the code has it. A V3/V4 quest with a valid episode byte in its header,
  whose function 0, walked from its entry, reaches exactly one episode setter, at any
  place in the function, with the INT32 argument \<open>literal\<close>. The literal is read through
  its low byte: 0 (and 0xFF) gives Episode 1, 1 gives Episode 2 and 2 gives Episode 4. For
  any other low byte (the literal 3, say) the invalid-number error is thrown inside the
  \<^verbatim>\<open>try\<close> block and caught there, and the function returns the header's episode
  instead of failing.
\<close>

theorem set_episode_literal:
  assumes "v \<in> v3_v4_builds"
    and "episode_for_quest_episode_number (episode h) = Inr header_episode"
    and "opcodes_for_version v = Inr opcodes"
    and "pget_u32l (reader data) (unat (function_table_offset h)) = Inr entry"
    and "walks opcodes (v = BB_V4)
      (sub_from (unat (code_offset h) + unat entry) (reader data)) [literal] outcome"
  shows "find_quest_episode_from_script (Some h) data v =
    (if (ucast literal :: u8) = 0x00 \<or> (ucast literal :: u8) = 0xFF then Inr EP1
     else if (ucast literal :: u8) = 0x01 then Inr EP2
     else if (ucast literal :: u8) = 0x02 then Inr EP4
     else Inr header_episode)"
proof -
  have "find_quest_episode_from_script (Some h) data v =
      (case episode_for_quest_episode_number (ucast literal) of
         Inl e \<Rightarrow> Inr header_episode | Inr ep \<Rightarrow> Inr ep)"
    by (simp add: episode_from_header_and_script_v3_v4 [OF assms(1)]
        episode_from_header_and_script_def assms(2) scan_function0_walks [OF assms(3,4,5)]
        split: sum.splits)
  then show ?thesis
    by (simp add: episode_for_quest_episode_number_def)
qed

text \<open>
  A concrete quest for the examples: 0x1D4 header bytes, eight bytes of code, and a function
  table with the one entry 0.
\<close>

definition gc_example_header :: quest_header where
  "gc_example_header =
     \<lparr>code_offset = 0x1D4, function_table_offset = 0x1DC, language = 1, episode = 0\<rparr>"

definition gc_example_quest :: "u8 list \<Rightarrow> u8 list" where
  "gc_example_quest code = replicate 0x1D4 0 @ code @ [0, 0, 0, 0]"

lemma gc_example_entry:
  "length code = 8 \<Longrightarrow>
   pget_u32l (reader (gc_example_quest code)) (unat (function_table_offset gc_example_header))
     = Inr 0"
  by (simp add: gc_example_quest_def gc_example_header_def pget_u32l_def reader_def rd_size_def
      nth_append u32_le_def)

lemma gc_v3_opcodes:
  obtains opcodes where "opcodes_for_version GC_V3 = Inr opcodes"
    and "opcodes 0x0000 = Some def_nop" and "opcodes 0x0001 = Some def_ret"
    and "opcodes 0xF8BC = Some def_set_episode" and "opcodes 0x000E = None"
proof -
  have r: "row_active (v_flag GC_V3) def_nop" "row_active (v_flag GC_V3) def_ret"
    "row_active (v_flag GC_V3) def_set_episode"
    by (simp_all add: row_active_def v_flag_def def_nop_def def_ret_def def_set_episode_def
        flag_defs)
  have "opcodes_for_version GC_V3 = Inr (\<lambda>k. lookup_opcode (v_flag GC_V3) k opcode_defs)"
    by (rule opcodes_for_version_eq) simp_all
  with r that show thesis
    by (simp add: lookup_nop lookup_ret lookup_set_episode lookup_000E)
qed

lemma set_episode_flags:
  "op_flags def_set_episode AND F_RET = 0" "op_flags def_set_episode AND F_ARGS = 0"
  "op_flags def_set_episode AND F_SET_EPISODE \<noteq> 0"
  "map arg_type (op_args def_set_episode) = [INT32]"
  by (simp_all add: def_set_episode_def flag_defs Arg_def)

lemma nop_flags:
  "op_flags def_nop AND F_RET = 0" "op_flags def_nop AND F_ARGS = 0"
  "op_flags def_nop AND F_SET_EPISODE = 0" "op_args def_nop = []"
  by (simp_all add: def_nop_def flag_defs)

lemma ret_flags: "op_flags def_ret AND F_RET \<noteq> 0"
  by (simp add: def_ret_def flag_defs)

lemmas read_simps = eof_def rd_size_def get_opcode_def get_u8_def pget_u8_def get_u32l_def
  pget_u32l_def u32_le_def

text \<open>The function 0 of the example is \<^verbatim>\<open>nop\<close>, \<^verbatim>\<open>set_episode 1\<close>, \<^verbatim>\<open>ret\<close>.\<close>

theorem set_episode_literal_witness:
  "find_quest_episode_from_script (Some gc_example_header)
     (gc_example_quest [0x00, 0xF8, 0xBC, 1, 0, 0, 0, 0x01]) GC_V3 = Inr EP2"
proof -
  obtain opcodes where o: "opcodes_for_version GC_V3 = Inr opcodes"
    "opcodes 0x0000 = Some def_nop" "opcodes 0x0001 = Some def_ret"
    "opcodes 0xF8BC = Some def_set_episode" "opcodes 0x000E = None"
    by (rule gc_v3_opcodes)
  let ?bs = "[0x00, 0xF8, 0xBC, 1, 0, 0, 0, 0x01, 0, 0, 0, 0] :: u8 list"
  have v: "GC_V3 \<in> v3_v4_builds"
    by (simp add: v3_v4_builds_def)
  have hdr: "episode_for_quest_episode_number (episode gc_example_header) = Inr EP1"
    by (simp add: episode_for_quest_episode_number_def gc_example_header_def)
  have start: "sub_from (unat (code_offset gc_example_header) + unat (0 :: u32))
      (reader (gc_example_quest [0x00, 0xF8, 0xBC, 1, 0, 0, 0, 0x01]))
      = \<lparr>rd_data = ?bs, rd_offset = 0\<rparr>"
    by (simp add: sub_from_def gc_example_quest_def gc_example_header_def reader_def)
  have w3: "walks opcodes False \<lparr>rd_data = ?bs, rd_offset = 7\<rparr> [] None"
    by (rule walks.at_ret [where opcode = 1 and d = def_ret
          and ?r1.0 = "\<lparr>rd_data = ?bs, rd_offset = 8\<rparr>"])
      (simp_all add: read_simps o ret_flags)
  have w2: "walks opcodes False \<lparr>rd_data = ?bs, rd_offset = 1\<rparr> [1] None"
    by (rule walks.episode_setter [where opcode = "0xF8BC" and d = def_set_episode
          and ?r1.0 = "\<lparr>rd_data = ?bs, rd_offset = 3\<rparr>"
          and ?r2.0 = "\<lparr>rd_data = ?bs, rd_offset = 7\<rparr>" and ep = EP2, OF _ _ _ _ _ _ _ _ _ w3])
      (simp_all add: read_simps o set_episode_flags episode_for_quest_episode_number_def)
  have w1: "walks opcodes False \<lparr>rd_data = ?bs, rd_offset = 0\<rparr> [1] None"
    by (rule walks.other_instruction [where opcode = 0 and d = def_nop
          and ?r1.0 = "\<lparr>rd_data = ?bs, rd_offset = 1\<rparr>"
          and ?r2.0 = "\<lparr>rd_data = ?bs, rd_offset = 1\<rparr>", OF _ _ _ _ _ _ _ w2])
      (simp_all add: read_simps o nop_flags)
  have w: "walks opcodes (GC_V3 = BB_V4)
      (sub_from (unat (code_offset gc_example_header) + unat (0 :: u32))
        (reader (gc_example_quest [0x00, 0xF8, 0xBC, 1, 0, 0, 0, 0x01]))) [1] None"
    using w1 by (simp only: start version.simps)
  show ?thesis
    using set_episode_literal [OF v hdr o(1) gc_example_entry w] by simp
qed


text \<open>
  The claim as stated fails at the literal 3: the function returns Episode 1, the episode
  of the header, and no error.
\<close>

theorem set_episode_3_counterexample:
  "find_quest_episode_from_script (Some gc_example_header)
     (gc_example_quest [0xF8, 0xBC, 3, 0, 0, 0, 0x01, 0]) GC_V3 = Inr EP1"
proof -
  have v: "GC_V3 \<in> v3_v4_builds"
    by (simp add: v3_v4_builds_def)
  have hdr: "episode_for_quest_episode_number (episode gc_example_header) = Inr EP1"
    by (simp add: episode_for_quest_episode_number_def gc_example_header_def)
  have code: "drop (unat (code_offset gc_example_header) + unat (0 :: u32))
      (gc_example_quest [0xF8, 0xBC, 3, 0, 0, 0, 0x01, 0]) =
      [0xF8, 0xBC] @ u32l_bytes 3 @ [0x01] @ [0, 0, 0, 0, 0]"
    by (simp add: gc_example_quest_def gc_example_header_def u32l_bytes_def)
  show ?thesis
    using find_episode_set_episode_ret [OF v hdr gc_example_entry code]
    by (simp add: episode_for_quest_episode_number_def)
qed

definition script_builds :: "version set" where
  "script_builds = {GC_NTE, GC_V3, GC_EP3_NTE, GC_EP3, XB_V3, BB_V4}"

lemma episode_from_header_and_script_builds:
  assumes v: "v \<in> script_builds"
  shows "find_quest_episode_from_script header data v =
    episode_from_header_and_script header data v (v = BB_V4)"
  using v by (auto simp: script_builds_def find_quest_episode_from_script_def)

text \<open>
  Claim C6, as the code has it. For a build whose script is walked and a header with a
  valid episode byte, let the walk of function 0 reach the episode setters with the
  arguments \<open>literals\<close> and end as \<open>outcome\<close> says, at \<^verbatim>\<open>ret\<close>, at the end of the buffer
  or at an exception. The exception is caught: it is what the \<^verbatim>\<open>try\<close> block ends with,
  and the function goes on to the selection, which is made among the episodes of the
  literals reached before the end, whatever the end was. With no episode the header's
  episode is returned, with one episode (set once or several times) that episode, and
  with two different episodes the function fails with "multiple episodes found".
\<close>

theorem episode_selection:
  assumes "v \<in> script_builds"
    and "episode_for_quest_episode_number (episode h) = Inr header_episode"
    and "opcodes_for_version v = Inr opcodes"
    and "pget_u32l (reader data) (unat (function_table_offset h)) = Inr entry"
    and "walks opcodes (v = BB_V4)
      (sub_from (unat (code_offset h) + unat entry) (reader data)) literals outcome"
  shows "snd (scan_function0 h data v (v = BB_V4)) = outcome
    \<and> find_quest_episode_from_script (Some h) data v =
      (case remdups (literal_episodes literals) of
         [] \<Rightarrow> Inr header_episode
       | [ep] \<Rightarrow> Inr ep
       | ep # ep' # others \<Rightarrow> Inl (runtime_error ''multiple episodes found''))"
proof -
  note s = scan_function0_walks [OF assms(3,4,5)]
  have "find_quest_episode_from_script (Some h) data v =
      (let found = fold List.insert (literal_episodes literals) [] in
       if length found > 1 then Inl (runtime_error ''multiple episodes found'')
       else if length found = 1 then Inr (hd found) else Inr header_episode)"
    by (simp add: episode_from_header_and_script_builds [OF assms(1)]
        episode_from_header_and_script_def assms(2) s Let_def)
  then show ?thesis
    by (simp only: select_found s snd_conv simp_thms)
qed

lemma walk_set_episode_unknown:
  assumes o1: "opcodes 0x000E = None" and o2: "opcodes 0xF8BC = Some def_set_episode"
  shows "walk_function0 opcodes use_wstrs
      (reader ([0xF8, 0xBC, b0, b1, b2, b3, 0x0E] @ rest)) [] =
    (case episode_for_quest_episode_number b0 of
       Inl e \<Rightarrow> ([], Some e)
     | Inr ep \<Rightarrow> ([ep], Some (runtime_error ''unknown quest opcode'')))"
proof -
  let ?bs = "[0xF8, 0xBC, b0, b1, b2, b3, 0x0E] @ rest"
  have a: "walk_function0 opcodes use_wstrs \<lparr>rd_data = ?bs, rd_offset = 6\<rparr> found =
      (found, Some (runtime_error ''unknown quest opcode''))" for found
    by (subst walk_function0.simps)
      (simp add: eof_def rd_size_def get_opcode_def get_u8_def pget_u8_def o1)
  have f: "op_flags def_set_episode AND F_RET = 0" "op_flags def_set_episode AND F_ARGS = 0"
    "op_flags def_set_episode AND F_SET_EPISODE \<noteq> 0"
    "op_args def_set_episode = [Arg INT32]"
    by (simp_all add: def_set_episode_def flag_defs)
  show ?thesis
    by (subst walk_function0.simps)
      (simp add: reader_def eof_def rd_size_def get_opcode_two_byte [simplified] o2 f
        Arg_def skip_argument_def get_u32l_def pget_u32l_def ucast_u32_le a [simplified]
        split: sum.splits)
qed

lemma scan_set_episode_unknown:
  "scan_function0 gc_example_header (gc_example_quest [0xF8, 0xBC, 1, 0, 0, 0, 0x0E, 0]) GC_V3
     False = ([EP2], Some (runtime_error ''unknown quest opcode''))"
proof -
  have "GC_V3 \<in> v3_v4_builds"
    by (simp add: v3_v4_builds_def)
  then obtain opcodes where o: "opcodes_for_version GC_V3 = Inr opcodes"
    "opcodes 0xF8BC = Some def_set_episode" "opcodes 0x000E = None"
    by (rule v3_v4_opcodes)
  have code: "drop (unat (code_offset gc_example_header) + unat (0 :: u32))
      (gc_example_quest [0xF8, 0xBC, 1, 0, 0, 0, 0x0E, 0]) =
      [0xF8, 0xBC, 1, 0, 0, 0, 0x0E] @ [0, 0, 0, 0, 0]"
    by (simp add: gc_example_quest_def gc_example_header_def)
  show ?thesis
    by (simp only: scan_function0_def o(1) gc_example_entry sub_from_def reader_simps code
        walk_set_episode_unknown [OF o(3,2)] sum.case length_Cons list.size)
      (simp add: episode_for_quest_episode_number_def)
qed

text \<open>
  The function 0 of the example is \<^verbatim>\<open>set_episode 1\<close> followed by the byte 0x0E, which is
  no opcode.
\<close>

theorem episode_selection_witness:
  "snd (scan_function0 gc_example_header (gc_example_quest [0xF8, 0xBC, 1, 0, 0, 0, 0x0E, 0])
      GC_V3 False) = Some (runtime_error ''unknown quest opcode'')
   \<and> find_quest_episode_from_script (Some gc_example_header)
     (gc_example_quest [0xF8, 0xBC, 1, 0, 0, 0, 0x0E, 0]) GC_V3 = Inr EP2"
proof -
  obtain opcodes where o: "opcodes_for_version GC_V3 = Inr opcodes"
    "opcodes 0x0000 = Some def_nop" "opcodes 0x0001 = Some def_ret"
    "opcodes 0xF8BC = Some def_set_episode" "opcodes 0x000E = None"
    by (rule gc_v3_opcodes)
  let ?bs = "[0xF8, 0xBC, 1, 0, 0, 0, 0x0E, 0, 0, 0, 0, 0] :: u8 list"
  have v: "GC_V3 \<in> script_builds"
    by (simp add: script_builds_def)
  have hdr: "episode_for_quest_episode_number (episode gc_example_header) = Inr EP1"
    by (simp add: episode_for_quest_episode_number_def gc_example_header_def)
  have start: "sub_from (unat (code_offset gc_example_header) + unat (0 :: u32))
      (reader (gc_example_quest [0xF8, 0xBC, 1, 0, 0, 0, 0x0E, 0]))
      = \<lparr>rd_data = ?bs, rd_offset = 0\<rparr>"
    by (simp add: sub_from_def gc_example_quest_def gc_example_header_def reader_def)
  have w2: "walks opcodes False \<lparr>rd_data = ?bs, rd_offset = 6\<rparr> []
      (Some (runtime_error ''unknown quest opcode''))"
    by (rule walks.unknown_opcode [where opcode = "0x0E"
          and ?r1.0 = "\<lparr>rd_data = ?bs, rd_offset = 7\<rparr>"])
      (simp_all add: read_simps o)
  have w1: "walks opcodes False \<lparr>rd_data = ?bs, rd_offset = 0\<rparr> [1]
      (Some (runtime_error ''unknown quest opcode''))"
    by (rule walks.episode_setter [where opcode = "0xF8BC" and d = def_set_episode
          and ?r1.0 = "\<lparr>rd_data = ?bs, rd_offset = 2\<rparr>"
          and ?r2.0 = "\<lparr>rd_data = ?bs, rd_offset = 6\<rparr>" and ep = EP2, OF _ _ _ _ _ _ _ _ _ w2])
      (simp_all add: read_simps o set_episode_flags episode_for_quest_episode_number_def)
  have w: "walks opcodes (GC_V3 = BB_V4)
      (sub_from (unat (code_offset gc_example_header) + unat (0 :: u32))
        (reader (gc_example_quest [0xF8, 0xBC, 1, 0, 0, 0, 0x0E, 0]))) [1]
      (Some (runtime_error ''unknown quest opcode''))"
    using w1 by (simp only: start version.simps)
  show ?thesis
    using episode_selection [OF v hdr o(1) gc_example_entry w]
    by (simp add: episode_for_quest_episode_number_def)
qed

text \<open>
  The last part of the claim as stated fails: here the walk ends at a caught decode error
  (an unknown opcode after \<^verbatim>\<open>set_episode 1\<close>), the header's episode is Episode 1, and the
  function returns Episode 2, the episode collected before the error.
\<close>

theorem decode_error_counterexample:
  "snd (scan_function0 gc_example_header
      (gc_example_quest [0xF8, 0xBC, 1, 0, 0, 0, 0x0E, 0]) GC_V3 False)
     = Some (runtime_error ''unknown quest opcode'')
   \<and> episode_for_quest_episode_number (episode gc_example_header) = Inr EP1
   \<and> find_quest_episode_from_script (Some gc_example_header)
      (gc_example_quest [0xF8, 0xBC, 1, 0, 0, 0, 0x0E, 0]) GC_V3 = Inr EP2"
proof -
  have hdr: "episode_for_quest_episode_number (episode gc_example_header) = Inr EP1"
    by (simp add: episode_for_quest_episode_number_def gc_example_header_def)
  show ?thesis
    by (simp add: scan_set_episode_unknown hdr find_quest_episode_from_script_def
        episode_from_header_and_script_def)
qed


section \<open>The register allocator\<close>

text \<open>
  \<^verbatim>\<open>RegisterAssigner\<close>. Registers are shared objects: the name map, the number array and
  the \<^verbatim>\<open>prev\<close>/\<^verbatim>\<open>next\<close> links all point to them. The model keeps them in a store
  (\<open>ra_regs\<close>, in the order of their creation) and writes a pointer as the position in the
  store, \<open>None\<close> for a null pointer. \<open>named_regs\<close> is the \<^verbatim>\<open>std::map\<close>, kept in key order;
  \<open>numbered_regs\<close> is the array of 0x100 slots.
\<close>

record Register =
  reg_name :: string
  reg_number :: int
  reg_prev :: "nat option"
  reg_next :: "nat option"
  reg_offsets :: "nat list"

record RegisterAssigner =
  ra_regs :: "Register list"
  named_regs :: "(string \<times> nat) list"
  numbered_regs :: "nat option list"

definition new_register :: Register where
  "new_register =
     \<lparr>reg_name = [], reg_number = -1, reg_prev = None, reg_next = None, reg_offsets = []\<rparr>"

definition new_assigner :: RegisterAssigner where
  "new_assigner = \<lparr>ra_regs = [], named_regs = [], numbered_regs = replicate 0x100 None\<rparr>"

definition set_reg_number :: "nat \<Rightarrow> int \<Rightarrow> RegisterAssigner \<Rightarrow> RegisterAssigner" where
  "set_reg_number reg n ra =
     ra\<lparr>ra_regs := (ra_regs ra)[reg := (ra_regs ra ! reg)\<lparr>reg_number := n\<rparr>],
        numbered_regs := (numbered_regs ra)[nat n := Some reg]\<rparr>"

definition get_or_create ::
  "string \<Rightarrow> int \<Rightarrow> RegisterAssigner \<Rightarrow> error + (nat \<times> RegisterAssigner)" where
  "get_or_create name number ra =
     (if number < -1 \<or> number \<ge> 0x100 then Inl (runtime_error ''invalid register number'')
      else
        let by_name = (if name \<noteq> [] then map_of (named_regs ra) name else None);
            found = (case by_name of Some r \<Rightarrow> Some r
              | None \<Rightarrow> if number \<ge> 0 then numbered_regs ra ! nat number else None);
            reg = (case found of Some r \<Rightarrow> r | None \<Rightarrow> length (ra_regs ra));
            ra1 = (case found of Some r \<Rightarrow> ra
              | None \<Rightarrow> ra\<lparr>ra_regs := ra_regs ra @ [new_register]\<rparr>);
            numbered =
              (if number \<ge> 0 then
                 if reg_number (ra_regs ra1 ! reg) < 0 then
                   if numbered_regs ra1 ! nat number \<noteq> None
                   then Inl (runtime_error ''register cannot be assigned due to conflict'')
                   else Inr (set_reg_number reg number ra1)
                 else if reg_number (ra_regs ra1 ! reg) \<noteq> number
                 then Inl (runtime_error ''register is assigned multiple numbers'')
                 else Inr ra1
               else Inr ra1)
        in case numbered of Inl e \<Rightarrow> Inl e
           | Inr ra2 \<Rightarrow>
               if name \<noteq> [] then
                 if reg_name (ra_regs ra2 ! reg) = [] then
                   if map_of (named_regs ra2) name \<noteq> None
                   then Inl (runtime_error ''name is already assigned to a different register'')
                   else Inr (reg, ra2\<lparr>
                     ra_regs := (ra_regs ra2)[reg := (ra_regs ra2 ! reg)\<lparr>reg_name := name\<rparr>],
                     named_regs := insort_key fst (name, reg) (named_regs ra2)\<rparr>)
                 else if reg_name (ra_regs ra2 ! reg) \<noteq> name
                 then Inl (runtime_error ''register is assigned multiple names'')
                 else Inr (reg, ra2)
               else Inr (reg, ra2))"

definition assign_number :: "nat \<Rightarrow> u8 \<Rightarrow> RegisterAssigner \<Rightarrow> error + RegisterAssigner" where
  "assign_number reg number ra =
     (if reg_number (ra_regs ra ! reg) < 0 then
        if numbered_regs ra ! unat number \<noteq> None
        then Inl (logic_error ''register number assigned multiple times'')
        else Inr (set_reg_number reg (uint number) ra)
      else if reg_number (ra_regs ra ! reg) \<noteq> uint number
      then Inl (runtime_error ''assigning different register number over existing register number'')
      else Inr ra)"

definition constrain :: "nat \<Rightarrow> nat \<Rightarrow> RegisterAssigner \<Rightarrow> error + RegisterAssigner" where
  "constrain first_reg second_reg ra =
     (let regs = ra_regs ra in
      if reg_next (regs ! first_reg) \<noteq> None \<and> reg_next (regs ! first_reg) \<noteq> Some second_reg
      then Inl (runtime_error ''register is already constrained to another register'')
      else
        let regs1 = regs[first_reg := (regs ! first_reg)\<lparr>reg_next := Some second_reg\<rparr>] in
        if reg_prev (regs1 ! second_reg) \<noteq> None \<and> reg_prev (regs1 ! second_reg) \<noteq> Some first_reg
        then Inl (runtime_error ''register is already constrained to another register'')
        else
          let regs2 = regs1[second_reg := (regs1 ! second_reg)\<lparr>reg_prev := Some first_reg\<rparr>] in
          if reg_number (regs2 ! first_reg) \<ge> 0 \<and> reg_number (regs2 ! second_reg) \<ge> 0
             \<and> reg_number (regs2 ! first_reg) \<noteq> (reg_number (regs2 ! second_reg) - 1) mod 0x100
          then Inl (runtime_error ''both registers already have non-consecutive numbers'')
          else Inr (ra\<lparr>ra_regs := regs2\<rparr>))"

text \<open>
  \<^verbatim>\<open>find_register_number_space\<close>. The array is read with \<^verbatim>\<open>operator[]\<close>, which checks
  nothing; a read at an index past the last slot is undefined behaviour, and the model
  stops there with \<open>array_read_past_end\<close> and the index.
\<close>

function window_scan :: "nat option list \<Rightarrow> nat \<Rightarrow> nat \<Rightarrow> nat \<Rightarrow> error + nat" where
  "window_scan numbered candidate num_regs z =
     (if z < num_regs then
        if length numbered \<le> candidate + z then Inl (array_read_past_end (candidate + z))
        else if numbered ! (candidate + z) \<noteq> None then Inr z
        else window_scan numbered candidate num_regs (z + 1)
      else Inr z)"
  by pat_completeness auto
termination
  by (relation "measure (\<lambda>(numbered, candidate, num_regs, z). num_regs - z)") auto

function find_space_from :: "nat option list \<Rightarrow> nat \<Rightarrow> nat \<Rightarrow> error + u8" where
  "find_space_from numbered num_regs candidate =
     (if candidate < 0x100 then
        (case window_scan numbered candidate num_regs 0 of Inl e \<Rightarrow> Inl e
         | Inr z \<Rightarrow>
             if z = num_regs then Inr (word_of_nat candidate)
             else find_space_from numbered num_regs (candidate + 1))
      else Inl (runtime_error ''not enough space to assign registers''))"
  by pat_completeness auto
termination
  by (relation "measure (\<lambda>(numbered, num_regs, candidate). 0x100 - candidate)") auto

declare window_scan.simps [simp del] find_space_from.simps [simp del]

definition find_register_number_space :: "RegisterAssigner \<Rightarrow> nat \<Rightarrow> error + u8" where
  "find_register_number_space ra num_regs = find_space_from (numbered_regs ra) num_regs 0"

text \<open>
  \<^verbatim>\<open>assign_all\<close>. The two loops that follow the \<^verbatim>\<open>next\<close> and the \<^verbatim>\<open>prev\<close> links stop at
  the first register with a number or at a null link; on a cycle of unnumbered registers
  they do not stop, and the functions below then have no value (\<open>None\<close>).
\<close>

partial_function (option) first_numbered_next ::
  "Register list \<Rightarrow> nat option \<Rightarrow> nat \<Rightarrow> (int option \<times> nat) option" where
  "first_numbered_next regs p delta = (case p of
      None \<Rightarrow> Some (None, delta)
    | Some r \<Rightarrow>
        if reg_number (regs ! r) \<ge> 0 then Some (Some (reg_number (regs ! r)), delta)
        else first_numbered_next regs (reg_next (regs ! r)) (delta + 1))"

partial_function (option) first_numbered_prev ::
  "Register list \<Rightarrow> nat option \<Rightarrow> nat \<Rightarrow> (int option \<times> nat) option" where
  "first_numbered_prev regs p delta = (case p of
      None \<Rightarrow> Some (None, delta)
    | Some r \<Rightarrow>
        if reg_number (regs ! r) \<ge> 0 then Some (Some (reg_number (regs ! r)), delta)
        else first_numbered_prev regs (reg_prev (regs ! r)) (delta + 1))"

definition assign_register :: "nat \<Rightarrow> RegisterAssigner \<Rightarrow> (error + RegisterAssigner) option" where
  "assign_register reg ra =
     (if reg_number (ra_regs ra ! reg) \<ge> 0 then Some (Inr ra)
      else
        (case first_numbered_next (ra_regs ra) (reg_next (ra_regs ra ! reg)) 1 of
           None \<Rightarrow> None
         | Some (Some n, next_delta) \<Rightarrow>
             Some (assign_number reg (word_of_int (n - int next_delta)) ra)
         | Some (None, next_delta) \<Rightarrow>
             (case first_numbered_prev (ra_regs ra) (reg_prev (ra_regs ra ! reg)) 1 of
                None \<Rightarrow> None
              | Some (Some n, prev_delta) \<Rightarrow>
                  Some (assign_number reg (word_of_int (n + int prev_delta)) ra)
              | Some (None, prev_delta) \<Rightarrow>
                  (case find_register_number_space ra (prev_delta + next_delta - 1) of
                     Inl e \<Rightarrow> Some (Inl e)
                   | Inr space \<Rightarrow>
                       Some (assign_number reg (space + word_of_nat (prev_delta - 1)) ra)))))"

fun assign_registers ::
  "nat list \<Rightarrow> RegisterAssigner \<Rightarrow> (error + RegisterAssigner) option" where
  "assign_registers [] ra = Some (Inr ra)"
| "assign_registers (reg # unassigned) ra =
     (case assign_register reg ra of
        None \<Rightarrow> None
      | Some (Inl e) \<Rightarrow> Some (Inl e)
      | Some (Inr ra') \<Rightarrow> assign_registers unassigned ra')"

definition check_assigned :: "RegisterAssigner \<Rightarrow> error + RegisterAssigner" where
  "check_assigned ra =
     (if \<not> list_all (\<lambda>(name, reg). reg_number (ra_regs ra ! reg) \<ge> 0) (named_regs ra)
      then Inl (logic_error ''register was not assigned'')
      else if \<not> list_all (\<lambda>z. case numbered_regs ra ! z of None \<Rightarrow> True
          | Some reg \<Rightarrow> reg_number (ra_regs ra ! reg) = int z) [0..<0x100]
      then Inl (logic_error ''register has incorrect number'')
      else Inr ra)"

definition assign_all :: "RegisterAssigner \<Rightarrow> (error + RegisterAssigner) option" where
  "assign_all ra =
     (let unassigned = map snd (filter (\<lambda>(name, reg). reg_number (ra_regs ra ! reg) < 0)
        (named_regs ra))
      in case assign_registers unassigned ra of
           None \<Rightarrow> None
         | Some (Inl e) \<Rightarrow> Some (Inl e)
         | Some (Inr ra') \<Rightarrow> Some (check_assigned ra'))"

section \<open>Properties of the register allocator\<close>

lemma window_scan_occupied:
  "candidate < length numbered \<Longrightarrow> numbered ! candidate \<noteq> None \<Longrightarrow> 0 < num_regs \<Longrightarrow>
   window_scan numbered candidate num_regs 0 = Inr 0"
  by (simp add: window_scan.simps [of _ _ _ 0])

lemma window_scan_last_slot:
  assumes "length numbered = 0x100" and "numbered ! 255 = None"
  shows "window_scan numbered 255 2 0 = Inl (array_read_past_end 256)"
proof -
  have "window_scan numbered 255 2 0 = window_scan numbered 255 2 1"
    using assms by (simp add: window_scan.simps [of _ _ _ 0])
  also have "\<dots> = Inl (array_read_past_end 256)"
    using assms by (simp add: window_scan.simps [of _ _ _ "Suc 0"])
  finally show ?thesis .
qed

lemma find_space_from_past_end:
  assumes len: "length numbered = 0x100"
    and occ: "\<And>i. i < 255 \<Longrightarrow> numbered ! i \<noteq> None"
    and free: "numbered ! 255 = None"
  shows "candidate \<le> 255 \<Longrightarrow> find_space_from numbered 2 candidate = Inl (array_read_past_end 256)"
proof (induction "255 - candidate" arbitrary: candidate)
  case 0
  then have c: "candidate = 255" by simp
  show ?case
    unfolding c
    by (subst find_space_from.simps) (simp add: window_scan_last_slot [OF len free])
next
  case (Suc n)
  then have lt: "candidate < 255" and n: "n = 255 - (candidate + 1)" and le: "candidate + 1 \<le> 255"
    by simp_all
  have w: "window_scan numbered candidate 2 0 = Inr 0"
    using lt len occ [OF lt] by (intro window_scan_occupied) simp_all
  have "find_space_from numbered 2 candidate = find_space_from numbered 2 (candidate + 1)"
    using lt by (subst find_space_from.simps) (simp add: w)
  also have "\<dots> = Inl (array_read_past_end 256)"
    by (rule Suc.hyps(1) [OF n le])
  finally show ?case .
qed


text \<open>
  What the assembler's \<^verbatim>\<open>parse_reg\<close> does with the allocator for a numbered register
  \<^verbatim>\<open>rN\<close> and for a named register \<^verbatim>\<open>r:name\<close> or \<^verbatim>\<open>r:name@N\<close>, once the text of the
  argument is read: \<^verbatim>\<open>get_or_create("", N)\<close>, \<^verbatim>\<open>get_or_create(name, -1)\<close> and
  \<^verbatim>\<open>get_or_create(name, N)\<close>.
\<close>

fun use_numbered_regs :: "nat list \<Rightarrow> RegisterAssigner \<Rightarrow> error + RegisterAssigner" where
  "use_numbered_regs [] ra = Inr ra"
| "use_numbered_regs (n # ns) ra =
     (case get_or_create [] (int n) ra of Inl e \<Rightarrow> Inl e
      | Inr (reg, ra') \<Rightarrow> use_numbered_regs ns ra')"

definition numbered_up_to :: "nat \<Rightarrow> RegisterAssigner" where
  "numbered_up_to k =
     \<lparr>ra_regs = map (\<lambda>n. new_register\<lparr>reg_number := int n\<rparr>) [0..<k],
      named_regs = [],
      numbered_regs = map Some [0..<k] @ replicate (0x100 - k) None\<rparr>"

lemma get_or_create_numbered:
  assumes "k < 0x100"
  shows "get_or_create [] (int k) (numbered_up_to k) = Inr (k, numbered_up_to (Suc k))"
proof -
  have r: "replicate (256 - k) (None :: nat option) = None # replicate (255 - k) None"
    using assms by (cases "256 - k") (auto simp: Suc_diff_Suc)
  have a: "(map Some [0..<k] @ replicate (256 - k) None) ! k = None"
    using assms by (simp add: nth_append)
  have b: "(replicate (256 - k) (None :: nat option))[0 := Some k] =
      Some k # replicate (255 - k) None"
    by (simp add: r)
  show ?thesis
    using assms
    by (simp add: get_or_create_def numbered_up_to_def Let_def a b set_reg_number_def
        nth_append list_update_append new_register_def)
qed

lemma use_numbered_regs_upt:
  "j \<le> k \<Longrightarrow> k \<le> 0x100 \<Longrightarrow>
   use_numbered_regs [j..<k] (numbered_up_to j) = Inr (numbered_up_to k)"
proof (induction "k - j" arbitrary: j)
  case 0
  then show ?case by simp
next
  case (Suc n)
  then have lt: "j < k" and n: "n = k - Suc j" and le: "Suc j \<le> k" by simp_all
  from lt Suc.prems have j: "j < 0x100" by simp
  show ?case
    using Suc.hyps(1) [OF n le Suc.prems(2)] lt
    by (simp add: upt_conv_Cons get_or_create_numbered [OF j])
qed

lemma new_assigner_numbered: "new_assigner = numbered_up_to 0"
  by (simp add: new_assigner_def numbered_up_to_def)

text \<open>
  A source that uses r0 to r254 and then a pair of named registers \<^verbatim>\<open>(r:a, r:b)\<close> in a
  \<^verbatim>\<open>REG_SET_FIXED\<close> argument of two registers.
\<close>

definition full_then_pair :: "(error + RegisterAssigner) option" where
  "full_then_pair =
     (case use_numbered_regs [0..<255] new_assigner of Inl e \<Rightarrow> Some (Inl e)
      | Inr ra0 \<Rightarrow>
     (case get_or_create ''a'' (-1) ra0 of Inl e \<Rightarrow> Some (Inl e)
      | Inr (a, ra1) \<Rightarrow>
     (case get_or_create ''b'' (-1) ra1 of Inl e \<Rightarrow> Some (Inl e)
      | Inr (b, ra2) \<Rightarrow>
     (case constrain a b ra2 of Inl e \<Rightarrow> Some (Inl e)
      | Inr ra3 \<Rightarrow> assign_all ra3))))"

lemma numbered_up_to_255_nth:
  "i < 255 \<Longrightarrow> numbered_regs (numbered_up_to 255) ! i = Some i"
  "numbered_regs (numbered_up_to 255) ! 255 = None"
  "length (numbered_regs (numbered_up_to 255)) = 0x100"
  "length (ra_regs (numbered_up_to 255)) = 255"
  "named_regs (numbered_up_to 255) = []"
  by (simp_all add: numbered_up_to_def nth_append)

text \<open>
  Claim C9 fails on the code. With slots 0 to 254 taken and a chain of two registers to
  place, every window that starts below 255 is refused at its first slot, and for the
  window that starts at 255 the search reads \<^verbatim>\<open>numbered_regs[256]\<close>, one past the end of
  the array of 0x100 slots. The state is reachable: \<^verbatim>\<open>assign_all\<close> gets there from the
  source described above.
\<close>

theorem assign_all_reads_past_end:
  "find_register_number_space (numbered_up_to 255) 2 = Inl (array_read_past_end 256)
   \<and> full_then_pair = Some (Inl (array_read_past_end 256))"
proof -
  define ra0 where "ra0 = numbered_up_to 255"
  define ra1 where "ra1 = ra0\<lparr>ra_regs := ra_regs ra0 @ [new_register\<lparr>reg_name := ''a''\<rparr>],
    named_regs := [(''a'', 255)]\<rparr>"
  define ra2 where "ra2 = ra1\<lparr>ra_regs := ra_regs ra1 @ [new_register\<lparr>reg_name := ''b''\<rparr>],
    named_regs := [(''a'', 255), (''b'', 256)]\<rparr>"
  define ra3 where "ra3 = ra2\<lparr>ra_regs := ra_regs ra0 @
    [new_register\<lparr>reg_name := ''a'', reg_next := Some 256\<rparr>,
     new_register\<lparr>reg_name := ''b'', reg_prev := Some 255\<rparr>]\<rparr>"
  have s0: "use_numbered_regs [0..<255] new_assigner = Inr ra0"
    unfolding new_assigner_numbered ra0_def by (rule use_numbered_regs_upt) simp_all
  have l0: "length (ra_regs ra0) = 255" and n0: "named_regs ra0 = []"
    by (simp_all add: ra0_def numbered_up_to_255_nth)
  have s1: "get_or_create ''a'' (-1) ra0 = Inr (255, ra1)"
    by (simp add: get_or_create_def Let_def l0 n0 ra1_def new_register_def nth_append
        list_update_append)
  have s2: "get_or_create ''b'' (-1) ra1 = Inr (256, ra2)"
    by (simp add: get_or_create_def Let_def l0 n0 ra1_def ra2_def new_register_def nth_append
        list_update_append)
  have s3: "constrain 255 256 ra2 = Inr ra3"
    by (simp add: constrain_def Let_def l0 ra1_def ra2_def ra3_def new_register_def nth_append
        list_update_append)
  have regs3: "ra_regs ra3 ! 255 = new_register\<lparr>reg_name := ''a'', reg_next := Some 256\<rparr>"
    "ra_regs ra3 ! 256 = new_register\<lparr>reg_name := ''b'', reg_prev := Some 255\<rparr>"
    by (simp_all add: ra3_def nth_append l0)
  have named3: "named_regs ra3 = [(''a'', 255), (''b'', 256)]"
    and numbered3: "numbered_regs ra3 = numbered_regs (numbered_up_to 255)"
    by (simp_all add: ra3_def ra2_def ra1_def ra0_def)
  have nxt: "first_numbered_next (ra_regs ra3) (Some 256) (Suc 0) = Some (None, 2)"
    by (simp add: first_numbered_next.simps regs3 new_register_def)
  have prv: "first_numbered_prev (ra_regs ra3) None (Suc 0) = Some (None, 1)"
    by (simp add: first_numbered_prev.simps)
  have space: "find_register_number_space ra3 2 = Inl (array_read_past_end 256)"
    unfolding find_register_number_space_def numbered3
    by (rule find_space_from_past_end) (simp_all add: numbered_up_to_255_nth)
  have one: "assign_register 255 ra3 = Some (Inl (array_read_past_end 256))"
    by (simp add: assign_register_def regs3 new_register_def nxt prv space)
  have "assign_all ra3 = Some (Inl (array_read_past_end 256))"
    by (simp add: assign_all_def named3 regs3 new_register_def one)
  then have "full_then_pair = Some (Inl (array_read_past_end 256))"
    by (simp add: full_then_pair_def s0 s1 s2 s3)
  moreover have "find_register_number_space (numbered_up_to 255) 2 =
      Inl (array_read_past_end 256)"
    unfolding find_register_number_space_def
    by (rule find_space_from_past_end) (simp_all add: numbered_up_to_255_nth)
  ultimately show ?thesis
    by simp
qed

text \<open>
  A source with the argument \<^verbatim>\<open>(r:a@3, r:b, r:c@10)\<close> for a \<^verbatim>\<open>REG_SET_FIXED\<close> of three
  registers: the calls \<^verbatim>\<open>parse_reg_set_fixed\<close> makes, and then \<^verbatim>\<open>assign_all\<close>.
\<close>

definition pinned_ends_chain :: "(error + RegisterAssigner) option" where
  "pinned_ends_chain =
     (case get_or_create ''a'' 3 new_assigner of Inl e \<Rightarrow> Some (Inl e)
      | Inr (a, ra1) \<Rightarrow>
     (case get_or_create ''b'' (-1) ra1 of Inl e \<Rightarrow> Some (Inl e)
      | Inr (b, ra2) \<Rightarrow>
     (case constrain a b ra2 of Inl e \<Rightarrow> Some (Inl e)
      | Inr ra3 \<Rightarrow>
     (case get_or_create ''c'' 10 ra3 of Inl e \<Rightarrow> Some (Inl e)
      | Inr (c, ra4) \<Rightarrow>
     (case constrain b c ra4 of Inl e \<Rightarrow> Some (Inl e)
      | Inr ra5 \<Rightarrow> assign_all ra5)))))"

definition pinned_ends_result :: RegisterAssigner where
  "pinned_ends_result =
     \<lparr>ra_regs =
        [\<lparr>reg_name = ''a'', reg_number = 3, reg_prev = None, reg_next = Some 1,
           reg_offsets = []\<rparr>,
         \<lparr>reg_name = ''b'', reg_number = 9, reg_prev = Some 0, reg_next = Some 2,
           reg_offsets = []\<rparr>,
         \<lparr>reg_name = ''c'', reg_number = 10, reg_prev = Some 1, reg_next = None,
           reg_offsets = []\<rparr>],
      named_regs = [(''a'', 0), (''b'', 1), (''c'', 2)],
      numbered_regs = (replicate 0x100 None)[3 := Some 0, 10 := Some 2, 9 := Some 1]\<rparr>"

lemma check_assigned_pinned_ends: "check_assigned pinned_ends_result = Inr pinned_ends_result"
proof -
  have "list_all (\<lambda>z. case numbered_regs pinned_ends_result ! z of None \<Rightarrow> True
      | Some reg \<Rightarrow> reg_number (ra_regs pinned_ends_result ! reg) = int z) [0..<0x100]"
    by (auto simp: list_all_iff pinned_ends_result_def nth_list_update)
  then show ?thesis
    by (simp add: check_assigned_def) (simp add: pinned_ends_result_def)
qed

text \<open>
  Claim C8 fails on the code in its last part. \<^verbatim>\<open>constrain\<close> compares the numbers of two
  linked registers only when both have one already, and \<^verbatim>\<open>assign_all\<close> numbers an
  unnumbered register from the first numbered register it finds along \<^verbatim>\<open>next\<close> without
  looking along \<^verbatim>\<open>prev\<close>. Here \<^verbatim>\<open>assign_all\<close> succeeds with a = 3, b = 9, c = 10, although
  \<^verbatim>\<open>constrain(a, b)\<close> was called: b is not a + 1.
\<close>

theorem assign_all_breaks_adjacency:
  "pinned_ends_chain = Some (Inr pinned_ends_result)
   \<and> reg_prev (ra_regs pinned_ends_result ! 1) = Some 0
   \<and> reg_number (ra_regs pinned_ends_result ! 0) = 3
   \<and> reg_number (ra_regs pinned_ends_result ! 1) = 9"
proof -
  define a1 where "a1 = new_register\<lparr>reg_name := ''a'', reg_number := 3\<rparr>"
  define a3 where "a3 = new_register\<lparr>reg_name := ''a'', reg_number := 3, reg_next := Some 1\<rparr>"
  define b2 where "b2 = new_register\<lparr>reg_name := ''b''\<rparr>"
  define b3 where "b3 = new_register\<lparr>reg_name := ''b'', reg_prev := Some 0\<rparr>"
  define b5 where "b5 = new_register\<lparr>reg_name := ''b'', reg_prev := Some 0, reg_next := Some 2\<rparr>"
  define c4 where "c4 = new_register\<lparr>reg_name := ''c'', reg_number := 10\<rparr>"
  define c5 where "c5 = new_register\<lparr>reg_name := ''c'', reg_number := 10, reg_prev := Some 1\<rparr>"
  note regs = a1_def a3_def b2_def b3_def b5_def c4_def c5_def new_register_def
  define ra1 where "ra1 = \<lparr>ra_regs = [a1], named_regs = [(''a'', 0)],
    numbered_regs = (replicate 0x100 None)[3 := Some 0]\<rparr>"
  define ra2 where "ra2 = \<lparr>ra_regs = [a1, b2], named_regs = [(''a'', 0), (''b'', 1)],
    numbered_regs = (replicate 0x100 None)[3 := Some 0]\<rparr>"
  define ra3 where "ra3 = \<lparr>ra_regs = [a3, b3], named_regs = [(''a'', 0), (''b'', 1)],
    numbered_regs = (replicate 0x100 None)[3 := Some 0]\<rparr>"
  define ra4 where "ra4 = \<lparr>ra_regs = [a3, b3, c4],
    named_regs = [(''a'', 0), (''b'', 1), (''c'', 2)],
    numbered_regs = (replicate 0x100 None)[3 := Some 0, 10 := Some 2]\<rparr>"
  define ra5 where "ra5 = \<lparr>ra_regs = [a3, b5, c5],
    named_regs = [(''a'', 0), (''b'', 1), (''c'', 2)],
    numbered_regs = (replicate 0x100 None)[3 := Some 0, 10 := Some 2]\<rparr>"
  have s1: "get_or_create ''a'' 3 new_assigner = Inr (0, ra1)"
    by (simp add: get_or_create_def Let_def new_assigner_def ra1_def set_reg_number_def regs)
  have s2: "get_or_create ''b'' (-1) ra1 = Inr (Suc 0, ra2)"
    by (simp add: get_or_create_def Let_def ra1_def ra2_def regs)
  have s3: "constrain 0 (Suc 0) ra2 = Inr ra3"
    by (simp add: constrain_def Let_def ra2_def ra3_def regs)
  have s4: "get_or_create ''c'' 10 ra3 = Inr (2, ra4)"
    by (simp add: get_or_create_def Let_def ra3_def ra4_def set_reg_number_def regs
        numeral_2_eq_2)
  have s5: "constrain (Suc 0) 2 ra4 = Inr ra5"
    by (simp add: constrain_def Let_def ra4_def ra5_def regs numeral_2_eq_2)
  have b_unnumbered: "reg_number (ra_regs ra5 ! 1) = -1" "reg_next (ra_regs ra5 ! 1) = Some 2"
    and a_numbered: "reg_number (ra_regs ra5 ! 0) = 3"
    and c_numbered: "reg_number (ra_regs ra5 ! 2) = 10"
    by (simp_all add: ra5_def regs)
  have nxt: "first_numbered_next (ra_regs ra5) (Some 2) 1 = Some (Some 10, 1)"
    by (subst first_numbered_next.simps) (simp add: c_numbered)
  have number_b: "assign_number 1 9 ra5 = Inr pinned_ends_result"
    by (simp add: assign_number_def ra5_def regs set_reg_number_def pinned_ends_result_def)
  have b: "assign_register 1 ra5 = Some (Inr pinned_ends_result)"
    unfolding assign_register_def
    by (simp only: b_unnumbered nxt) (simp add: number_b [simplified])
  have "map snd (filter (\<lambda>(name, reg). reg_number (ra_regs ra5 ! reg) < 0) (named_regs ra5))
      = [1]"
    by (simp add: ra5_def regs)
  then have "assign_all ra5 = Some (Inr pinned_ends_result)"
    by (simp add: assign_all_def b [simplified] check_assigned_pinned_ends)
  then have "pinned_ends_chain = Some (Inr pinned_ends_result)"
    by (simp add: pinned_ends_chain_def s1 s2 s3 s4 s5)
  then show ?thesis
    by (simp add: pinned_ends_result_def)
qed


section \<open>The disassembler: header pass\<close>

text \<open>
  The \<^verbatim>\<open>switch (version)\<close> at the head of \<^verbatim>\<open>disassemble_quest_script\<close>, without the
  header lines it prints: whether C strings are 16-bit, where the code and the function
  table start, and the language that decodes 8-bit C strings. \<open>header\<close> is the outcome of
  \<^verbatim>\<open>r.get<PSOQuestHeader...>()\<close>, as for the episode detector.
\<close>

record dasm_header =
  use_wstrs :: bool
  dh_code_offset :: nat
  dh_function_table_offset :: nat
  dh_language :: u8

definition header_fields :: "bool \<Rightarrow> quest_header \<Rightarrow> u8 \<Rightarrow> dasm_header" where
  "header_fields w h l =
     \<lparr>use_wstrs = w, dh_code_offset = unat (code_offset h),
      dh_function_table_offset = unat (function_table_offset h), dh_language = l\<rparr>"

definition disassembly_header ::
  "version \<Rightarrow> u8 \<Rightarrow> quest_header option \<Rightarrow> error + dasm_header" where
  "disassembly_header version override_language header = (case version of
      DC_NTE \<Rightarrow> (case header of None \<Rightarrow> Inl out_of_range
        | Some h \<Rightarrow> Inr (header_fields False h 0))
    | DC_V1_11_2000_PROTOTYPE \<Rightarrow> (case header of None \<Rightarrow> Inl out_of_range
        | Some h \<Rightarrow> Inr (header_fields False h
            (if override_language \<noteq> 0xFF then override_language
             else if language h < 5 then language h else 1)))
    | DC_V1 \<Rightarrow> (case header of None \<Rightarrow> Inl out_of_range
        | Some h \<Rightarrow> Inr (header_fields False h
            (if override_language \<noteq> 0xFF then override_language
             else if language h < 5 then language h else 1)))
    | DC_V2 \<Rightarrow> (case header of None \<Rightarrow> Inl out_of_range
        | Some h \<Rightarrow> Inr (header_fields False h
            (if override_language \<noteq> 0xFF then override_language
             else if language h < 5 then language h else 1)))
    | PC_NTE \<Rightarrow> (case header of None \<Rightarrow> Inl out_of_range
        | Some h \<Rightarrow> Inr (header_fields True h
            (if override_language \<noteq> 0xFF then override_language
             else if language h < 8 then language h else 1)))
    | PC_V2 \<Rightarrow> (case header of None \<Rightarrow> Inl out_of_range
        | Some h \<Rightarrow> Inr (header_fields True h
            (if override_language \<noteq> 0xFF then override_language
             else if language h < 8 then language h else 1)))
    | GC_NTE \<Rightarrow> (case header of None \<Rightarrow> Inl out_of_range
        | Some h \<Rightarrow> Inr (header_fields False h
            (if override_language \<noteq> 0xFF then override_language
             else if language h < 5 then language h else 1)))
    | GC_V3 \<Rightarrow> (case header of None \<Rightarrow> Inl out_of_range
        | Some h \<Rightarrow> Inr (header_fields False h
            (if override_language \<noteq> 0xFF then override_language
             else if language h < 5 then language h else 1)))
    | GC_EP3_NTE \<Rightarrow> (case header of None \<Rightarrow> Inl out_of_range
        | Some h \<Rightarrow> Inr (header_fields False h
            (if override_language \<noteq> 0xFF then override_language
             else if language h < 5 then language h else 1)))
    | GC_EP3 \<Rightarrow> (case header of None \<Rightarrow> Inl out_of_range
        | Some h \<Rightarrow> Inr (header_fields False h
            (if override_language \<noteq> 0xFF then override_language
             else if language h < 5 then language h else 1)))
    | XB_V3 \<Rightarrow> (case header of None \<Rightarrow> Inl out_of_range
        | Some h \<Rightarrow> Inr (header_fields False h
            (if override_language \<noteq> 0xFF then override_language
             else if language h < 5 then language h else 1)))
    | BB_V4 \<Rightarrow> (case header of None \<Rightarrow> Inl out_of_range
        | Some h \<Rightarrow> Inr (header_fields True h
            (if override_language \<noteq> 0xFF then override_language else 1)))
    | _ \<Rightarrow> Inl (logic_error ''invalid quest version''))"

text \<open>The language the disassembler decodes C strings with.\<close>

definition disassembly_language :: "version \<Rightarrow> u8 \<Rightarrow> quest_header \<Rightarrow> error + u8" where
  "disassembly_language version override_language h =
     (case disassembly_header version override_language (Some h) of
        Inl e \<Rightarrow> Inl e | Inr dh \<Rightarrow> Inr (dh_language dh))"

definition dc_gc_xb_builds :: "version set" where
  "dc_gc_xb_builds =
     {DC_V1_11_2000_PROTOTYPE, DC_V1, DC_V2, GC_NTE, GC_V3, GC_EP3_NTE, GC_EP3, XB_V3}"

text \<open>
  Claim C3, as the code has it. The rule of the claim (the override unless it is 0xFF, else
  the header's language byte when it is in range, else 1) is the rule of the DC, GC and XB
  builds with the range 0 to 4 and of the PC builds with the range 0 to 7. For DC_NTE the
  language is 0 whatever the override and the header are, and for BB_V4 it is the override
  unless that is 0xFF, and 1 otherwise: the header's language is not read.
\<close>

theorem effective_language:
  "(v \<in> dc_gc_xb_builds \<longrightarrow>
      disassembly_language v override h =
        Inr (if override \<noteq> 0xFF then override else if language h < 5 then language h else 1))
   \<and> (v \<in> {PC_NTE, PC_V2} \<longrightarrow>
      disassembly_language v override h =
        Inr (if override \<noteq> 0xFF then override else if language h < 8 then language h else 1))
   \<and> disassembly_language DC_NTE override h = Inr 0
   \<and> disassembly_language BB_V4 override h = Inr (if override \<noteq> 0xFF then override else 1)"
  by (auto simp: disassembly_language_def disassembly_header_def header_fields_def
      dc_gc_xb_builds_def)

theorem effective_language_witness:
  "disassembly_language GC_V3 0xFF
     \<lparr>code_offset = 0x1D4, function_table_offset = 0x1DC, language = 7, episode = 0\<rparr> = Inr 1
   \<and> disassembly_language PC_V2 0xFF
     \<lparr>code_offset = 0x394, function_table_offset = 0x39C, language = 7, episode = 0\<rparr> = Inr 7
   \<and> disassembly_language GC_V3 3
     \<lparr>code_offset = 0x1D4, function_table_offset = 0x1DC, language = 7, episode = 0\<rparr> = Inr 3"
  using effective_language [where v = GC_V3 and override = "0xFF" and h =
      "\<lparr>code_offset = 0x1D4, function_table_offset = 0x1DC, language = 7, episode = 0\<rparr>"]
    effective_language [where v = PC_V2 and override = "0xFF" and h =
      "\<lparr>code_offset = 0x394, function_table_offset = 0x39C, language = 7, episode = 0\<rparr>"]
    effective_language [where v = GC_V3 and override = 3 and h =
      "\<lparr>code_offset = 0x1D4, function_table_offset = 0x1DC, language = 7, episode = 0\<rparr>"]
  by (simp add: dc_gc_xb_builds_def)

text \<open>
  The claim as stated fails for both builds it names: for DC_NTE the override 2 is not
  honoured (the language is 0), and for BB_V4 with no override a header language of 0 is
  not used (the language is 1).
\<close>

theorem effective_language_counterexample:
  "disassembly_language DC_NTE 2
     \<lparr>code_offset = 0x20, function_table_offset = 0x24, language = 1, episode = 0\<rparr> = Inr 0
   \<and> disassembly_language BB_V4 0xFF
     \<lparr>code_offset = 0x398, function_table_offset = 0x39C, language = 0, episode = 0\<rparr> = Inr 1"
  by (simp add: disassembly_language_def disassembly_header_def header_fields_def)


section \<open>Strings\<close>

text \<open>
  The string helpers of the assembler. \<^verbatim>\<open>starts_with\<close>, \<^verbatim>\<open>ends_with\<close>, \<^verbatim>\<open>split\<close> and the
  two \<^verbatim>\<open>strip_*_whitespace\<close> belong to the phosg library and \<^verbatim>\<open>stoul\<close>, \<^verbatim>\<open>stoull\<close>,
  \<^verbatim>\<open>stol\<close> and \<^verbatim>\<open>stoll\<close> to the C++ standard library; they are modelled by their
  contracts. \<^verbatim>\<open>split(s, delim, max_splits)\<close> cuts \<open>s\<close> at each \<open>delim\<close> (at the first
  \<open>max_splits\<close> of them when \<open>max_splits\<close> is not 0) and always returns the last token,
  empty or not.
\<close>

definition starts_with :: "string \<Rightarrow> string \<Rightarrow> bool" where
  "starts_with s p \<longleftrightarrow> take (length p) s = p"

definition ends_with :: "string \<Rightarrow> string \<Rightarrow> bool" where
  "ends_with s p \<longleftrightarrow> length p \<le> length s \<and> drop (length s - length p) s = p"

definition is_space :: "char \<Rightarrow> bool" where
  "is_space c \<longleftrightarrow> c = CHR '' '' \<or> c = CHR 0x09 \<or> c = CHR 0x0A \<or> c = CHR 0x0D"

definition strip_leading_whitespace :: "string \<Rightarrow> string" where
  "strip_leading_whitespace s = dropWhile is_space s"

definition strip_trailing_whitespace :: "string \<Rightarrow> string" where
  "strip_trailing_whitespace s = rev (dropWhile is_space (rev s))"

definition strip_whitespace :: "string \<Rightarrow> string" where
  "strip_whitespace s = strip_leading_whitespace (strip_trailing_whitespace s)"

text \<open>\<^verbatim>\<open>s.find(c)\<close>: the position of the first \<open>c\<close>, or \<open>None\<close> for \<^verbatim>\<open>npos\<close>.\<close>

fun find_char :: "char \<Rightarrow> string \<Rightarrow> nat option" where
  "find_char c [] = None"
| "find_char c (x # xs) =
     (if x = c then Some 0 else (case find_char c xs of None \<Rightarrow> None | Some n \<Rightarrow> Some (Suc n)))"

fun split_from :: "char \<Rightarrow> nat \<Rightarrow> nat \<Rightarrow> string \<Rightarrow> string \<Rightarrow> string list" where
  "split_from delim max_splits done cur [] = [rev cur]"
| "split_from delim max_splits done cur (c # cs) =
     (if c = delim \<and> (max_splits = 0 \<or> done < max_splits)
      then rev cur # split_from delim max_splits (Suc done) [] cs
      else split_from delim max_splits done (c # cur) cs)"

definition split :: "string \<Rightarrow> char \<Rightarrow> nat \<Rightarrow> string list" where
  "split s delim max_splits = split_from delim max_splits 0 [] s"

text \<open>
  The integer parsers with base 0: optional white space, an optional sign, then \<^verbatim>\<open>0x\<close> and
  hexadecimal digits, or \<^verbatim>\<open>0\<close> and octal digits, or decimal digits. \<open>parse_c_integer\<close>
  gives the value and the number of characters read, or \<open>None\<close> when no digit can be read
  (the functions then throw \<^verbatim>\<open>invalid_argument\<close>).
\<close>

definition digit_value :: "char \<Rightarrow> nat option" where
  "digit_value c =
     (let n = (of_char c :: nat) in
      if 48 \<le> n \<and> n \<le> 57 then Some (n - 48)
      else if 97 \<le> n \<and> n \<le> 102 then Some (n - 87)
      else if 65 \<le> n \<and> n \<le> 70 then Some (n - 55)
      else None)"

fun read_digits :: "nat \<Rightarrow> string \<Rightarrow> nat \<Rightarrow> nat \<Rightarrow> nat \<times> nat" where
  "read_digits base [] acc n = (acc, n)"
| "read_digits base (c # cs) acc n =
     (case digit_value c of
        None \<Rightarrow> (acc, n)
      | Some d \<Rightarrow> if d < base then read_digits base cs (acc * base + d) (Suc n) else (acc, n))"

definition is_c_space :: "char \<Rightarrow> bool" where
  "is_c_space c \<longleftrightarrow> c = CHR '' '' \<or> (9 \<le> (of_char c :: nat) \<and> (of_char c :: nat) \<le> 13)"

definition parse_unsigned :: "string \<Rightarrow> (nat \<times> nat) option" where
  "parse_unsigned s =
     (if take 2 s = ''0x'' \<or> take 2 s = ''0X'' then
        (case read_digits 16 (drop 2 s) 0 0 of
           (v, n) \<Rightarrow> if n = 0 then Some (0, 1) else Some (v, n + 2))
      else if take 1 s = ''0'' then
        (case read_digits 8 s 0 0 of (v, n) \<Rightarrow> Some (v, n))
      else
        (case read_digits 10 s 0 0 of (v, n) \<Rightarrow> if n = 0 then None else Some (v, n)))"

definition parse_c_integer :: "string \<Rightarrow> (int \<times> nat) option" where
  "parse_c_integer s =
     (let ws = length (takeWhile is_c_space s);
          t = drop ws s;
          neg = (take 1 t = ''-'');
          sg = (if take 1 t = ''-'' \<or> take 1 t = ''+'' then 1 else 0)
      in case parse_unsigned (drop sg t) of
           None \<Rightarrow> None
         | Some (v, n) \<Rightarrow> Some (if neg then - int v else int v, ws + sg + n))"

text \<open>
  \<^verbatim>\<open>stoll\<close> and \<^verbatim>\<open>stol\<close> (64-bit \<^verbatim>\<open>long\<close>): the value and the end offset, \<^verbatim>\<open>out_of_range\<close>
  outside the signed 64-bit range. \<^verbatim>\<open>stoull\<close> and \<^verbatim>\<open>stoul\<close>: a negative input is
  negated in 64 bits, \<^verbatim>\<open>out_of_range\<close> when the magnitude needs more than 64 bits.
\<close>

definition stoll :: "string \<Rightarrow> error + (int \<times> nat)" where
  "stoll s = (case parse_c_integer s of
      None \<Rightarrow> Inl invalid_argument
    | Some (v, n) \<Rightarrow>
        if v < - (2 ^ 63) \<or> 2 ^ 63 \<le> v then Inl out_of_range else Inr (v, n))"

definition stoull :: "string \<Rightarrow> error + (nat \<times> nat)" where
  "stoull s = (case parse_c_integer s of
      None \<Rightarrow> Inl invalid_argument
    | Some (v, n) \<Rightarrow>
        if 2 ^ 64 \<le> \<bar>v\<bar> then Inl out_of_range else Inr (nat (v mod 2 ^ 64), n))"


section \<open>The assembler\<close>

subsection \<open>The mnemonic index\<close>

text \<open>
  \<^verbatim>\<open>opcodes_by_name_for_version\<close>: the active rows indexed by \<^verbatim>\<open>name\<close> and, when there is
  one, by \<^verbatim>\<open>qedit_name\<close>; \<^verbatim>\<open>emplace\<close> refuses a name that is there already, and the
  function then throws \<^verbatim>\<open>logic_error\<close>.
\<close>

fun build_name_index ::
  "u16 \<Rightarrow> opcode_def list \<Rightarrow> (string \<rightharpoonup> opcode_def) \<Rightarrow> error + (string \<rightharpoonup> opcode_def)" where
  "build_name_index vf [] index = Inr index"
| "build_name_index vf (d # ds) index =
     (if \<not> row_active vf d then build_name_index vf ds index
      else if index (op_name d) \<noteq> None
      then Inl (logic_error ''duplicate definition for opcode'')
      else (case op_qedit_name d of
          None \<Rightarrow> build_name_index vf ds (index(op_name d \<mapsto> d))
        | Some q \<Rightarrow>
            if (index(op_name d \<mapsto> d)) q \<noteq> None
            then Inl (logic_error ''duplicate definition for opcode'')
            else build_name_index vf ds (index(op_name d \<mapsto> d, q \<mapsto> d))))"

definition opcodes_by_name_for_version :: "version \<Rightarrow> error + (string \<rightharpoonup> opcode_def)" where
  "opcodes_by_name_for_version v = build_name_index (v_flag v) opcode_defs Map.empty"

subsection \<open>What the assembler takes from outside\<close>

text \<open>
  Functions of other libraries and of other files of the repository that the assembler
  calls, taken as parameters: \<^verbatim>\<open>phosg::split_context\<close> (a split at the delimiter outside
  brackets and quotes), \<^verbatim>\<open>phosg::parse_data_string\<close>, the three text encoders, \<^verbatim>\<open>stof\<close>
  followed by the conversion of the \<^verbatim>\<open>float\<close> to \<^verbatim>\<open>uint32_t\<close>, \<^verbatim>\<open>phosg::load_file\<close> on
  the include directory, and the native assemblers behind \<^verbatim>\<open>.include_native\<close>.
\<close>

record text_tools =
  split_context :: "string \<Rightarrow> char \<Rightarrow> string list"
  parse_data_string :: "string \<Rightarrow> error + string"
  tt_utf8_to_sega_sjis :: "string \<Rightarrow> error + u8 list"
  tt_utf8_to_8859 :: "string \<Rightarrow> error + u8 list"
  tt_utf8_to_utf16 :: "string \<Rightarrow> error + u8 list"
  stof_as_u32 :: "string \<Rightarrow> error + u32"
  load_file :: "string \<Rightarrow> error + u8 list"
  assemble_native :: "version \<Rightarrow> u8 list \<Rightarrow> error + u8 list"

definition bytes_of :: "string \<Rightarrow> u8 list" where
  "bytes_of s = map of_char s"

text \<open>\<^verbatim>\<open>what()\<close> of an exception, for the messages that wrap another exception.\<close>

fun what :: "error \<Rightarrow> string" where
  "what out_of_range = ''out_of_range''"
| "what invalid_argument = ''invalid_argument''"
| "what (runtime_error m) = m"
| "what (logic_error m) = m"
| "what (array_read_past_end i) = ''array read past end''"
| "what division_by_zero = ''division by zero''"

subsection \<open>Labels\<close>

text \<open>
  The \<^verbatim>\<open>Label\<close> objects are shared between \<^verbatim>\<open>labels_by_name\<close> and \<^verbatim>\<open>labels_by_index\<close>;
  the model keeps them in a store, in the order of their lines, and the two maps hold
  positions in the store. A \<^verbatim>\<open>std::map\<close> is an association list in key order.
\<close>

record Label =
  label_name :: string
  label_index :: int
  label_offset :: int

record label_table =
  labels :: "Label list"
  labels_by_name :: "(string \<times> nat) list"
  labels_by_index :: "(int \<times> nat) list"

definition empty_labels :: label_table where
  "empty_labels = \<lparr>labels = [], labels_by_name = [], labels_by_index = []\<rparr>"

definition ssize_of :: "nat \<Rightarrow> int" where
  "ssize_of v = sint (word_of_nat v :: 64 word)"

definition parse_label_line :: "string \<Rightarrow> error + (string \<times> int)" where
  "parse_label_line line =
     (let name = take (length line - 1) line in
      case find_char CHR ''@'' name of
        Some at_offset \<Rightarrow>
          (case stoull (drop (at_offset + 1) name) of
             Inl e \<Rightarrow> Inl (runtime_error ''invalid index in label'')
           | Inr (v, n) \<Rightarrow>
               if take at_offset name = ''start'' \<and> ssize_of v \<noteq> 0
               then Inl (runtime_error ''start label cannot have a nonzero label ID'')
               else Inr (take at_offset name, ssize_of v))
      | None \<Rightarrow> Inr (name, if name = ''start'' then 0 else -1))"

definition add_label :: "string \<Rightarrow> int \<Rightarrow> label_table \<Rightarrow> error + label_table" where
  "add_label name index t =
     (if map_of (labels_by_name t) name \<noteq> None
      then Inl (runtime_error ''duplicate label name'')
      else if index \<ge> 0 \<and> map_of (labels_by_index t) index \<noteq> None
      then Inl (runtime_error ''duplicate label index'')
      else Inr
        \<lparr>labels = labels t @ [\<lparr>label_name = name, label_index = index, label_offset = -1\<rparr>],
         labels_by_name = insort_key fst (name, length (labels t)) (labels_by_name t),
         labels_by_index =
           (if index \<ge> 0 then insort_key fst (index, length (labels t)) (labels_by_index t)
            else labels_by_index t)\<rparr>)"

fun collect_labels :: "string list \<Rightarrow> label_table \<Rightarrow> error + label_table" where
  "collect_labels [] t = Inr t"
| "collect_labels (line # lines) t =
     (if ends_with line '':'' then
        (case parse_label_line line of Inl e \<Rightarrow> Inl e
         | Inr (name, index) \<Rightarrow>
             (case add_label name index t of Inl e \<Rightarrow> Inl e
              | Inr t' \<Rightarrow> collect_labels lines t'))
      else collect_labels lines t)"

text \<open>The loop \<^verbatim>\<open>while (labels_by_index.count(next_index)) next_index++\<close>.\<close>

function next_free_index :: "(int \<times> nat) list \<Rightarrow> nat \<Rightarrow> nat" where
  "next_free_index by_index next_index =
     (if map_of by_index (int next_index) \<noteq> None
      then next_free_index by_index (Suc next_index) else next_index)"
  by pat_completeness auto
termination
proof (relation "measure (\<lambda>(by_index, next_index).
    length (filter (\<lambda>k. int next_index \<le> k) (map fst by_index)))")
  show "wf (measure (\<lambda>(by_index, next_index).
    length (filter (\<lambda>k. int next_index \<le> k) (map fst by_index))))"
    by simp
next
  fix by_index :: "(int \<times> nat) list" and next_index :: nat
  assume "map_of by_index (int next_index) \<noteq> None"
  then have m: "int next_index \<in> set (map fst by_index)"
    by (auto simp: map_of_eq_None_iff)
  have f: "filter (\<lambda>k. int (Suc next_index) \<le> k) (map fst by_index)
      = filter (\<lambda>k. int (Suc next_index) \<le> k)
          (filter (\<lambda>k. int next_index \<le> k) (map fst by_index))"
    by (simp add: conj_commute cong: conj_cong) (rule filter_cong, auto)
  have "length (filter (\<lambda>k. int (Suc next_index) \<le> k)
          (filter (\<lambda>k. int next_index \<le> k) (map fst by_index)))
      < length (filter (\<lambda>k. int next_index \<le> k) (map fst by_index))"
    using m by (intro length_filter_less [where x = "int next_index"]) auto
  with f have "length (filter (\<lambda>k. int (Suc next_index) \<le> k) (map fst by_index))
      < length (filter (\<lambda>k. int next_index \<le> k) (map fst by_index))"
    by simp
  then show "((by_index, Suc next_index), (by_index, next_index))
      \<in> measure (\<lambda>(by_index, next_index).
        length (filter (\<lambda>k. int next_index \<le> k) (map fst by_index)))"
    by simp
qed

declare next_free_index.simps [simp del]

fun assign_label_indexes :: "(string \<times> nat) list \<Rightarrow> nat \<Rightarrow> label_table \<Rightarrow> label_table" where
  "assign_label_indexes [] next_index t = t"
| "assign_label_indexes ((name, l) # rest) next_index t =
     (if label_index (labels t ! l) \<ge> 0 then assign_label_indexes rest next_index t
      else
        let n = next_free_index (labels_by_index t) next_index in
        assign_label_indexes rest (Suc n)
          (t\<lparr>labels := (labels t)[l := (labels t ! l)\<lparr>label_index := int n\<rparr>],
             labels_by_index := insort_key fst (int n, l) (labels_by_index t)\<rparr>))"

definition find_labels :: "string list \<Rightarrow> error + label_table" where
  "find_labels lines =
     (case collect_labels lines empty_labels of Inl e \<Rightarrow> Inl e
      | Inr t \<Rightarrow>
          if map_of (labels_by_name t) ''start'' = None
          then Inl (runtime_error ''start label is not defined'')
          else Inr (assign_label_indexes (labels_by_name t) 0 t))"

text \<open>\<^verbatim>\<open>labels_by_name.find(name)\<close>, as the index of the label found.\<close>

definition label_index_of :: "label_table \<Rightarrow> string \<Rightarrow> int option" where
  "label_index_of t name = (case map_of (labels_by_name t) name of
      None \<Rightarrow> None | Some l \<Rightarrow> Some (label_index (labels t ! l)))"


subsection \<open>Registers in arguments\<close>

record asm_state =
  code_w :: "u8 list"
  reg_assigner :: RegisterAssigner

definition int16_of :: "int \<Rightarrow> int" where
  "int16_of n = sint (word_of_int n :: 16 word)"

text \<open>
  The lambda \<^verbatim>\<open>parse_reg\<close>. \<^verbatim>\<open>number\<close> is an \<^verbatim>\<open>ssize_t\<close> that receives the result of
  \<^verbatim>\<open>stoull\<close> and is passed to \<^verbatim>\<open>get_or_create\<close> as an \<^verbatim>\<open>int16_t\<close>.
\<close>

definition parse_reg ::
  "string \<Rightarrow> bool \<Rightarrow> RegisterAssigner \<Rightarrow> error + (nat \<times> RegisterAssigner)" where
  "parse_reg arg allow_unnumbered ra =
     (if length arg < 2 then Inl (runtime_error ''register argument is too short'')
      else if arg ! 0 \<noteq> CHR ''r'' \<and> arg ! 0 \<noteq> CHR ''f''
      then Inl (runtime_error ''a register is required'')
      else
        (case
           (if arg ! 1 = CHR '':'' then
              (case split (drop 2 arg) CHR ''@'' 0 of
                 [name] \<Rightarrow> Inr (name, -1)
               | [name, number] \<Rightarrow>
                   (case stoull number of Inl e \<Rightarrow> Inl e
                    | Inr (v, n) \<Rightarrow> Inr (name, ssize_of v))
               | _ \<Rightarrow> Inl (runtime_error ''invalid register specification''))
            else
              (case stoull (drop 1 arg) of Inl e \<Rightarrow> Inl e
               | Inr (v, n) \<Rightarrow> Inr ([], ssize_of v)))
         of Inl e \<Rightarrow> Inl e
          | Inr (name, number) \<Rightarrow>
              if \<not> allow_unnumbered \<and> number < 0
              then Inl (runtime_error ''a numbered register is required'')
              else if number > 0xFF then Inl (runtime_error ''invalid register number'')
              else get_or_create name (int16_of number) ra))"

text \<open>The loop of the \<^verbatim>\<open>rA-rB\<close> form that creates the registers between the two ends.\<close>

fun reg_run ::
  "nat \<Rightarrow> nat list \<Rightarrow> RegisterAssigner \<Rightarrow> error + (nat list \<times> RegisterAssigner)" where
  "reg_run 0 regs ra = Inr (regs, ra)"
| "reg_run (Suc k) regs ra =
     (case get_or_create [] ((reg_number (ra_regs ra ! last regs) + 1) mod 0x100) ra of
        Inl e \<Rightarrow> Inl e
      | Inr (r, ra1) \<Rightarrow>
          (case constrain (last regs) r ra1 of Inl e \<Rightarrow> Inl e
           | Inr ra2 \<Rightarrow> reg_run k (regs @ [r]) ra2))"

text \<open>The loop of the \<^verbatim>\<open>(a, b, ...)\<close> form.\<close>

fun parse_reg_list ::
  "string list \<Rightarrow> nat list \<Rightarrow> RegisterAssigner \<Rightarrow> error + (nat list \<times> RegisterAssigner)" where
  "parse_reg_list [] regs ra = Inr (regs, ra)"
| "parse_reg_list (token # tokens) regs ra =
     (case parse_reg (strip_whitespace token) True ra of Inl e \<Rightarrow> Inl e
      | Inr (r, ra1) \<Rightarrow>
          if regs = [] then parse_reg_list tokens [r] ra1
          else (case constrain (last regs) r ra1 of Inl e \<Rightarrow> Inl e
            | Inr ra2 \<Rightarrow> parse_reg_list tokens (regs @ [r]) ra2))"

text \<open>
  The lambda \<^verbatim>\<open>parse_reg_set_fixed\<close>. In the form with a single token, the loop that
  should add the following registers calls \<^verbatim>\<open>parse_reg("", ...)\<close>, which throws for the
  empty string; so the form is accepted for one register only.
\<close>

definition parse_reg_set_fixed ::
  "string \<Rightarrow> nat \<Rightarrow> RegisterAssigner \<Rightarrow> error + (nat list \<times> RegisterAssigner)" where
  "parse_reg_set_fixed name expected_count ra =
     (if expected_count = 0 then Inl (logic_error ''REG_SET_FIXED argument expects no registers'')
      else if name = []
      then Inl (runtime_error ''no register specified for REG_SET_FIXED argument'')
      else
        (case
           (if name ! 0 = CHR ''('' \<and> last name = CHR '')'' then
              (let tokens = split (take (length name - 2) (drop 1 name)) CHR '','' 0 in
               if length tokens \<noteq> expected_count
               then Inl (runtime_error ''incorrect number of registers in REG_SET_FIXED'')
               else parse_reg_list tokens [] ra)
            else
              (case split name CHR ''-'' 0 of
                 [token] \<Rightarrow>
                   (case parse_reg token False ra of Inl e \<Rightarrow> Inl e
                    | Inr (r, ra1) \<Rightarrow>
                        if 1 < expected_count
                        then Inl (runtime_error ''register argument is too short'')
                        else Inr ([r], ra1))
               | [token0, token1] \<Rightarrow>
                   (case parse_reg token0 False ra of Inl e \<Rightarrow> Inl e
                    | Inr (r0, ra1) \<Rightarrow>
                   (case reg_run (expected_count - 2) [r0] ra1 of Inl e \<Rightarrow> Inl e
                    | Inr (regs, ra2) \<Rightarrow>
                   (case parse_reg token1 False ra2 of Inl e \<Rightarrow> Inl e
                    | Inr (r1, ra3) \<Rightarrow>
                        if reg_number (ra_regs ra3 ! r1) - reg_number (ra_regs ra3 ! r0) + 1
                           \<noteq> int expected_count
                        then Inl (runtime_error ''incorrect number of registers used'')
                        else (case constrain (last regs) r1 ra3 of Inl e \<Rightarrow> Inl e
                          | Inr ra4 \<Rightarrow> Inr (regs @ [r1], ra4)))))
               | _ \<Rightarrow> Inl (runtime_error ''invalid fixed register set syntax'')))
         of Inl e \<Rightarrow> Inl e
          | Inr (regs, ra') \<Rightarrow>
              if regs = [] \<or> length regs \<noteq> expected_count
              then Inl (logic_error ''incorrect register count in REG_SET_FIXED after parsing'')
              else Inr (regs, ra')))"

text \<open>
  \<^verbatim>\<open>reg->offsets.emplace(code_w.size())\<close> followed by the write of the register's current
  number: one byte, or four bytes for the 32-bit forms of the direct encoding.
\<close>

definition add_reg :: "nat \<Rightarrow> bool \<Rightarrow> asm_state \<Rightarrow> asm_state" where
  "add_reg reg is32 s =
     (let ra = reg_assigner s; r = ra_regs ra ! reg in
      \<lparr>code_w =
         (if is32 then code_w s @ u32l_bytes (word_of_int (reg_number r mod 0x100))
          else code_w s @ [word_of_int (reg_number r)]),
       reg_assigner = ra\<lparr>ra_regs :=
         (ra_regs ra)[reg := r\<lparr>reg_offsets := List.insert (length (code_w s)) (reg_offsets r)\<rparr>]\<rparr>\<rparr>)"

definition write_bytes :: "u8 list \<Rightarrow> asm_state \<Rightarrow> asm_state" where
  "write_bytes bs s = s\<lparr>code_w := code_w s @ bs\<rparr>"

subsection \<open>Strings and labels in arguments\<close>

text \<open>
  The lambda \<^verbatim>\<open>add_cstr\<close>, as the bytes it writes: the text, encoded for the build unless
  it is given as binary, and a terminator of one or two bytes.
\<close>

definition add_cstr :: "text_tools \<Rightarrow> version \<Rightarrow> u8 \<Rightarrow> string \<Rightarrow> bool \<Rightarrow> error + u8 list" where
  "add_cstr tt v quest_language txt bin =
     (if v = DC_NTE then
        (case (if bin then Inr (bytes_of txt) else tt_utf8_to_sega_sjis tt txt) of
           Inl e \<Rightarrow> Inl e | Inr bs \<Rightarrow> Inr (bs @ [0]))
      else if v \<in> {DC_V1_11_2000_PROTOTYPE, DC_V1, DC_V2, GC_NTE, GC_V3, GC_EP3_NTE, GC_EP3, XB_V3}
      then
        (case (if bin then Inr (bytes_of txt)
               else if quest_language \<noteq> 0 then tt_utf8_to_8859 tt txt
               else tt_utf8_to_sega_sjis tt txt) of
           Inl e \<Rightarrow> Inl e | Inr bs \<Rightarrow> Inr (bs @ [0]))
      else if v \<in> {PC_NTE, PC_V2, BB_V4} then
        (case (if bin then Inr (bytes_of txt) else tt_utf8_to_utf16 tt txt) of
           Inl e \<Rightarrow> Inl e | Inr bs \<Rightarrow> Inr (bs @ [0, 0]))
      else Inl (logic_error ''invalid game version''))"

definition add_cstr_arg :: "text_tools \<Rightarrow> version \<Rightarrow> u8 \<Rightarrow> string \<Rightarrow> error + u8 list" where
  "add_cstr_arg tt v quest_language arg =
     (if starts_with arg ''bin:'' then
        (case parse_data_string tt (drop 4 arg) of Inl e \<Rightarrow> Inl e
         | Inr txt \<Rightarrow> add_cstr tt v quest_language txt True)
      else
        (case parse_data_string tt arg of Inl e \<Rightarrow> Inl e
         | Inr txt \<Rightarrow> add_cstr tt v quest_language txt False))"

text \<open>
  The lambda \<^verbatim>\<open>add_label\<close> of the direct encoding, as the bytes it writes. \<^verbatim>\<open>put_u16\<close> and
  \<^verbatim>\<open>put_u32\<close> write in the byte order of the host, taken to be little-endian.
\<close>

definition add_label_ref :: "label_table \<Rightarrow> string \<Rightarrow> bool \<Rightarrow> error + u8 list" where
  "add_label_ref t name is32 =
     (case label_index_of t name of
        None \<Rightarrow> Inl (runtime_error (''label not defined: '' @ name))
      | Some index \<Rightarrow>
          Inr (if is32 then u32l_bytes (word_of_int index) else u16l_bytes (word_of_int index)))"

definition split_set :: "string \<Rightarrow> error + string list" where
  "split_set txt =
     (if \<not> starts_with txt ''['' \<or> \<not> ends_with txt '']''
      then Inl (runtime_error ''incorrect syntax for set-valued argument'')
      else
        let values = split (take (length txt - 2) (drop 1 txt)) CHR '','' 0 in
        if length values > 0xFF
        then Inl (runtime_error ''too many labels in set-valued argument'')
        else Inr values)"

fun add_label_refs :: "label_table \<Rightarrow> string list \<Rightarrow> asm_state \<Rightarrow> error + asm_state" where
  "add_label_refs t [] s = Inr s"
| "add_label_refs t (name # names) s =
     (case add_label_ref t (strip_whitespace name) False of Inl e \<Rightarrow> Inl e
      | Inr bs \<Rightarrow> add_label_refs t names (write_bytes bs s))"

fun add_regs :: "string list \<Rightarrow> asm_state \<Rightarrow> error + asm_state" where
  "add_regs [] s = Inr s"
| "add_regs (reg_arg # reg_args) s =
     (case parse_reg (strip_whitespace reg_arg) True (reg_assigner s) of Inl e \<Rightarrow> Inl e
      | Inr (r, ra) \<Rightarrow> add_regs reg_args (add_reg r False (s\<lparr>reg_assigner := ra\<rparr>)))"


subsection \<open>Arguments\<close>

text \<open>
  An argument of an instruction that takes its arguments from the stack (\<^verbatim>\<open>use_args\<close>):
  the push instruction chosen from the text of the argument.
\<close>

definition push_reg :: "u8 \<Rightarrow> nat \<Rightarrow> RegisterAssigner \<Rightarrow> asm_state \<Rightarrow> asm_state" where
  "push_reg opcode reg ra s = add_reg reg False (write_bytes [opcode] (s\<lparr>reg_assigner := ra\<rparr>))"

definition push_int :: "int \<Rightarrow> u8 list" where
  "push_int n =
     (let v = (word_of_int n :: 64 word) in
      if v > 0xFFFF then 0x49 # u32l_bytes (ucast v)
      else if v > 0xFF then 0x4B # u16l_bytes (ucast v)
      else [0x4A, ucast v])"

definition push_string ::
  "text_tools \<Rightarrow> version \<Rightarrow> u8 \<Rightarrow> string \<Rightarrow> asm_state \<Rightarrow> error + asm_state" where
  "push_string tt v quest_language arg s =
     (if arg ! 0 = CHR 0x22 then
        (case add_cstr_arg tt v quest_language arg of Inl e \<Rightarrow> Inl e
         | Inr bs \<Rightarrow> Inr (write_bytes (0x4E # bs) s))
      else Inl (runtime_error ''invalid argument syntax''))"

definition push_arg ::
  "text_tools \<Rightarrow> version \<Rightarrow> u8 \<Rightarrow> label_table \<Rightarrow> argument \<Rightarrow> string \<Rightarrow> asm_state
    \<Rightarrow> error + asm_state" where
  "push_arg tt v quest_language t arg_def arg s =
     (if arg = [] then Inl (runtime_error ''argument is empty'')
      else
        (case label_index_of t arg of
           Some index \<Rightarrow> Inr (write_bytes (0x4B # u16l_bytes (word_of_int index)) s)
         | None \<Rightarrow>
             if arg ! 0 = CHR ''r'' \<or> arg ! 0 = CHR ''f''
                \<or> (arg ! 0 = CHR ''('' \<and> last arg = CHR '')'') then
               (if arg_type arg_def = REG \<or> arg_type arg_def = REG32 then
                  (case parse_reg arg True (reg_assigner s) of Inl e \<Rightarrow> Inl e
                   | Inr (r, ra) \<Rightarrow> Inr (push_reg 0x4A r ra s))
                else if arg_type arg_def = REG_SET_FIXED \<or> arg_type arg_def = REG32_SET_FIXED then
                  (case parse_reg_set_fixed arg (arg_count arg_def) (reg_assigner s) of
                     Inl e \<Rightarrow> Inl e
                   | Inr (regs, ra) \<Rightarrow> Inr (push_reg 0x4A (regs ! 0) ra s))
                else
                  (case parse_reg arg True (reg_assigner s) of Inl e \<Rightarrow> Inl e
                   | Inr (r, ra) \<Rightarrow> Inr (push_reg 0x48 r ra s)))
             else if arg ! 0 = CHR ''@'' \<and> 1 < length arg
                \<and> (arg ! 1 = CHR ''r'' \<or> arg ! 1 = CHR ''f'') then
               (case parse_reg (drop 1 arg) True (reg_assigner s) of Inl e \<Rightarrow> Inl e
                | Inr (r, ra) \<Rightarrow> Inr (push_reg 0x4C r ra s))
             else
               (case (if arg ! 0 = CHR ''@'' then label_index_of t (drop 1 arg) else None) of
                  Some index \<Rightarrow> Inr (write_bytes (0x4D # u16l_bytes (word_of_int index)) s)
                | None \<Rightarrow>
                    (case stoll arg of
                       Inl e \<Rightarrow> push_string tt v quest_language arg s
                     | Inr (val, end_offset) \<Rightarrow>
                         if end_offset \<noteq> length arg then push_string tt v quest_language arg s
                         else Inr (write_bytes (push_int val) s)))))"

text \<open>An argument of an instruction that carries its arguments after the opcode.\<close>

definition direct_arg ::
  "text_tools \<Rightarrow> version \<Rightarrow> u8 \<Rightarrow> label_table \<Rightarrow> argument \<Rightarrow> string \<Rightarrow> asm_state
    \<Rightarrow> error + asm_state" where
  "direct_arg tt v quest_language t arg_def arg s =
     (case arg_type arg_def of
        LABEL16 \<Rightarrow>
          (case add_label_ref t arg False of Inl e \<Rightarrow> Inl e
           | Inr bs \<Rightarrow> Inr (write_bytes bs s))
      | LABEL32 \<Rightarrow>
          (case add_label_ref t arg True of Inl e \<Rightarrow> Inl e
           | Inr bs \<Rightarrow> Inr (write_bytes bs s))
      | LABEL16_SET \<Rightarrow>
          (case split_set arg of Inl e \<Rightarrow> Inl e
           | Inr names \<Rightarrow> add_label_refs t names (write_bytes [word_of_nat (length names)] s))
      | REG \<Rightarrow>
          (case parse_reg arg True (reg_assigner s) of Inl e \<Rightarrow> Inl e
           | Inr (r, ra) \<Rightarrow> Inr (add_reg r False (s\<lparr>reg_assigner := ra\<rparr>)))
      | REG32 \<Rightarrow>
          (case parse_reg arg True (reg_assigner s) of Inl e \<Rightarrow> Inl e
           | Inr (r, ra) \<Rightarrow> Inr (add_reg r True (s\<lparr>reg_assigner := ra\<rparr>)))
      | REG_SET_FIXED \<Rightarrow>
          (case parse_reg_set_fixed arg (arg_count arg_def) (reg_assigner s) of Inl e \<Rightarrow> Inl e
           | Inr (regs, ra) \<Rightarrow> Inr (add_reg (regs ! 0) False (s\<lparr>reg_assigner := ra\<rparr>)))
      | REG32_SET_FIXED \<Rightarrow>
          (case parse_reg_set_fixed arg (arg_count arg_def) (reg_assigner s) of Inl e \<Rightarrow> Inl e
           | Inr (regs, ra) \<Rightarrow> Inr (add_reg (regs ! 0) True (s\<lparr>reg_assigner := ra\<rparr>)))
      | REG_SET \<Rightarrow>
          (case split_set arg of Inl e \<Rightarrow> Inl e
           | Inr regs \<Rightarrow> add_regs regs (write_bytes [word_of_nat (length regs)] s))
      | INT8 \<Rightarrow>
          (case stoll arg of Inl e \<Rightarrow> Inl e
           | Inr (val, n) \<Rightarrow> Inr (write_bytes [word_of_int val] s))
      | INT16 \<Rightarrow>
          (case stoll arg of Inl e \<Rightarrow> Inl e
           | Inr (val, n) \<Rightarrow> Inr (write_bytes (u16l_bytes (word_of_int val)) s))
      | INT32 \<Rightarrow>
          (case stoll arg of Inl e \<Rightarrow> Inl e
           | Inr (val, n) \<Rightarrow> Inr (write_bytes (u32l_bytes (word_of_int val)) s))
      | FLOAT32 \<Rightarrow>
          (case stof_as_u32 tt arg of Inl e \<Rightarrow> Inl e
           | Inr val \<Rightarrow> Inr (write_bytes (u32l_bytes val) s))
      | CSTRING \<Rightarrow>
          (case add_cstr_arg tt v quest_language arg of Inl e \<Rightarrow> Inl e
           | Inr bs \<Rightarrow> Inr (write_bytes bs s)))"

text \<open>
  A \<^verbatim>\<open>catch (const exception& e)\<close> that throws a \<^verbatim>\<open>runtime_error\<close> with \<^verbatim>\<open>e.what()\<close>.
  What is no exception passes through.
\<close>

fun rethrow :: "error \<Rightarrow> error" where
  "rethrow (array_read_past_end i) = array_read_past_end i"
| "rethrow division_by_zero = division_by_zero"
| "rethrow e = runtime_error (what e)"

fun assemble_args ::
  "(argument \<Rightarrow> string \<Rightarrow> asm_state \<Rightarrow> error + asm_state) \<Rightarrow> (argument \<times> string) list
    \<Rightarrow> asm_state \<Rightarrow> error + asm_state" where
  "assemble_args enc [] s = Inr s"
| "assemble_args enc ((arg_def, arg) # rest) s =
     (case enc arg_def (strip_whitespace arg) s of Inl e \<Rightarrow> Inl (rethrow e)
      | Inr s' \<Rightarrow> assemble_args enc rest s')"

subsection \<open>Lines\<close>

definition put_opcode :: "opcode_def \<Rightarrow> asm_state \<Rightarrow> asm_state" where
  "put_opcode d s =
     (if op_opcode d AND 0xFF00 = 0 then write_bytes [ucast (op_opcode d)] s
      else write_bytes [ucast (drop_bit 8 (op_opcode d)), ucast (op_opcode d)] s)"

definition version_has_args :: "version \<Rightarrow> bool" where
  "version_has_args v \<longleftrightarrow> F_HAS_ARGS AND v_flag v \<noteq> 0"

definition assemble_directive ::
  "text_tools \<Rightarrow> version \<Rightarrow> string \<Rightarrow> asm_state \<Rightarrow> error + asm_state" where
  "assemble_directive tt v line s =
     (if starts_with line ''.data '' then
        (case parse_data_string tt (drop 6 line) of Inl e \<Rightarrow> Inl e
         | Inr d \<Rightarrow> Inr (write_bytes (bytes_of d) s))
      else if starts_with line ''.zero '' then
        (case stoull (drop 6 line) of Inl e \<Rightarrow> Inl e
         | Inr (sz, n) \<Rightarrow> Inr (write_bytes (replicate sz 0) s))
      else if starts_with line ''.zero_until '' then
        (case stoull (drop 12 line) of Inl e \<Rightarrow> Inl e
         | Inr (sz, n) \<Rightarrow> Inr (write_bytes (replicate (sz - length (code_w s)) 0) s))
      else if starts_with line ''.align '' then
        (case stoull (drop 7 line) of Inl e \<Rightarrow> Inl e
         | Inr (alignment, n) \<Rightarrow>
             if alignment = 0 then Inl division_by_zero
             else Inr (write_bytes
               (replicate ((alignment - length (code_w s) mod alignment) mod alignment) 0) s))
      else if starts_with line ''.include_bin '' then
        (case load_file tt (strip_whitespace (drop 13 line)) of Inl e \<Rightarrow> Inl e
         | Inr d \<Rightarrow> Inr (write_bytes d s))
      else if starts_with line ''.include_native '' then
        (case load_file tt (strip_whitespace (drop 16 line)) of Inl e \<Rightarrow> Inl e
         | Inr native_text \<Rightarrow>
             (case assemble_native tt v native_text of Inl e \<Rightarrow> Inl e
              | Inr code \<Rightarrow> Inr (write_bytes code s)))
      else Inr s)"

definition assemble_instruction ::
  "text_tools \<Rightarrow> version \<Rightarrow> u8 \<Rightarrow> (string \<rightharpoonup> opcode_def) \<Rightarrow> label_table \<Rightarrow> string
    \<Rightarrow> asm_state \<Rightarrow> error + asm_state" where
  "assemble_instruction tt v quest_language opcodes t line s =
     (let line_tokens = split line CHR '' '' 1 in
      case opcodes (line_tokens ! 0) of
        None \<Rightarrow> Inl out_of_range
      | Some opcode_def \<Rightarrow>
          let use_args = (version_has_args v \<and> op_flags opcode_def AND F_ARGS \<noteq> 0);
              s1 = (if \<not> use_args then put_opcode opcode_def s else s)
          in
          if op_args opcode_def = [] then
            (if length line_tokens > 1 then Inl (runtime_error ''arguments not allowed'')
             else Inr s1)
          else if length line_tokens < 2 then Inl (runtime_error ''arguments required'')
          else
            (case
               (if starts_with (strip_whitespace (line_tokens ! 1)) ''...'' then
                  (if \<not> use_args
                   then Inl (runtime_error ''... can only be used with F_ARGS opcodes'')
                   else Inr s1)
                else
                  (let args = split_context tt (strip_whitespace (line_tokens ! 1)) CHR '','' in
                   if length args \<noteq> length (op_args opcode_def)
                   then Inl (runtime_error ''incorrect argument count'')
                   else assemble_args
                     ((if use_args then push_arg else direct_arg) tt v quest_language t)
                     (zip (op_args opcode_def) args) s1))
             of Inl e \<Rightarrow> Inl e
              | Inr s2 \<Rightarrow> Inr (if use_args then put_opcode opcode_def s2 else s2)))"

definition assemble_line ::
  "text_tools \<Rightarrow> version \<Rightarrow> u8 \<Rightarrow> (string \<rightharpoonup> opcode_def) \<Rightarrow> label_table \<Rightarrow> string
    \<Rightarrow> asm_state \<Rightarrow> error + asm_state" where
  "assemble_line tt v quest_language opcodes t line s =
     (if line ! 0 = CHR ''.'' then assemble_directive tt v line s
      else assemble_instruction tt v quest_language opcodes t line s)"

text \<open>
  The loop over the lines. A label line stores the current size of the code as the
  offset of its label; every exception of any other line is thrown again as a
  \<^verbatim>\<open>runtime_error\<close>. \<open>emit\<close> is what is done with a line that is neither empty nor a
  label.
\<close>

fun assemble_code_segment ::
  "(label_table \<Rightarrow> string \<Rightarrow> asm_state \<Rightarrow> error + asm_state) \<Rightarrow> string list \<Rightarrow> label_table
    \<Rightarrow> asm_state \<Rightarrow> error + (label_table \<times> asm_state)" where
  "assemble_code_segment emit [] t s = Inr (t, s)"
| "assemble_code_segment emit (line # lines) t s =
     (if line = [] then assemble_code_segment emit lines t s
      else if ends_with line '':'' then
        (let label_name = take (case find_char CHR ''@'' line of
               None \<Rightarrow> length line - 1 | Some at_offset \<Rightarrow> at_offset) line
         in case map_of (labels_by_name t) label_name of
              None \<Rightarrow> Inl (runtime_error (what out_of_range))
            | Some l \<Rightarrow>
                assemble_code_segment emit lines
                  (t\<lparr>labels := (labels t)
                     [l := (labels t ! l)\<lparr>label_offset := int (length (code_w s))\<rparr>]\<rparr>) s)
      else
        (case emit t line s of Inl e \<Rightarrow> Inl (rethrow e)
         | Inr s' \<Rightarrow> assemble_code_segment emit lines t s'))"

subsection \<open>Register numbers and the function table\<close>

fun patch_offsets :: "nat list \<Rightarrow> u8 \<Rightarrow> u8 list \<Rightarrow> error + u8 list" where
  "patch_offsets [] number code = Inr code"
| "patch_offsets (offset # offsets) number code =
     (if length code \<le> offset then Inl out_of_range
      else patch_offsets offsets number (code[offset := number]))"

fun patch_registers :: "nat option list \<Rightarrow> Register list \<Rightarrow> u8 list \<Rightarrow> error + u8 list" where
  "patch_registers [] regs code = Inr code"
| "patch_registers (None # numbered) regs code = patch_registers numbered regs code"
| "patch_registers (Some reg # numbered) regs code =
     (case patch_offsets (reg_offsets (regs ! reg)) (word_of_int (reg_number (regs ! reg))) code of
        Inl e \<Rightarrow> Inl e
      | Inr code' \<Rightarrow> patch_registers numbered regs code')"

text \<open>
  The loop that fills the function table: \<open>it\<close> is what is left of \<^verbatim>\<open>labels_by_index\<close>
  from the iterator on, \<open>z\<close> the index of the entry to write and the last argument the
  number of entries still to write.
\<close>

fun function_table_from ::
  "(int \<times> nat) list \<Rightarrow> Label list \<Rightarrow> int \<Rightarrow> nat \<Rightarrow> error + u32 list" where
  "function_table_from it ls z 0 = Inr []"
| "function_table_from [] ls z (Suc k) =
     Inl (logic_error ''function table size exceeds maximum function ID'')"
| "function_table_from ((index, l) # rest) ls z (Suc k) =
     (if index > z then
        (case function_table_from ((index, l) # rest) ls (z + 1) k of Inl e \<Rightarrow> Inl e
         | Inr table \<Rightarrow> Inr (0xFFFFFFFF # table))
      else if index = z then
        (if label_offset (ls ! l) < 0
         then Inl (runtime_error (''label '' @ label_name (ls ! l) @ '' does not have a valid offset''))
         else
           (case function_table_from rest ls (z + 1) k of Inl e \<Rightarrow> Inl e
            | Inr table \<Rightarrow> Inr (word_of_int (label_offset (ls ! l)) # table)))
      else Inl (logic_error (''missed label '' @ label_name (ls ! l)
        @ '' when compiling function table'')))"

definition generate_function_table :: "label_table \<Rightarrow> error + u32 list" where
  "generate_function_table t =
     function_table_from (labels_by_index t) (labels t) 0
       (nat (fst (last (labels_by_index t)) + 1))"

subsection \<open>The whole assembler\<close>

text \<open>
  What \<^verbatim>\<open>assemble_quest_script\<close> returns is a header, the code and the function table.
  The layouts of the headers are outside the files at hand, so the result is kept as the
  code and the table, together with the labels as they are at the end. The lines are
  taken as they are after the removal of comments and of white space at both ends, and
  the build and the language as the \<^verbatim>\<open>.version\<close> and \<^verbatim>\<open>.language\<close> directives give them.
\<close>

record assembled =
  a_code :: "u8 list"
  a_function_table :: "u32 list"
  a_labels :: label_table

definition function_table_bytes :: "assembled \<Rightarrow> u8 list" where
  "function_table_bytes out = concat (map u32l_bytes (a_function_table out))"

definition pad_to_4 :: "u8 list \<Rightarrow> u8 list" where
  "pad_to_4 code = code @ replicate ((4 - length code mod 4) mod 4) 0"

definition finish_assembly :: "label_table \<Rightarrow> asm_state \<Rightarrow> (error + assembled) option" where
  "finish_assembly t s =
     (case assign_all (reg_assigner s) of
        None \<Rightarrow> None
      | Some (Inl e) \<Rightarrow> Some (Inl e)
      | Some (Inr ra) \<Rightarrow>
          (case patch_registers (numbered_regs ra) (ra_regs ra) (pad_to_4 (code_w s)) of
             Inl e \<Rightarrow> Some (Inl e)
           | Inr code \<Rightarrow>
               (case generate_function_table t of Inl e \<Rightarrow> Some (Inl e)
                | Inr table \<Rightarrow>
                    Some (Inr \<lparr>a_code = code, a_function_table = table, a_labels = t\<rparr>))))"

text \<open>The assembler from the label pass on, with the mnemonic index \<open>opcodes\<close> at hand.\<close>

definition assemble_with ::
  "text_tools \<Rightarrow> version \<Rightarrow> u8 \<Rightarrow> (string \<rightharpoonup> opcode_def) \<Rightarrow> string list
    \<Rightarrow> (error + assembled) option" where
  "assemble_with tt v quest_language opcodes lines =
     (case find_labels lines of
        Inl e \<Rightarrow> Some (Inl e)
      | Inr t \<Rightarrow>
          (case assemble_code_segment (assemble_line tt v quest_language opcodes) lines t
                  \<lparr>code_w = [], reg_assigner = new_assigner\<rparr> of
             Inl e \<Rightarrow> Some (Inl e)
           | Inr (t', s) \<Rightarrow> finish_assembly t' s))"

definition assemble_quest_script ::
  "text_tools \<Rightarrow> version \<Rightarrow> u8 \<Rightarrow> string list \<Rightarrow> (error + assembled) option" where
  "assemble_quest_script tt v quest_language lines =
     (if v = PC_PATCH \<or> v = BB_PATCH \<or> v = UNKNOWN
      then Some (Inl (runtime_error ''.version directive is missing or invalid''))
      else
        (case find_labels lines of
           Inl e \<Rightarrow> Some (Inl e)
         | Inr t \<Rightarrow>
             (case opcodes_by_name_for_version v of
                Inl e \<Rightarrow> Some (Inl e)
              | Inr opcodes \<Rightarrow> assemble_with tt v quest_language opcodes lines)))"


section \<open>Properties of the assembler\<close>

subsection \<open>The function table\<close>















































subsection \<open>Arguments pushed before the instruction\<close>











end
